theory Spec2Isabelle
  imports Complex_Main "HOL-Library.Word"
begin

unbundle bit_operations_syntax

section \<open>The material resource of the renderer\<close>

text \<open>
  A shallow embedding of \<^verbatim>\<open>renderer/material.cpp\<close> (class \<^verbatim>\<open>Lumix::Material\<close>).

  Conventions.
  \<^item> \<^verbatim>\<open>uint8\<close>, \<^verbatim>\<open>uint32\<close> and \<^verbatim>\<open>uint64\<close> are words of that width. A shift
    \<^verbatim>\<open>1 << n\<close> is \<open>push_bit n 1\<close> on a 32-bit word; C++ leaves it undefined for
    \<open>n \<ge> 32\<close>, so statements about a single define bit assume \<open>n < 32\<close>.
  \<^item> \<^verbatim>\<open>float\<close> values are rationals. The code only stores and copies them, but for
    \<^verbatim>\<open>value * 255.0f\<close>, which the model computes exactly (as the float product is
    for the values of the statements below: 0.5 * 255 is 127.5); the conversion
    \<^verbatim>\<open>uint8(x)\<close> truncates towards zero.
  \<^item> \<^verbatim>\<open>m_textures\<close> is an array of \<^verbatim>\<open>MAX_TEXTURE_COUNT\<close> pointers; the model indexes
    it with any number. Writing beyond the array is undefined in C++, so statements
    assume slot indices and numbers of texture blocks within \<^verbatim>\<open>MAX_TEXTURE_COUNT\<close>.
  \<^item> The value of an entry of the uniform table is a union of an \<^verbatim>\<open>int32\<close> and of
    one, three or sixteen floats: sixteen cells, each holding the int or the float
    written to it last. A member reads its cells; read as the other type, a cell is
    reinterpreted by the platform.
  \<^item> Pointers to textures are indices into the texture manager's table of textures;
    a pointer to a shader is the shader itself (the manager keeps one shader per
    path, and the material never writes to a shader), \<open>None\<close> is \<^verbatim>\<open>nullptr\<close>.
  \<^item> Calls into collaborators whose effect lies outside the material (the dependency
    protocol of the resource base class, unloading through a manager, the shader's
    instance cache, the setters of a texture, the log) are recorded, in order, in a
    trace of events.
  \<^item> Constants and functions that the file takes from headers of other units (bgfx
    flag values, buffer sizes, the renderer's define table, path normalisation, crc32,
    the shader manager) are the fields of a record \<open>Env\<close> that the operations
    using them take as their first argument.
\<close>

type_synonym uint8 = "8 word"
type_synonym uint32 = "32 word"
type_synonym uint64 = "64 word"
type_synonym float = rat

subsection \<open>Shader: what the material reads of it\<close>

text \<open>
  Modelled from the spec: the class \<^verbatim>\<open>Shader\<close> is declared in another unit. It
  "declares an ordered uniform schema (name, type, engine handle) and a texture-slot
  schema (each slot optionally tied to a feature-define index)" (section 3); the
  fields below are the members and accessors that the material calls (section 6).
\<close>

datatype Uniform_Type = INT_TYPE | FLOAT | MATRIX4 | TIME | COLOR | VEC3

record Shader_Uniform =
  su_name :: string
  su_name_hash :: uint32
  su_type :: Uniform_Type
  su_handle :: nat

record TextureSlot =
  ts_uniform :: string
  ts_define_idx :: int
  ts_uniform_handle :: nat

record Shader =
  sh_path :: string
  sh_ready :: bool
  sh_uniforms :: "Shader_Uniform list"
  sh_texture_slots :: "TextureSlot list"
  sh_render_states :: uint64

text \<open>Modelled from the spec: \<^verbatim>\<open>Shader::getUniformCount\<close>, the length of the schema.\<close>

definition getUniformCount :: "Shader \<Rightarrow> nat" where
  "getUniformCount sh = length (sh_uniforms sh)"

text \<open>Modelled from the spec: \<^verbatim>\<open>Shader::getUniform(i)\<close>, called for \<open>i\<close> below the
  count only.\<close>

definition getUniform :: "Shader \<Rightarrow> nat \<Rightarrow> Shader_Uniform" where
  "getUniform sh i = sh_uniforms sh ! i"

text \<open>Modelled from the spec: \<^verbatim>\<open>Shader::getTextureSlotCount\<close>.\<close>

definition getTextureSlotCount :: "Shader \<Rightarrow> nat" where
  "getTextureSlotCount sh = length (sh_texture_slots sh)"

text \<open>
  Modelled from the spec: \<^verbatim>\<open>Shader::getTextureSlot(i)\<close>. \<^verbatim>\<open>Material::setTexture\<close>
  reads slot \<open>i\<close> of the shader without comparing \<open>i\<close> with the slot count; a slot
  the shader does not declare is tied to no define (\<open>-1\<close>).
\<close>

definition getTextureSlot :: "Shader \<Rightarrow> nat \<Rightarrow> TextureSlot" where
  "getTextureSlot sh i =
     (if i < length (sh_texture_slots sh) then sh_texture_slots sh ! i
      else \<lparr>ts_uniform = [], ts_define_idx = -1, ts_uniform_handle = 0\<rparr>)"

subsection \<open>Texture: the objects the texture manager owns\<close>

text \<open>
  Modelled from the spec: the class \<^verbatim>\<open>Texture\<close> of the renderer is declared in another
  unit. Section 3 gives it "\<^verbatim>\<open>flags\<close> (wrap/filter/srgb bitmask), \<^verbatim>\<open>atlas_size\<close>
  (optional, -1 = none), \<^verbatim>\<open>data_reference_count\<close>"; the path is the resource's, the
  handle is what \<^verbatim>\<open>getTextureHandle\<close> returns.
\<close>

record Texture =
  tex_path :: string
  tex_flags :: uint32
  tex_atlas_size :: int
  tex_data_refs :: nat
  tex_handle :: nat

subsection \<open>Events, commands, resource state, documents\<close>

datatype Resource_Ref = ShaderRes string | TextureRes nat

datatype Event =
    AddDependency Resource_Ref
  | RemoveDependency Resource_Ref
  | Unload Resource_Ref
  | GetInstance string uint32
  | SetAtlasSize nat int
  | SetFlags nat uint32
  | AddDataReference nat
  | LogWarning string
  | LogError string

datatype Shader_Instance = FirstInstance string | InstanceOf string uint32

text \<open>
  Modelled from the spec: the operations of \<^verbatim>\<open>CommandBufferGenerator\<close> (section 4.5),
  "\<^verbatim>\<open>setUniform(handle, 4-float-vector)\<close>, \<^verbatim>\<open>setTimeUniform(handle)\<close>,
  \<^verbatim>\<open>setTexture(slot, uniformHandle, textureHandle)\<close>, terminated by an \<^verbatim>\<open>end\<close>
  marker".
\<close>

datatype Command =
    SetUniform nat "float \<times> float \<times> float \<times> float"
  | SetTimeUniform nat
  | SetTexture nat nat nat
  | End

text \<open>Modelled from the spec: the states of a resource (section 3).\<close>

datatype State = EMPTY | LOADING | READY | FAILURE

text \<open>
  Modelled from the spec: the class \<^verbatim>\<open>JsonSerializer\<close> is used by the material but
  defined elsewhere. A document is "a declarative key/value document ... with
  nested objects/arrays" (sections 4.2 and 6): an object is the list of its
  \<open>(label, value)\<close> entries in the order they are written, where a label may repeat
  (the \<^verbatim>\<open>texture\<close> blocks). Reading walks the entries of an object in order
  (\<^verbatim>\<open>isObjectEnd\<close>, \<^verbatim>\<open>deserializeLabel\<close>); writing appends them.
\<close>

datatype Json =
    JString string
  | JNumber rat
  | JBool bool
  | JArray "Json list"
  | JObject "(string \<times> Json) list"

record File =
  file_document :: Json
  file_size :: nat

subsection \<open>What the file takes from other units\<close>

record Env =
  getDefaultShader :: "Shader option"
  getShaderDefine :: "nat \<Rightarrow> string"
  getShaderDefineIdx :: "string \<Rightarrow> nat"
  getMaterialColorShininessUniform :: nat
  shader_manager_load :: "string \<Rightarrow> Shader option"
  normalize :: "string \<Rightarrow> string"
  getDir :: "string \<Rightarrow> string"
  crc32 :: "string \<Rightarrow> uint32"
  MAX_PATH_LENGTH :: nat
  MAX_TEXTURE_COUNT :: nat
  BGFX_TEXTURE_SRGB :: uint32
  BGFX_TEXTURE_U_CLAMP :: uint32
  BGFX_TEXTURE_V_CLAMP :: uint32
  BGFX_TEXTURE_W_CLAMP :: uint32
  BGFX_TEXTURE_MIN_POINT :: uint32
  BGFX_TEXTURE_MIN_ANISOTROPIC :: uint32
  BGFX_TEXTURE_MAG_POINT :: uint32
  BGFX_TEXTURE_MAG_ANISOTROPIC :: uint32
  BGFX_STATE_ALPHA_REF_SHIFT :: nat
  BGFX_STATE_ALPHA_REF_MASK :: uint64
  float_of_int_bits :: "int \<Rightarrow> float"
  int_bits_of_float :: "float \<Rightarrow> int"

text \<open>
  \<^item> \<open>getDefaultShader\<close>, \<open>getShaderDefine\<close>, \<open>getShaderDefineIdx\<close> and
    \<open>getMaterialColorShininessUniform\<close> are the renderer's methods of these names;
  \<^item> \<open>shader_manager_load\<close> is \<^verbatim>\<open>m_resource_manager.get(ResourceManager::SHADER)->load\<close>,
    whose result may be \<^verbatim>\<open>nullptr\<close>;
  \<^item> \<open>normalize\<close> is what the constructor of \<^verbatim>\<open>Path\<close> makes of a string,
    \<open>getDir\<close> is \<^verbatim>\<open>PathUtils::getDir\<close>;
  \<^item> \<open>float_of_int_bits\<close> and \<open>int_bits_of_float\<close> are the platform's reading of
    the four bytes of an \<^verbatim>\<open>int32\<close> as a \<^verbatim>\<open>float\<close> and of a \<^verbatim>\<open>float\<close> as an
    \<^verbatim>\<open>int32\<close>;
  \<^item> the remaining fields are the constants of these names.
  The macro \<^verbatim>\<open>BGFX_STATE_ALPHA_REF(ref)\<close> of bgfx shifts the reference to its place in
  the 64-bit state and masks it.
\<close>

definition BGFX_STATE_ALPHA_REF :: "Env \<Rightarrow> uint8 \<Rightarrow> uint64" where
  "BGFX_STATE_ALPHA_REF env ref =
     push_bit (BGFX_STATE_ALPHA_REF_SHIFT env) (ucast ref) AND BGFX_STATE_ALPHA_REF_MASK env"

text \<open>The 8-bit alpha-reference sub-field of a render state, read back.\<close>

definition alpha_ref_field :: "Env \<Rightarrow> uint64 \<Rightarrow> uint8" where
  "alpha_ref_field env st =
     ucast (drop_bit (BGFX_STATE_ALPHA_REF_SHIFT env) (st AND BGFX_STATE_ALPHA_REF_MASK env))"

text \<open>\<^verbatim>\<open>uint8(x)\<close> for a float \<open>x\<close>: the fraction is dropped. C++ defines the
  conversion for values whose integral part fits the type; the model wraps the
  others.\<close>

definition uint8_of_float :: "float \<Rightarrow> uint8" where
  "uint8_of_float x = word_of_int (if 0 \<le> x then \<lfloor>x\<rfloor> else \<lceil>x\<rceil>)"

text \<open>\<^verbatim>\<open>0.3f\<close>. The float next to three tenths and three tenths itself have the same
  \<^verbatim>\<open>uint8\<close> of their product with 255, which is all the code computes from it.\<close>

definition DEFAULT_ALPHA_REF_VALUE :: float where
  "DEFAULT_ALPHA_REF_VALUE = 3 / 10"

subsection \<open>Reading values of a document\<close>

text \<open>
  Modelled from the spec: the \<^verbatim>\<open>deserialize\<close> overloads of \<^verbatim>\<open>JsonSerializer\<close>, which
  take the variable to fill and a default ("\<^verbatim>\<open>alpha_ref\<close> (float, default 0.3)",
  "\<^verbatim>\<open>layer_count\<close> (int, default 1)"). A value of the expected kind is stored, a
  string cut to the buffer's length (one character is the terminator); any other
  value gives the default. A number read as an integer loses its fraction.
\<close>

definition deserialize_string :: "nat \<Rightarrow> string \<Rightarrow> Json \<Rightarrow> string" where
  "deserialize_string max_length dflt v =
     (case v of JString s \<Rightarrow> take (max_length - 1) s | _ \<Rightarrow> dflt)"

text \<open>Modelled from the spec: \<^verbatim>\<open>JsonSerializer::deserialize\<close> of a float, as above.\<close>

definition deserialize_float :: "float \<Rightarrow> Json \<Rightarrow> float" where
  "deserialize_float dflt v = (case v of JNumber q \<Rightarrow> q | _ \<Rightarrow> dflt)"

text \<open>Modelled from the spec: \<^verbatim>\<open>JsonSerializer::deserialize\<close> of an int, as above.\<close>

definition deserialize_int :: "int \<Rightarrow> Json \<Rightarrow> int" where
  "deserialize_int dflt v =
     (case v of JNumber q \<Rightarrow> (if 0 \<le> q then \<lfloor>q\<rfloor> else \<lceil>q\<rceil>) | _ \<Rightarrow> dflt)"

text \<open>Modelled from the spec: \<^verbatim>\<open>JsonSerializer::deserialize\<close> of a bool, as above.\<close>

definition deserialize_bool :: "bool \<Rightarrow> Json \<Rightarrow> bool" where
  "deserialize_bool dflt v = (case v of JBool b \<Rightarrow> b | _ \<Rightarrow> dflt)"

text \<open>
  Modelled from the spec: \<^verbatim>\<open>deserializeObjectBegin\<close> and \<^verbatim>\<open>deserializeArrayBegin\<close>
  of \<^verbatim>\<open>JsonSerializer\<close> open the value at hand; the loops that follow run over its
  entries or items. \<^verbatim>\<open>deserializeArrayItem(x, default)\<close> at the \<open>k\<close>-th position
  reads item \<open>k\<close>, or the default when the array has ended.
\<close>

definition object_entries :: "Json \<Rightarrow> (string \<times> Json) list" where
  "object_entries v = (case v of JObject es \<Rightarrow> es | _ \<Rightarrow> [])"

text \<open>Modelled from the spec: the items between \<^verbatim>\<open>deserializeArrayBegin\<close> and
  \<^verbatim>\<open>isArrayEnd\<close> of \<^verbatim>\<open>JsonSerializer\<close>, as above.\<close>

definition array_items :: "Json \<Rightarrow> Json list" where
  "array_items v = (case v of JArray xs \<Rightarrow> xs | _ \<Rightarrow> [])"

text \<open>Modelled from the spec: \<^verbatim>\<open>JsonSerializer::deserializeArrayItem\<close> of a float, as
  above.\<close>

definition float_item :: "Json list \<Rightarrow> nat \<Rightarrow> float \<Rightarrow> float" where
  "float_item xs k dflt = (if k < length xs then deserialize_float dflt (xs ! k) else dflt)"

subsection \<open>The material\<close>

text \<open>
  Modelled from the spec: \<^verbatim>\<open>struct Material::Uniform\<close> is declared in
  \<^verbatim>\<open>material.h\<close>, which is not among the sources. An entry of the uniform table is
  "\<^verbatim>\<open>{name_hash, type, value}\<close>" (section 3): it has one value. The members
  \<^verbatim>\<open>int_value\<close>, \<^verbatim>\<open>float_value\<close>, \<^verbatim>\<open>vec3[3]\<close> and \<^verbatim>\<open>matrix[16]\<close> that
  \<^verbatim>\<open>material.cpp\<close> reads and writes are the views of that value, the members of a
  union, which start at the same address. The value is 16 cells of four bytes; a cell
  holds what was written to it last, an \<^verbatim>\<open>int32\<close> or a \<^verbatim>\<open>float\<close>.
\<close>

datatype Cell = IntCell int | FloatCell float

record Uniform =
  name_hash :: uint32
  cells :: "Cell list"

text \<open>Modelled from the spec: a cell read as a \<^verbatim>\<open>float\<close>. Where an \<^verbatim>\<open>int32\<close> was
  written, its bytes are read as a float.\<close>

definition cell_float :: "Env \<Rightarrow> Cell \<Rightarrow> float" where
  "cell_float env c = (case c of FloatCell x \<Rightarrow> x | IntCell n \<Rightarrow> float_of_int_bits env n)"

text \<open>Modelled from the spec: a cell read as an \<^verbatim>\<open>int32\<close>.\<close>

definition cell_int :: "Env \<Rightarrow> Cell \<Rightarrow> int" where
  "cell_int env c = (case c of IntCell n \<Rightarrow> n | FloatCell x \<Rightarrow> int_bits_of_float env x)"

text \<open>Modelled from the spec: the member \<^verbatim>\<open>int_value\<close>, the first cell.\<close>

definition int_value :: "Env \<Rightarrow> Uniform \<Rightarrow> int" where
  "int_value env u = cell_int env (cells u ! 0)"

text \<open>Modelled from the spec: the member \<^verbatim>\<open>float_value\<close>, the first cell.\<close>

definition float_value :: "Env \<Rightarrow> Uniform \<Rightarrow> float" where
  "float_value env u = cell_float env (cells u ! 0)"

text \<open>Modelled from the spec: the member \<^verbatim>\<open>matrix[j]\<close>, cell \<open>j\<close>.\<close>

definition matrix :: "Env \<Rightarrow> Uniform \<Rightarrow> nat \<Rightarrow> float" where
  "matrix env u j = cell_float env (cells u ! j)"

text \<open>Modelled from the spec: the member \<^verbatim>\<open>vec3\<close>, the first three cells.\<close>

definition vec3 :: "Env \<Rightarrow> Uniform \<Rightarrow> float \<times> float \<times> float" where
  "vec3 env u = (matrix env u 0, matrix env u 1, matrix env u 2)"

text \<open>Modelled from the spec: an assignment to \<^verbatim>\<open>int_value\<close>.\<close>

definition set_int_value :: "int \<Rightarrow> Uniform \<Rightarrow> Uniform" where
  "set_int_value n u = u\<lparr>cells := (cells u)[0 := IntCell n]\<rparr>"

text \<open>Modelled from the spec: an assignment to \<^verbatim>\<open>float_value\<close>.\<close>

definition set_float_value :: "float \<Rightarrow> Uniform \<Rightarrow> Uniform" where
  "set_float_value x u = u\<lparr>cells := (cells u)[0 := FloatCell x]\<rparr>"

text \<open>Modelled from the spec: assignments to \<^verbatim>\<open>vec3[0]\<close>, \<^verbatim>\<open>vec3[1]\<close> and
  \<^verbatim>\<open>vec3[2]\<close>.\<close>

definition set_vec3 :: "float \<times> float \<times> float \<Rightarrow> Uniform \<Rightarrow> Uniform" where
  "set_vec3 v u =
     u\<lparr>cells := (cells u)[0 := FloatCell (fst v), 1 := FloatCell (fst (snd v)),
                            2 := FloatCell (snd (snd v))]\<rparr>"

text \<open>Modelled from the spec: assignments to \<^verbatim>\<open>matrix[0]\<close> ... \<^verbatim>\<open>matrix[15]\<close>, which
  are all the cells.\<close>

definition set_matrix :: "(nat \<Rightarrow> float) \<Rightarrow> Uniform \<Rightarrow> Uniform" where
  "set_matrix f u = u\<lparr>cells := map (\<lambda>j. FloatCell (f j)) [0..<16]\<rparr>"

text \<open>
  \<^verbatim>\<open>m_uniforms.emplace()\<close> appends an entry that no constructor fills; the model takes
  zeros. Every use below writes the members it reads later or copies the entry whole.
\<close>

definition Uniform_emplace :: Uniform where
  "Uniform_emplace = \<lparr>name_hash = 0, cells = replicate 16 (FloatCell 0)\<rparr>"

record Material =
  textures :: "Texture list"
  trace :: "Event list"
  m_path :: string
  m_state :: State
  m_size :: nat
  m_shader :: "Shader option"
  m_shader_instance :: "Shader_Instance option"
  m_uniforms :: "Uniform list"
  m_textures :: "nat \<Rightarrow> nat option"
  m_texture_count :: nat
  m_render_states :: uint64
  m_color :: "float \<times> float \<times> float"
  m_shininess :: float
  m_alpha_ref :: float
  m_define_mask :: uint32
  m_command_buffer :: "Command list option"
  m_layer_count :: int

text \<open>
  The first two fields are the part of the engine the material works on: the texture
  manager's textures (a \<^verbatim>\<open>Texture*\<close> is an index into the list) and the trace of
  calls into collaborators. \<^verbatim>\<open>m_path\<close>, \<^verbatim>\<open>m_state\<close> and \<^verbatim>\<open>m_size\<close> are the
  fields of the base class \<^verbatim>\<open>Resource\<close> behind \<^verbatim>\<open>getPath()\<close>, \<^verbatim>\<open>isReady()\<close>
  and \<^verbatim>\<open>m_size\<close>.
\<close>

text \<open>Modelled from the spec: \<^verbatim>\<open>Resource::isReady\<close>, the state READY of section 3.\<close>

definition isReady :: "Material \<Rightarrow> bool" where
  "isReady m = (m_state m = READY)"

text \<open>A call into a collaborator, appended to the trace.\<close>

definition emit :: "Event \<Rightarrow> Material \<Rightarrow> Material" where
  "emit e m = m\<lparr>trace := trace m @ [e]\<rparr>"

text \<open>
  Modelled from the spec: \<^verbatim>\<open>Resource::addDependency\<close>, \<^verbatim>\<open>Resource::removeDependency\<close>
  and \<^verbatim>\<open>ResourceManagerBase::unload\<close> (section 4.1) keep counts in the base class and
  the manager; for the material they are calls, which the trace records.
\<close>

definition addDependency :: "Resource_Ref \<Rightarrow> Material \<Rightarrow> Material" where
  "addDependency r m = emit (AddDependency r) m"

text \<open>Modelled from the spec: \<^verbatim>\<open>Resource::removeDependency\<close>, as above.\<close>

definition removeDependency :: "Resource_Ref \<Rightarrow> Material \<Rightarrow> Material" where
  "removeDependency r m = emit (RemoveDependency r) m"

text \<open>Modelled from the spec: \<^verbatim>\<open>ResourceManagerBase::unload\<close>, as above.\<close>

definition unload_resource :: "Resource_Ref \<Rightarrow> Material \<Rightarrow> Material" where
  "unload_resource r m = emit (Unload r) m"

text \<open>
  Modelled from the spec: \<^verbatim>\<open>Shader::getInstance(mask)\<close> returns the instance of the
  shader's cache "keyed by define-mask" (section 3).
  \<^verbatim>\<open>m_shader_instance = &m_shader->getInstance(m_define_mask)\<close> is one call into that
  cache, and the instance of the mask.
\<close>

definition resolveInstance :: "Shader \<Rightarrow> Material \<Rightarrow> Material" where
  "resolveInstance sh m =
     (emit (GetInstance (sh_path sh) (m_define_mask m)) m)
       \<lparr>m_shader_instance := Some (InstanceOf (sh_path sh) (m_define_mask m))\<rparr>"

subsection \<open>The texture manager and the texture's setters\<close>

text \<open>
  Modelled from the spec: \<^verbatim>\<open>ResourceManagerBase::load\<close> of the texture manager
  (section 4.1): "returns the cached instance if present ... or creates a new
  EMPTY/LOADING instance", the cache being "keyed by normalized path". A new texture
  has no flags, no atlas size (\<open>-1\<close>, section 3) and no data reference.
\<close>

function find_texture :: "string \<Rightarrow> Texture list \<Rightarrow> nat \<Rightarrow> nat option" where
  "find_texture p ts i =
     (if i < length ts
      then (if tex_path (ts ! i) = p then Some i else find_texture p ts (Suc i))
      else None)"
  by pat_completeness auto
termination
  by (relation "measure (\<lambda>(p, ts, i). length ts - i)") auto

text \<open>Modelled from the spec: \<^verbatim>\<open>ResourceManagerBase::load\<close> of the texture manager, as
  above: the texture of the normalised path, appended to the table if it is new.\<close>

definition texture_manager_load :: "Env \<Rightarrow> string \<Rightarrow> Material \<Rightarrow> nat \<times> Material" where
  "texture_manager_load env path m =
     (case find_texture (normalize env path) (textures m) 0 of
        Some t \<Rightarrow> (t, m)
      | None \<Rightarrow>
          (length (textures m),
           m\<lparr>textures := textures m @
                [\<lparr>tex_path = normalize env path, tex_flags = 0, tex_atlas_size = -1,
                  tex_data_refs = 0, tex_handle = length (textures m)\<rparr>]\<rparr>))"

text \<open>
  Modelled from the spec: the accessors of \<^verbatim>\<open>Texture\<close> (section 6:
  \<^verbatim>\<open>getFlags/setFlags\<close>, \<^verbatim>\<open>getAtlasSize/setAtlasSize\<close>, \<^verbatim>\<open>addDataReference\<close>,
  \<^verbatim>\<open>getTextureHandle\<close>) read and write the fields of section 3; \<^verbatim>\<open>getData()\<close> is
  not null when the pixel data is retained, that is when the data reference count is
  positive. The pointer is one a manager returned, so it is in the table.
\<close>

definition texture_at :: "Material \<Rightarrow> nat \<Rightarrow> Texture" where
  "texture_at m t = textures m ! t"

text \<open>Modelled from the spec: \<^verbatim>\<open>Texture::setAtlasSize\<close>, as above.\<close>

definition setAtlasSize :: "nat \<Rightarrow> int \<Rightarrow> Material \<Rightarrow> Material" where
  "setAtlasSize t n m =
     emit (SetAtlasSize t n)
       (m\<lparr>textures := (textures m)[t := (texture_at m t)\<lparr>tex_atlas_size := n\<rparr>]\<rparr>)"

text \<open>Modelled from the spec: \<^verbatim>\<open>Texture::setFlags\<close>, as above.\<close>

definition setFlags :: "nat \<Rightarrow> uint32 \<Rightarrow> Material \<Rightarrow> Material" where
  "setFlags t f m =
     emit (SetFlags t f) (m\<lparr>textures := (textures m)[t := (texture_at m t)\<lparr>tex_flags := f\<rparr>]\<rparr>)"

text \<open>Modelled from the spec: \<^verbatim>\<open>Texture::addDataReference\<close>, as above.\<close>

definition addDataReference :: "nat \<Rightarrow> Material \<Rightarrow> Material" where
  "addDataReference t m =
     emit (AddDataReference t)
       (m\<lparr>textures := (textures m)
           [t := (texture_at m t)\<lparr>tex_data_refs := Suc (tex_data_refs (texture_at m t))\<rparr>]\<rparr>)"

subsection \<open>Defines\<close>

text \<open>\<^verbatim>\<open>1 << n\<close> as a 32-bit value.\<close>

definition shl1 :: "nat \<Rightarrow> uint32" where
  "shl1 n = push_bit n 1"

definition isDefined :: "uint8 \<Rightarrow> Material \<Rightarrow> bool" where
  "isDefined define_idx m = (m_define_mask m AND shl1 (unat define_idx) \<noteq> 0)"

definition setDefine :: "uint8 \<Rightarrow> bool \<Rightarrow> Material \<Rightarrow> Material" where
  "setDefine define_idx enabled m =
     (let old_mask = m_define_mask m;
          m1 = (if enabled
                then m\<lparr>m_define_mask := m_define_mask m OR shl1 (unat define_idx)\<rparr>
                else m\<lparr>m_define_mask := m_define_mask m AND NOT (shl1 (unat define_idx))\<rparr>)
      in if \<not> isReady m1 then m1
         else case m_shader m1 of
           None \<Rightarrow> m1
         | Some sh \<Rightarrow>
             if old_mask \<noteq> m_define_mask m1 then resolveInstance sh m1 else m1)"

text \<open>The number of shader-instance resolutions a trace records.\<close>

fun is_GetInstance :: "Event \<Rightarrow> bool" where
  "is_GetInstance (GetInstance _ _) = True"
| "is_GetInstance _ = False"

definition resolutions :: "Material \<Rightarrow> nat" where
  "resolutions m = length (filter is_GetInstance (trace m))"

subsection \<open>Alpha reference, command buffer\<close>

definition setAlphaRef :: "Env \<Rightarrow> float \<Rightarrow> Material \<Rightarrow> Material" where
  "setAlphaRef env v m =
     (let val = uint8_of_float (v * 255)
      in m\<lparr>m_alpha_ref := v,
           m_render_states :=
             (m_render_states m AND NOT (BGFX_STATE_ALPHA_REF_MASK env))
               OR BGFX_STATE_ALPHA_REF env val\<rparr>)"

text \<open>
  The body of the first loop of \<^verbatim>\<open>createCommandBuffer\<close>. The buffer is the sequence
  of operations the generator was given. The switch has no case for \<^verbatim>\<open>INT\<close> and
  \<^verbatim>\<open>MATRIX4\<close> but an assertion, and adds no operation for them.
\<close>

definition uniform_command :: "Env \<Rightarrow> Shader_Uniform \<Rightarrow> Uniform \<Rightarrow> Command list" where
  "uniform_command env shader_uniform uniform =
     (case su_type shader_uniform of
        FLOAT \<Rightarrow> [SetUniform (su_handle shader_uniform) (float_value env uniform, 0, 0, 0)]
      | VEC3 \<Rightarrow>
          [SetUniform (su_handle shader_uniform)
             (fst (vec3 env uniform), fst (snd (vec3 env uniform)),
              snd (snd (vec3 env uniform)), 0)]
      | COLOR \<Rightarrow>
          [SetUniform (su_handle shader_uniform)
             (fst (vec3 env uniform), fst (snd (vec3 env uniform)),
              snd (snd (vec3 env uniform)), 0)]
      | TIME \<Rightarrow> [SetTimeUniform (su_handle shader_uniform)]
      | _ \<Rightarrow> [])"

text \<open>The body of the second loop of \<^verbatim>\<open>createCommandBuffer\<close>, for slot \<open>i\<close>.\<close>

definition texture_command :: "Shader \<Rightarrow> Material \<Rightarrow> nat \<Rightarrow> Command list" where
  "texture_command sh m i =
     (if i \<ge> m_texture_count m then []
      else case m_textures m i of
        None \<Rightarrow> []
      | Some t \<Rightarrow>
          [SetTexture i (ts_uniform_handle (getTextureSlot sh i)) (tex_handle (texture_at m t))])"

definition createCommandBuffer :: "Env \<Rightarrow> Material \<Rightarrow> Material" where
  "createCommandBuffer env m =
     (case m_shader m of
        None \<Rightarrow> m\<lparr>m_command_buffer := None\<rparr>
      | Some sh \<Rightarrow>
          m\<lparr>m_command_buffer := Some
              (concat (map (\<lambda>i. uniform_command env (getUniform sh i) (m_uniforms m ! i))
                         [0..<getUniformCount sh])
               @ concat (map (texture_command sh m) [0..<getTextureSlotCount sh])
               @ [SetUniform (getMaterialColorShininessUniform env)
                    (fst (m_color m), fst (snd (m_color m)), snd (snd (m_color m)),
                     m_shininess m),
                  End])\<rparr>)"

subsection \<open>Readiness reconciliation\<close>

text \<open>The inner loop of \<^verbatim>\<open>onBeforeReady\<close>: the first \<open>j\<close> from \<open>j\<close> on whose entry has
  the hash.\<close>

function find_uniform :: "uint32 \<Rightarrow> Uniform list \<Rightarrow> nat \<Rightarrow> nat option" where
  "find_uniform h us j =
     (if j < length us
      then (if name_hash (us ! j) = h then Some j else find_uniform h us (Suc j))
      else None)"
  by pat_completeness auto
termination
  by (relation "measure (\<lambda>(h, us, j). length us - j)") auto

text \<open>One round of the outer loop, for the shader's uniform \<open>i\<close>.\<close>

definition reconcile_uniform :: "Shader \<Rightarrow> nat \<Rightarrow> Uniform list \<Rightarrow> Uniform list" where
  "reconcile_uniform sh i us =
     (let shader_uniform = getUniform sh i
      in case find_uniform (su_name_hash shader_uniform) us i of
           Some j \<Rightarrow> us[i := us ! j, j := us ! i]
         | None \<Rightarrow>
             (let us1 = (if i < length us then us @ [us ! i] else us @ [Uniform_emplace])
              in us1[i := (us1 ! i)\<lparr>name_hash := su_name_hash shader_uniform\<rparr>]))"

text \<open>The define of texture slot \<open>i\<close> follows the slot: set when a texture is bound,
  cleared when none is.\<close>

definition texture_define :: "Shader \<Rightarrow> nat \<Rightarrow> Material \<Rightarrow> Material" where
  "texture_define sh i m =
     (let define_idx = ts_define_idx (getTextureSlot sh i)
      in if define_idx \<ge> 0
         then (if m_textures m i \<noteq> None
               then m\<lparr>m_define_mask := m_define_mask m OR shl1 (nat define_idx)\<rparr>
               else m\<lparr>m_define_mask := m_define_mask m AND NOT (shl1 (nat define_idx))\<rparr>)
         else m)"

definition onBeforeReady :: "Env \<Rightarrow> Material \<Rightarrow> Material" where
  "onBeforeReady env m =
     (case m_shader m of
        None \<Rightarrow> m
      | Some sh \<Rightarrow>
          (let m1 = m\<lparr>m_uniforms :=
                       fold (reconcile_uniform sh) [0..<getUniformCount sh] (m_uniforms m)\<rparr>;
               alpha_ref = uint8_of_float (m_alpha_ref m1 * 255);
               m2 = m1\<lparr>m_render_states :=
                         BGFX_STATE_ALPHA_REF env alpha_ref OR sh_render_states sh\<rparr>;
               m3 = fold (texture_define sh) [0..<getTextureSlotCount sh] m2
           in resolveInstance sh (createCommandBuffer env m3)))"

subsection \<open>Shader and textures of a material\<close>

text \<open>
  \<^verbatim>\<open>setShader(Shader*)\<close>. With no default shader the source would dereference a null
  pointer in its last branch; the model leaves the instance null there.
\<close>

definition setShader :: "Env \<Rightarrow> Shader option \<Rightarrow> Material \<Rightarrow> Material" where
  "setShader env shader m =
     (let m1 = (case m_shader m of
                  None \<Rightarrow> m
                | Some old \<Rightarrow>
                    if Some old \<noteq> getDefaultShader env
                    then unload_resource (ShaderRes (sh_path old))
                           (removeDependency (ShaderRes (sh_path old)) (m\<lparr>m_shader := None\<rparr>))
                    else m);
          m2 = m1\<lparr>m_shader := shader\<rparr>
      in case shader of
           Some sh \<Rightarrow>
             (let m3 = addDependency (ShaderRes (sh_path sh)) m2
              in if sh_ready sh then onBeforeReady env m3 else m3)
         | None \<Rightarrow>
             m2\<lparr>m_shader := getDefaultShader env,
                m_shader_instance :=
                  map_option (\<lambda>d. FirstInstance (sh_path d)) (getDefaultShader env)\<rparr>)"

definition setShader_path :: "Env \<Rightarrow> string \<Rightarrow> Material \<Rightarrow> Material" where
  "setShader_path env path m = setShader env (shader_manager_load env path) m"

definition setTexture :: "Env \<Rightarrow> nat \<Rightarrow> nat option \<Rightarrow> Material \<Rightarrow> Material" where
  "setTexture env i texture m =
     (let old_texture = (if i < m_texture_count m then m_textures m i else None);
          m1 = (case texture of Some t \<Rightarrow> addDependency (TextureRes t) m | None \<Rightarrow> m);
          m2 = m1\<lparr>m_textures := (m_textures m1)(i := texture)\<rparr>;
          m3 = (if i \<ge> m_texture_count m2 then m2\<lparr>m_texture_count := i + 1\<rparr> else m2);
          m4 = (case old_texture of
                  None \<Rightarrow> m3
                | Some old \<Rightarrow>
                    (let m' = (case texture of
                                 Some t \<Rightarrow> setAtlasSize t (tex_atlas_size (texture_at m3 old)) m3
                               | None \<Rightarrow> m3)
                     in unload_resource (TextureRes old)
                          (removeDependency (TextureRes old) m')))
      in if isReady m4
         then (case m_shader m4 of
                 None \<Rightarrow> m4
               | Some sh \<Rightarrow>
                   resolveInstance sh (createCommandBuffer env (texture_define sh i m4)))
         else m4)"

definition setTexturePath :: "Env \<Rightarrow> nat \<Rightarrow> string \<Rightarrow> Material \<Rightarrow> Material" where
  "setTexturePath env i path m =
     (if length path = 0 then setTexture env i None m
      else (let (t, m1) = texture_manager_load env path m in setTexture env i (Some t) m1))"

subsection \<open>Construction and unloading\<close>

text \<open>
  The constructor, on the texture table and the trace of the engine it is created in.
  The base class starts a resource empty, with size 0.
\<close>

definition Material_new :: "Env \<Rightarrow> string \<Rightarrow> Texture list \<Rightarrow> Event list \<Rightarrow> Material" where
  "Material_new env path ts tr =
     setShader env None
       (setAlphaRef env DEFAULT_ALPHA_REF_VALUE
          \<lparr>textures = ts, trace = tr, m_path = path, m_state = EMPTY, m_size = 0,
           m_shader = None, m_shader_instance = None, m_uniforms = [],
           m_textures = (\<lambda>i. None), m_texture_count = 0, m_render_states = 0,
           m_color = (1, 1, 1), m_shininess = 4, m_alpha_ref = 0, m_define_mask = 0,
           m_command_buffer = None, m_layer_count = 1\<rparr>)"

definition unload_texture :: "nat \<Rightarrow> Material \<Rightarrow> Material" where
  "unload_texture i m =
     (case m_textures m i of
        None \<Rightarrow> m
      | Some t \<Rightarrow> unload_resource (TextureRes t) (removeDependency (TextureRes t) m))"

definition unload :: "Env \<Rightarrow> Material \<Rightarrow> Material" where
  "unload env m =
     (let m1 = setShader env None (m\<lparr>m_command_buffer := None, m_uniforms := []\<rparr>);
          m2 = fold unload_texture [0..<m_texture_count m1] m1
      in m2\<lparr>m_texture_count := 0\<rparr>)"

subsection \<open>Reading a material document\<close>

definition deserializeDefines :: "Env \<Rightarrow> Json \<Rightarrow> Material \<Rightarrow> Material" where
  "deserializeDefines env v m =
     m\<lparr>m_define_mask :=
         fold (\<lambda>item mask.
                 mask OR shl1 (getShaderDefineIdx env (deserialize_string 32 [] item)))
           (array_items v) 0\<rparr>"

definition deserialize_vec3 :: "float \<Rightarrow> Json \<Rightarrow> float \<times> float \<times> float" where
  "deserialize_vec3 dflt v =
     (let xs = array_items v in (float_item xs 0 dflt, float_item xs 1 dflt, float_item xs 2 dflt))"

text \<open>One label of a uniform object, on the entry being filled.\<close>

definition uniform_label ::
  "Env \<Rightarrow> string \<times> Json \<Rightarrow> Uniform \<times> Material \<Rightarrow> Uniform \<times> Material" where
  "uniform_label env lv um =
     (case lv of (label, v) \<Rightarrow> case um of (uniform, m) \<Rightarrow>
        if label = ''name''
        then (uniform\<lparr>name_hash := crc32 env (deserialize_string 32 [] v)\<rparr>, m)
        else if label = ''int_value''
        then (set_int_value (deserialize_int 0 v) uniform, m)
        else if label = ''float_value''
        then (set_float_value (deserialize_float 0 v) uniform, m)
        else if label = ''matrix_value''
        then (set_matrix (\<lambda>i. float_item (array_items v) i 0) uniform, m)
        else if label = ''time''
        then (set_float_value (deserialize_float 0 v) uniform, m)
        else if label = ''color''
        then (set_vec3 (deserialize_vec3 0 v) uniform, m)
        else if label = ''vec3''
        then (set_vec3 (deserialize_vec3 0 v) uniform, m)
        else (uniform, emit (LogWarning label) m))"

definition deserializeUniform :: "Env \<Rightarrow> Json \<Rightarrow> Material \<Rightarrow> Material" where
  "deserializeUniform env v m =
     (let (uniform, m1) = fold (uniform_label env) (object_entries v) (Uniform_emplace, m)
      in m1\<lparr>m_uniforms := m_uniforms m1 @ [uniform]\<rparr>)"

definition deserializeUniforms :: "Env \<Rightarrow> Json \<Rightarrow> Material \<Rightarrow> Material" where
  "deserializeUniforms env v m =
     fold (deserializeUniform env) (array_items v) (m\<lparr>m_uniforms := []\<rparr>)"

text \<open>The path of a texture named in a block: under the material's directory unless it
  starts with a separator. The buffer holds \<^verbatim>\<open>MAX_PATH_LENGTH\<close> characters.\<close>

definition resolve_texture_path :: "Env \<Rightarrow> string \<Rightarrow> string \<Rightarrow> string" where
  "resolve_texture_path env material_dir path =
     (if hd path \<noteq> CHR ''/'' \<and> hd path \<noteq> CHR 0x5C
      then take (MAX_PATH_LENGTH env - 1) (material_dir @ path)
      else path)"

text \<open>The value of \<^verbatim>\<open>min_filter\<close> or \<^verbatim>\<open>mag_filter\<close>.\<close>

definition texture_filter ::
  "uint32 \<Rightarrow> uint32 \<Rightarrow> Json \<Rightarrow> uint32 \<Rightarrow> Material \<Rightarrow> uint32 \<times> Material" where
  "texture_filter point anisotropic v flags m =
     (let label = deserialize_string 256 [] v
      in if label = ''point'' then (flags OR point, m)
         else if label = ''anisotropic'' then (flags OR anisotropic, m)
         else (flags, emit (LogError label) m))"

text \<open>
  \<^verbatim>\<open>deserializeTexture\<close>. Its locals \<^verbatim>\<open>keep_data\<close>, \<^verbatim>\<open>flags\<close> and
  \<^verbatim>\<open>atlas_size\<close> are a triple. One label either goes on (\<open>Inr\<close>) or is the
  \<^verbatim>\<open>return false\<close> of the last branch (\<open>Inl\<close>).
\<close>

definition texture_label ::
  "Env \<Rightarrow> string \<Rightarrow> string \<Rightarrow> Json \<Rightarrow> bool \<times> uint32 \<times> int \<Rightarrow> Material
     \<Rightarrow> Material + ((bool \<times> uint32 \<times> int) \<times> Material)" where
  "texture_label env material_dir label v acc m =
     (case acc of (keep_data, flags, atlas_size) \<Rightarrow>
        if label = ''source'' then
          (let path = deserialize_string (MAX_PATH_LENGTH env) [] v
           in if path \<noteq> [] then
                (let texture_path = resolve_texture_path env material_dir path;
                     (t, m1) = texture_manager_load env texture_path m;
                     m2 = m1\<lparr>m_textures := (m_textures m1)(m_texture_count m1 := Some t)\<rparr>
                 in Inr (acc, addDependency (TextureRes t) m2))
              else Inr (acc, m))
        else if label = ''atlas_size'' then
          Inr ((keep_data, flags, deserialize_int (-1) v), m)
        else if label = ''min_filter'' then
          (let (flags', m1) =
                 texture_filter (BGFX_TEXTURE_MIN_POINT env) (BGFX_TEXTURE_MIN_ANISOTROPIC env)
                   v flags m
           in Inr ((keep_data, flags', atlas_size), m1))
        else if label = ''mag_filter'' then
          (let (flags', m1) =
                 texture_filter (BGFX_TEXTURE_MAG_POINT env) (BGFX_TEXTURE_MAG_ANISOTROPIC env)
                   v flags m
           in Inr ((keep_data, flags', atlas_size), m1))
        else if label = ''u_clamp'' then
          Inr ((keep_data,
                if deserialize_bool False v then flags OR BGFX_TEXTURE_U_CLAMP env else flags,
                atlas_size), m)
        else if label = ''v_clamp'' then
          Inr ((keep_data,
                if deserialize_bool False v then flags OR BGFX_TEXTURE_V_CLAMP env else flags,
                atlas_size), m)
        else if label = ''w_clamp'' then
          Inr ((keep_data,
                if deserialize_bool False v then flags OR BGFX_TEXTURE_W_CLAMP env else flags,
                atlas_size), m)
        else if label = ''keep_data'' then
          Inr ((deserialize_bool False v, flags, atlas_size), m)
        else if label = ''srgb'' then
          Inr ((keep_data,
                if deserialize_bool False v then flags OR BGFX_TEXTURE_SRGB env else flags,
                atlas_size), m)
        else Inl (emit (LogWarning label) m))"

fun texture_labels ::
  "Env \<Rightarrow> string \<Rightarrow> (string \<times> Json) list \<Rightarrow> bool \<times> uint32 \<times> int \<Rightarrow> Material
     \<Rightarrow> Material + ((bool \<times> uint32 \<times> int) \<times> Material)" where
  "texture_labels env material_dir [] acc m = Inr (acc, m)"
| "texture_labels env material_dir ((label, v) # rest) acc m =
     (case texture_label env material_dir label v acc m of
        Inl m1 \<Rightarrow> Inl m1
      | Inr (acc1, m1) \<Rightarrow> texture_labels env material_dir rest acc1 m1)"

definition deserializeTexture :: "Env \<Rightarrow> string \<Rightarrow> Json \<Rightarrow> Material \<Rightarrow> bool \<times> Material" where
  "deserializeTexture env material_dir v m =
     (case texture_labels env material_dir (object_entries v) (False, 0, -1) m of
        Inl m1 \<Rightarrow> (False, m1)
      | Inr ((keep_data, flags, atlas_size), m1) \<Rightarrow>
          (let m2 = (case m_textures m1 (m_texture_count m1) of
                       None \<Rightarrow> m1
                     | Some t \<Rightarrow>
                         (let m' = setFlags t flags (setAtlasSize t atlas_size m1)
                          in if keep_data then addDataReference t m' else m'))
           in (True, m2\<lparr>m_texture_count := m_texture_count m2 + 1\<rparr>)))"

text \<open>One label of the top level of \<^verbatim>\<open>load\<close>; \<open>False\<close> is its \<^verbatim>\<open>return false\<close>.\<close>

definition load_label :: "Env \<Rightarrow> string \<Rightarrow> string \<Rightarrow> Json \<Rightarrow> Material \<Rightarrow> bool \<times> Material" where
  "load_label env material_dir label v m =
     (if label = ''defines'' then (True, deserializeDefines env v m)
      else if label = ''uniforms'' then (True, deserializeUniforms env v m)
      else if label = ''texture'' then deserializeTexture env material_dir v m
      else if label = ''alpha_ref'' then (True, m\<lparr>m_alpha_ref := deserialize_float (3 / 10) v\<rparr>)
      else if label = ''layer_count'' then (True, m\<lparr>m_layer_count := deserialize_int 1 v\<rparr>)
      else if label = ''color'' then (True, m\<lparr>m_color := deserialize_vec3 1 v\<rparr>)
      else if label = ''shininess'' then (True, m\<lparr>m_shininess := deserialize_float 4 v\<rparr>)
      else if label = ''shader'' then
        (True,
         setShader env
           (shader_manager_load env (deserialize_string (MAX_PATH_LENGTH env) [] v)) m)
      else (True, emit (LogWarning label) m))"

fun load_labels ::
  "Env \<Rightarrow> string \<Rightarrow> (string \<times> Json) list \<Rightarrow> Material \<Rightarrow> bool \<times> Material" where
  "load_labels env material_dir [] m = (True, m)"
| "load_labels env material_dir ((label, v) # rest) m =
     (case load_label env material_dir label v m of
        (False, m1) \<Rightarrow> (False, m1)
      | (True, m1) \<Rightarrow> load_labels env material_dir rest m1)"

definition load :: "Env \<Rightarrow> File \<Rightarrow> Material \<Rightarrow> bool \<times> Material" where
  "load env file m =
     (let m0 = (setAlphaRef env DEFAULT_ALPHA_REF_VALUE (m\<lparr>m_render_states := 0\<rparr>))
                 \<lparr>m_uniforms := []\<rparr>;
          material_dir = getDir env (m_path m0)
      in case load_labels env material_dir (object_entries (file_document file)) m0 of
           (False, m1) \<Rightarrow> (False, m1)
         | (True, m1) \<Rightarrow>
             if m_shader m1 = None
             then (False, emit (LogError ''without a shader'') m1)
             else (True, m1\<lparr>m_size := file_size file\<rparr>))"

subsection \<open>Writing a material document\<close>

text \<open>The serializer handed to \<^verbatim>\<open>save\<close> is the list of values written to it so far.\<close>

definition save_flag :: "uint32 \<Rightarrow> uint32 \<Rightarrow> string \<times> Json \<Rightarrow> (string \<times> Json) list" where
  "save_flag flags b entry = (if flags AND b \<noteq> 0 then [entry] else [])"

definition save_texture :: "Env \<Rightarrow> Material \<Rightarrow> nat \<Rightarrow> string \<times> Json" where
  "save_texture env m i =
     (let (path, flags, atlas_size) =
            (case m_textures m i of
               Some t \<Rightarrow>
                 (CHR ''/'' # take (MAX_PATH_LENGTH env - 2) (tex_path (texture_at m t)),
                  tex_flags (texture_at m t), tex_atlas_size (texture_at m t))
             | None \<Rightarrow> ([], 0, -1))
      in (''texture'',
          JObject
            ([(''source'', JString path)]
             @ (if atlas_size > 0 then [(''atlas_size'', JNumber (of_int atlas_size))] else [])
             @ save_flag flags (BGFX_TEXTURE_SRGB env) (''srgb'', JBool True)
             @ save_flag flags (BGFX_TEXTURE_U_CLAMP env) (''u_clamp'', JBool True)
             @ save_flag flags (BGFX_TEXTURE_V_CLAMP env) (''v_clamp'', JBool True)
             @ save_flag flags (BGFX_TEXTURE_W_CLAMP env) (''w_clamp'', JBool True)
             @ save_flag flags (BGFX_TEXTURE_MIN_POINT env) (''min_filter'', JString ''point'')
             @ save_flag flags (BGFX_TEXTURE_MIN_ANISOTROPIC env)
                 (''min_filter'', JString ''anisotropic'')
             @ save_flag flags (BGFX_TEXTURE_MAG_POINT env) (''mag_filter'', JString ''point'')
             @ save_flag flags (BGFX_TEXTURE_MAG_ANISOTROPIC env)
                 (''mag_filter'', JString ''anisotropic'')
             @ (case m_textures m i of
                  Some t \<Rightarrow>
                    if tex_data_refs (texture_at m t) > 0 then [(''keep_data'', JBool True)]
                    else []
                | None \<Rightarrow> []))))"

definition save_defines :: "Env \<Rightarrow> Material \<Rightarrow> Json list" where
  "save_defines env m =
     concat (map (\<lambda>i. if m_define_mask m AND shl1 i \<noteq> 0
                       then [JString (getShaderDefine env i)] else [])
               [0..<32])"

definition save_vec3 :: "float \<times> float \<times> float \<Rightarrow> Json" where
  "save_vec3 v = JArray [JNumber (fst v), JNumber (fst (snd v)), JNumber (snd (snd v))]"

definition save_uniform :: "Env \<Rightarrow> Shader \<Rightarrow> Material \<Rightarrow> nat \<Rightarrow> Json" where
  "save_uniform env sh m i =
     (let uniform = getUniform sh i
      in JObject
           ((''name'', JString (su_name uniform)) #
            (case su_type uniform of
               FLOAT \<Rightarrow> [(''float_value'', JNumber (float_value env (m_uniforms m ! i)))]
             | COLOR \<Rightarrow> [(''color'', save_vec3 (vec3 env (m_uniforms m ! i)))]
             | VEC3 \<Rightarrow> [(''vec3'', save_vec3 (vec3 env (m_uniforms m ! i)))]
             | TIME \<Rightarrow> [(''time'', JNumber 0)]
             | INT_TYPE \<Rightarrow>
                 [(''int_value'', JNumber (of_int (int_value env (m_uniforms m ! i))))]
             | MATRIX4 \<Rightarrow>
                 [(''matrix_value'',
                   JArray (map (\<lambda>j. JNumber (matrix env (m_uniforms m ! i) j)) [0..<16]))])))"

definition save_document :: "Env \<Rightarrow> Shader \<Rightarrow> Material \<Rightarrow> Json" where
  "save_document env sh m =
     JObject
       ([(''shader'', JString (sh_path sh))]
        @ (if m_layer_count m \<noteq> 1 then [(''layer_count'', JNumber (of_int (m_layer_count m)))]
           else [])
        @ map (save_texture env m) [0..<m_texture_count m]
        @ [(''defines'', JArray (save_defines env m)),
           (''uniforms'', JArray (map (save_uniform env sh m) [0..<getUniformCount sh])),
           (''shininess'', JNumber (m_shininess m)),
           (''alpha_ref'', JNumber (m_alpha_ref m)),
           (''color'', save_vec3 (m_color m))])"

definition save :: "Env \<Rightarrow> Material \<Rightarrow> Json list \<Rightarrow> bool \<times> Json list" where
  "save env m serializer =
     (if \<not> isReady m then (False, serializer)
      else case m_shader m of
        None \<Rightarrow> (False, serializer)
      | Some sh \<Rightarrow> (True, serializer @ [save_document env sh m]))"

subsection \<open>The resource's state around load and readiness\<close>


text \<open>Modelled from the spec: the base class \<^verbatim>\<open>Resource\<close> turning the material ready,
  as above: \<^verbatim>\<open>onBeforeReady\<close> runs, then the state is READY.\<close>

definition becomeReady :: "Env \<Rightarrow> Material \<Rightarrow> Material" where
  "becomeReady env m = (onBeforeReady env m)\<lparr>m_state := READY\<rparr>"

subsection \<open>Vocabulary of the statements\<close>

text \<open>The material a loop over the labels of a texture block ends with, whether it
  went through or returned early.\<close>

definition outcome_material :: "Material + ('a \<times> Material) \<Rightarrow> Material" where
  "outcome_material r = (case r of Inl m \<Rightarrow> m | Inr (_, m) \<Rightarrow> m)"

text \<open>The labels that have a branch in \<^verbatim>\<open>deserializeTexture\<close> and in \<^verbatim>\<open>load\<close>.\<close>

definition texture_block_labels :: "string list" where
  "texture_block_labels =
     [''source'', ''atlas_size'', ''min_filter'', ''mag_filter'', ''u_clamp'', ''v_clamp'',
      ''w_clamp'', ''keep_data'', ''srgb'']"


text \<open>The texture blocks of a document, in the order they appear, and the path a
  block asks for: that of its last \<^verbatim>\<open>source\<close> that is not empty, if it has one.\<close>

definition texture_blocks :: "(string \<times> Json) list \<Rightarrow> Json list" where
  "texture_blocks es = map snd (filter (\<lambda>lv. fst lv = ''texture'') es)"

definition block_source :: "Env \<Rightarrow> string \<Rightarrow> string \<times> Json \<Rightarrow> string option \<Rightarrow> string option" where
  "block_source env material_dir lw r =
     (if fst lw = ''source'' \<and> deserialize_string (MAX_PATH_LENGTH env) [] (snd lw) \<noteq> []
      then Some (resolve_texture_path env material_dir
                   (deserialize_string (MAX_PATH_LENGTH env) [] (snd lw)))
      else r)"

definition block_path :: "Env \<Rightarrow> string \<Rightarrow> Json \<Rightarrow> string option" where
  "block_path env material_dir v = fold (block_source env material_dir) (object_entries v) None"

text \<open>A block all of whose labels \<^verbatim>\<open>deserializeTexture\<close> has a branch for.\<close>

definition known_block :: "Json \<Rightarrow> bool" where
  "known_block v = list_all (\<lambda>lw. fst lw \<in> set texture_block_labels) (object_entries v)"

text \<open>Slot \<open>i\<close> of the material holds what a block asked for: nothing, or a texture of
  the table with the block's path, normalised.\<close>

definition slot_holds :: "Env \<Rightarrow> Material \<Rightarrow> nat \<Rightarrow> string option \<Rightarrow> bool" where
  "slot_holds env m i r =
     (case r of
        None \<Rightarrow> m_textures m i = None
      | Some p \<Rightarrow>
          (case m_textures m i of
             None \<Rightarrow> False
           | Some t \<Rightarrow> t < length (textures m) \<and> tex_path (texture_at m t) = normalize env p))"

text \<open>Slot \<open>i\<close> of the material after a block is read: the block's texture when it
  asked for one, and what the slot held before (\<open>old\<close>) when it asked for none.\<close>

definition slot_after :: "Env \<Rightarrow> Material \<Rightarrow> nat \<Rightarrow> string option \<Rightarrow> nat option \<Rightarrow> bool" where
  "slot_after env m i r old =
     (case r of None \<Rightarrow> m_textures m i = old | Some p \<Rightarrow> slot_holds env m i (Some p))"

text \<open>The table of textures of \<open>m'\<close> extends that of \<open>m\<close>, and the textures of \<open>m\<close>
  have kept their paths.\<close>

definition paths_kept :: "Material \<Rightarrow> Material \<Rightarrow> bool" where
  "paths_kept m m' =
     (take (length (textures m)) (map tex_path (textures m')) = map tex_path (textures m))"

text \<open>
  What a round trip through a document compares. The value of a uniform is the member
  that \<^verbatim>\<open>save\<close> writes and \<^verbatim>\<open>createCommandBuffer\<close> reads for the type the shader
  declares (none for \<^verbatim>\<open>TIME\<close>, which \<^verbatim>\<open>save\<close> writes as 0 and the consumer
  replaces by the frame time). The texture of a slot is compared by path and flags.
\<close>

datatype Uniform_Value =
    IntValue int
  | FloatValue float
  | Vec3Value "float \<times> float \<times> float"
  | MatrixValue "float list"
  | TimeValue

definition uniform_value :: "Env \<Rightarrow> Uniform_Type \<Rightarrow> Uniform \<Rightarrow> Uniform_Value" where
  "uniform_value env ty u =
     (case ty of
        INT_TYPE \<Rightarrow> IntValue (int_value env u)
      | FLOAT \<Rightarrow> FloatValue (float_value env u)
      | MATRIX4 \<Rightarrow> MatrixValue (map (matrix env u) [0..<16])
      | TIME \<Rightarrow> TimeValue
      | COLOR \<Rightarrow> Vec3Value (vec3 env u)
      | VEC3 \<Rightarrow> Vec3Value (vec3 env u))"

definition slot_texture :: "Material \<Rightarrow> nat \<Rightarrow> (string \<times> uint32) option" where
  "slot_texture m i =
     map_option (\<lambda>t. (tex_path (texture_at m t), tex_flags (texture_at m t))) (m_textures m i)"

text \<open>
  What the collaborators must provide for a material to come back from its document.
  \<^item> The flags of a texture are a union of the eight flags that a texture block can
    carry: \<open>document_flags\<close> is the union of those of the eight that meet the flags.
  \<^item> A bound texture is in the table, its path fits the buffer of \<^verbatim>\<open>save\<close> behind the
    separator (\<^verbatim>\<open>MAX_PATH_LENGTH - 2\<close> characters and the terminator), and the path
    written for it, the separator and then the path, is normalised back to the path.
  \<^item> The name of each define that is set is, cut to the buffer of 32 characters,
    a name that the renderer resolves to the index of that define.
\<close>

definition flag_step :: "uint32 \<Rightarrow> uint32 \<Rightarrow> uint32 \<Rightarrow> uint32" where
  "flag_step f c acc = (if f AND c \<noteq> 0 then acc OR c else acc)"

definition document_flags :: "Env \<Rightarrow> uint32 \<Rightarrow> uint32" where
  "document_flags env f =
     fold (flag_step f)
       [BGFX_TEXTURE_SRGB env, BGFX_TEXTURE_U_CLAMP env, BGFX_TEXTURE_V_CLAMP env,
        BGFX_TEXTURE_W_CLAMP env, BGFX_TEXTURE_MIN_POINT env, BGFX_TEXTURE_MIN_ANISOTROPIC env,
        BGFX_TEXTURE_MAG_POINT env, BGFX_TEXTURE_MAG_ANISOTROPIC env] 0"

definition savable_texture :: "Env \<Rightarrow> Material \<Rightarrow> nat \<Rightarrow> bool" where
  "savable_texture env m t =
     (t < length (textures m) \<and>
      length (tex_path (texture_at m t)) \<le> MAX_PATH_LENGTH env - 2 \<and>
      normalize env (CHR ''/'' # tex_path (texture_at m t)) = tex_path (texture_at m t) \<and>
      document_flags env (tex_flags (texture_at m t)) = tex_flags (texture_at m t))"

definition savable_slots :: "Env \<Rightarrow> Material \<Rightarrow> bool" where
  "savable_slots env m =
     list_all (\<lambda>i. case m_textures m i of None \<Rightarrow> True | Some t \<Rightarrow> savable_texture env m t)
       [0..<m_texture_count m]"

definition savable_defines :: "Env \<Rightarrow> Material \<Rightarrow> bool" where
  "savable_defines env m =
     list_all (\<lambda>i. m_define_mask m AND shl1 i = 0 \<or>
                    getShaderDefineIdx env (take 31 (getShaderDefine env i)) = i)
       [0..<32]"

text \<open>The calls of \<^verbatim>\<open>Texture::setAtlasSize\<close> that a trace records.\<close>

fun is_SetAtlasSize :: "Event \<Rightarrow> bool" where
  "is_SetAtlasSize (SetAtlasSize _ _) = True"
| "is_SetAtlasSize _ = False"

definition atlas_calls :: "Material \<Rightarrow> Event list" where
  "atlas_calls m = filter is_SetAtlasSize (trace m)"

subsection \<open>An engine, a shader and documents to run the operations on\<close>

definition demo_hash :: "string \<Rightarrow> uint32" where
  "demo_hash s = fold (\<lambda>c h. h * 31 + of_nat (of_char c)) s 7"

definition demo_shader :: Shader where
  "demo_shader =
     \<lparr>sh_path = ''shaders/default.shd'', sh_ready = True,
      sh_uniforms =
        [\<lparr>su_name = ''u_rough'', su_name_hash = demo_hash ''u_rough'', su_type = FLOAT,
          su_handle = 1\<rparr>,
         \<lparr>su_name = ''u_tint'', su_name_hash = demo_hash ''u_tint'', su_type = COLOR,
          su_handle = 2\<rparr>,
         \<lparr>su_name = ''u_time'', su_name_hash = demo_hash ''u_time'', su_type = TIME,
          su_handle = 3\<rparr>],
      sh_texture_slots =
        [\<lparr>ts_uniform = ''u_texColor'', ts_define_idx = -1, ts_uniform_handle = 10\<rparr>,
         \<lparr>ts_uniform = ''u_texNormal'', ts_define_idx = 2, ts_uniform_handle = 11\<rparr>],
      sh_render_states = 0x10\<rparr>"

text \<open>
  Four bytes read as a float and a float read as four bytes, as the engine's platforms
  have it (IEEE 754 single precision), for the values a rational stands for: no
  infinity and no NaN, and a value between two floats is cut to the nearer to zero.
\<close>

definition demo_float_of_int_bits :: "int \<Rightarrow> float" where
  "demo_float_of_int_bits n =
     (let w = n mod 2 ^ 32; e = (w div 2 ^ 23) mod 256; f = w mod 2 ^ 23;
          x = (if e = 0 then of_int f / 2 ^ 149
               else if e < 150 then of_int (2 ^ 23 + f) / 2 ^ nat (150 - e)
               else of_int (2 ^ 23 + f) * 2 ^ nat (e - 150))
      in if w < 2 ^ 31 then x else - x)"

fun demo_binade :: "nat \<Rightarrow> rat \<Rightarrow> int \<Rightarrow> int" where
  "demo_binade 0 a e = e"
| "demo_binade (Suc k) a e =
     (if 2 \<le> a then demo_binade k (a / 2) (e + 1)
      else if a < 1 then demo_binade k (a * 2) (e - 1)
      else e)"

definition demo_int_bits_of_float :: "float \<Rightarrow> int" where
  "demo_int_bits_of_float x =
     (let a = \<bar>x\<bar>; e = demo_binade 300 a 0;
          magnitude =
            (if a = 0 then 0
             else if e < - 126 then \<lfloor>a * 2 ^ 149\<rfloor>
             else if 127 < e then 255 * 2 ^ 23
             else (e + 127) * 2 ^ 23 +
                  (\<lfloor>(if 0 \<le> e then a / 2 ^ nat e else a * 2 ^ nat (- e)) * 2 ^ 23\<rfloor> - 2 ^ 23))
      in if x < 0 then magnitude - 2 ^ 31 else magnitude)"

definition demo_env :: Env where
  "demo_env =
     \<lparr>getDefaultShader = Some demo_shader,
      getShaderDefine =
        (\<lambda>i. if i = 0 then ''SKINNED'' else if i = 1 then ''ALPHA_CUTOUT''
              else if i = 2 then ''NORMAL_MAPPING'' else []),
      getShaderDefineIdx =
        (\<lambda>s. if s = ''SKINNED'' then 0 else if s = ''ALPHA_CUTOUT'' then 1
              else if s = ''NORMAL_MAPPING'' then 2 else 3),
      getMaterialColorShininessUniform = 20,
      shader_manager_load =
        (\<lambda>p. if p = ''/shaders/default.shd'' \<or> p = ''shaders/default.shd''
              then Some demo_shader else None),
      normalize = (\<lambda>p. case p of [] \<Rightarrow> [] | c # r \<Rightarrow> if c = CHR ''/'' then r else p),
      getDir = (\<lambda>p. rev (dropWhile (\<lambda>c. c \<noteq> CHR ''/'') (rev p))),
      crc32 = demo_hash,
      MAX_PATH_LENGTH = 260,
      MAX_TEXTURE_COUNT = 16,
      BGFX_TEXTURE_SRGB = 0x00100000,
      BGFX_TEXTURE_U_CLAMP = 0x00000002,
      BGFX_TEXTURE_V_CLAMP = 0x00000008,
      BGFX_TEXTURE_W_CLAMP = 0x00000020,
      BGFX_TEXTURE_MIN_POINT = 0x00000040,
      BGFX_TEXTURE_MIN_ANISOTROPIC = 0x00000080,
      BGFX_TEXTURE_MAG_POINT = 0x00000100,
      BGFX_TEXTURE_MAG_ANISOTROPIC = 0x00000200,
      BGFX_STATE_ALPHA_REF_SHIFT = 40,
      BGFX_STATE_ALPHA_REF_MASK = 0x0000ff0000000000,
      float_of_int_bits = demo_float_of_int_bits,
      int_bits_of_float = demo_int_bits_of_float\<rparr>"

definition demo_fresh :: Material where
  "demo_fresh = Material_new demo_env ''models/demo.mat'' [] []"

text \<open>The document of the scenario of section 8: a shader, one texture block with a
  source and \<^verbatim>\<open>srgb\<close>, and \<^verbatim>\<open>alpha_ref: 0.5\<close>.\<close>

definition scenario_file :: File where
  "scenario_file =
     \<lparr>file_document =
        JObject
          [(''shader'', JString ''/shaders/default.shd''),
           (''texture'', JObject [(''source'', JString ''t.dds''), (''srgb'', JBool True)]),
           (''alpha_ref'', JNumber (1 / 2))],
      file_size = 120\<rparr>"

text \<open>A document with uniforms out of the shader's order, one the shader does not
  declare and one missing, an empty texture block before a bound one, and a label
  that \<^verbatim>\<open>load\<close> does not know.\<close>

definition demo_file :: File where
  "demo_file =
     \<lparr>file_document =
        JObject
          [(''shader'', JString ''shaders/default.shd''),
           (''texture'', JObject [(''source'', JString [])]),
           (''texture'',
            JObject [(''source'', JString ''/textures/n.dds''), (''u_clamp'', JBool True),
                     (''min_filter'', JString ''point'')]),
           (''foo'', JNumber 1),
           (''defines'', JArray [JString ''ALPHA_CUTOUT'']),
           (''uniforms'',
            JArray
              [JObject [(''name'', JString ''u_extra''), (''int_value'', JNumber 9)],
               JObject [(''name'', JString ''u_tint''),
                        (''color'', JArray [JNumber 1, JNumber (1 / 2), JNumber 0])],
               JObject [(''name'', JString ''u_rough''), (''float_value'', JNumber (1 / 4))]]),
           (''shininess'', JNumber 8),
           (''color'', JArray [JNumber (1 / 2), JNumber (1 / 2), JNumber 1])],
      file_size = 400\<rparr>"

definition demo_loaded :: Material where
  "demo_loaded = snd (load demo_env demo_file demo_fresh)"

definition demo_ready :: Material where
  "demo_ready = becomeReady demo_env demo_loaded"

text \<open>The material of the scenario, loaded, ready, and unloaded again, as it is when
  its file is loaded anew.\<close>

definition demo_unloaded :: Material where
  "demo_unloaded =
     unload demo_env (becomeReady demo_env (snd (load demo_env scenario_file demo_fresh)))"

text \<open>A document without a shader, and one with a label that a texture block does not
  have.\<close>

definition no_shader_file :: File where
  "no_shader_file = \<lparr>file_document = JObject [(''shininess'', JNumber 2)], file_size = 24\<rparr>"


text \<open>
  A document whose texture has a name of 252 characters, in the material
  \<^verbatim>\<open>models/demo.mat\<close>: under the directory of the material its path has 259
  characters, the most a path of \<^verbatim>\<open>MAX_PATH_LENGTH\<close> 260 holds. The material loaded
  from it and ready, and the material loaded from what \<^verbatim>\<open>save\<close> writes for that one.
\<close>

definition long_source :: string where
  "long_source = replicate 248 (CHR ''t'') @ ''.dds''"

definition long_file :: File where
  "long_file =
     \<lparr>file_document =
        JObject
          [(''shader'', JString ''shaders/default.shd''),
           (''texture'', JObject [(''source'', JString long_source)])],
      file_size = 330\<rparr>"

definition long_ready :: Material where
  "long_ready = becomeReady demo_env (snd (load demo_env long_file demo_fresh))"

definition written_and_read :: "Material \<Rightarrow> bool \<times> Material" where
  "written_and_read m =
     load demo_env \<lparr>file_document = hd (snd (save demo_env m [])), file_size = 0\<rparr>
       (Material_new demo_env ''models/demo.mat'' (textures m) (trace m))"

definition long_copy :: "bool \<times> Material" where
  "long_copy = written_and_read long_ready"

text \<open>The ready material with a second texture in the table and an atlas size on the
  first.\<close>

definition demo_atlas :: Material where
  "demo_atlas =
     setAtlasSize 0 64 (snd (texture_manager_load demo_env ''textures/b.dds'' demo_ready))"

section \<open>Properties\<close>

declare find_texture.simps [simp del] find_uniform.simps [simp del]

subsection \<open>Frames: the fields an operation leaves alone\<close>

lemma emit_fields [simp]:
  "textures (emit e m) = textures m" "trace (emit e m) = trace m @ [e]"
  "m_path (emit e m) = m_path m" "m_state (emit e m) = m_state m"
  "m_size (emit e m) = m_size m" "m_shader (emit e m) = m_shader m"
  "m_shader_instance (emit e m) = m_shader_instance m" "m_uniforms (emit e m) = m_uniforms m"
  "m_textures (emit e m) = m_textures m" "m_texture_count (emit e m) = m_texture_count m"
  "m_render_states (emit e m) = m_render_states m" "m_color (emit e m) = m_color m"
  "m_shininess (emit e m) = m_shininess m" "m_alpha_ref (emit e m) = m_alpha_ref m"
  "m_define_mask (emit e m) = m_define_mask m"
  "m_command_buffer (emit e m) = m_command_buffer m" "m_layer_count (emit e m) = m_layer_count m"
  by (simp_all add: emit_def)

lemma resolveInstance_fields [simp]:
  "textures (resolveInstance sh m) = textures m"
  "trace (resolveInstance sh m) = trace m @ [GetInstance (sh_path sh) (m_define_mask m)]"
  "m_path (resolveInstance sh m) = m_path m" "m_state (resolveInstance sh m) = m_state m"
  "m_size (resolveInstance sh m) = m_size m" "m_shader (resolveInstance sh m) = m_shader m"
  "m_shader_instance (resolveInstance sh m) = Some (InstanceOf (sh_path sh) (m_define_mask m))"
  "m_uniforms (resolveInstance sh m) = m_uniforms m"
  "m_textures (resolveInstance sh m) = m_textures m"
  "m_texture_count (resolveInstance sh m) = m_texture_count m"
  "m_render_states (resolveInstance sh m) = m_render_states m"
  "m_color (resolveInstance sh m) = m_color m" "m_shininess (resolveInstance sh m) = m_shininess m"
  "m_alpha_ref (resolveInstance sh m) = m_alpha_ref m"
  "m_define_mask (resolveInstance sh m) = m_define_mask m"
  "m_command_buffer (resolveInstance sh m) = m_command_buffer m"
  "m_layer_count (resolveInstance sh m) = m_layer_count m"
  by (simp_all add: resolveInstance_def)

lemma createCommandBuffer_fields [simp]:
  "textures (createCommandBuffer env m) = textures m"
  "trace (createCommandBuffer env m) = trace m"
  "m_path (createCommandBuffer env m) = m_path m"
  "m_state (createCommandBuffer env m) = m_state m"
  "m_size (createCommandBuffer env m) = m_size m"
  "m_shader (createCommandBuffer env m) = m_shader m"
  "m_shader_instance (createCommandBuffer env m) = m_shader_instance m"
  "m_uniforms (createCommandBuffer env m) = m_uniforms m"
  "m_textures (createCommandBuffer env m) = m_textures m"
  "m_texture_count (createCommandBuffer env m) = m_texture_count m"
  "m_render_states (createCommandBuffer env m) = m_render_states m"
  "m_color (createCommandBuffer env m) = m_color m"
  "m_shininess (createCommandBuffer env m) = m_shininess m"
  "m_alpha_ref (createCommandBuffer env m) = m_alpha_ref m"
  "m_define_mask (createCommandBuffer env m) = m_define_mask m"
  "m_layer_count (createCommandBuffer env m) = m_layer_count m"
  by (simp_all add: createCommandBuffer_def split: option.splits)

lemma texture_define_fields [simp]:
  "textures (texture_define sh i m) = textures m"
  "trace (texture_define sh i m) = trace m"
  "m_path (texture_define sh i m) = m_path m"
  "m_state (texture_define sh i m) = m_state m"
  "m_size (texture_define sh i m) = m_size m"
  "m_shader (texture_define sh i m) = m_shader m"
  "m_shader_instance (texture_define sh i m) = m_shader_instance m"
  "m_uniforms (texture_define sh i m) = m_uniforms m"
  "m_textures (texture_define sh i m) = m_textures m"
  "m_texture_count (texture_define sh i m) = m_texture_count m"
  "m_render_states (texture_define sh i m) = m_render_states m"
  "m_color (texture_define sh i m) = m_color m"
  "m_shininess (texture_define sh i m) = m_shininess m"
  "m_alpha_ref (texture_define sh i m) = m_alpha_ref m"
  "m_command_buffer (texture_define sh i m) = m_command_buffer m"
  "m_layer_count (texture_define sh i m) = m_layer_count m"
  by (simp_all add: texture_define_def Let_def)

lemma fold_texture_define_fields [simp]:
  "textures (fold (texture_define sh) js m) = textures m"
  "trace (fold (texture_define sh) js m) = trace m"
  "m_path (fold (texture_define sh) js m) = m_path m"
  "m_state (fold (texture_define sh) js m) = m_state m"
  "m_size (fold (texture_define sh) js m) = m_size m"
  "m_shader (fold (texture_define sh) js m) = m_shader m"
  "m_shader_instance (fold (texture_define sh) js m) = m_shader_instance m"
  "m_uniforms (fold (texture_define sh) js m) = m_uniforms m"
  "m_textures (fold (texture_define sh) js m) = m_textures m"
  "m_texture_count (fold (texture_define sh) js m) = m_texture_count m"
  "m_render_states (fold (texture_define sh) js m) = m_render_states m"
  "m_color (fold (texture_define sh) js m) = m_color m"
  "m_shininess (fold (texture_define sh) js m) = m_shininess m"
  "m_alpha_ref (fold (texture_define sh) js m) = m_alpha_ref m"
  "m_command_buffer (fold (texture_define sh) js m) = m_command_buffer m"
  "m_layer_count (fold (texture_define sh) js m) = m_layer_count m"
  by (induction js arbitrary: m; simp)+

lemma onBeforeReady_None [simp]: "m_shader m = None \<Longrightarrow> onBeforeReady env m = m"
  by (simp add: onBeforeReady_def)

lemma onBeforeReady_fields [simp]:
  "textures (onBeforeReady env m) = textures m"
  "m_path (onBeforeReady env m) = m_path m"
  "m_state (onBeforeReady env m) = m_state m"
  "m_size (onBeforeReady env m) = m_size m"
  "m_shader (onBeforeReady env m) = m_shader m"
  "m_textures (onBeforeReady env m) = m_textures m"
  "m_texture_count (onBeforeReady env m) = m_texture_count m"
  "m_color (onBeforeReady env m) = m_color m"
  "m_shininess (onBeforeReady env m) = m_shininess m"
  "m_alpha_ref (onBeforeReady env m) = m_alpha_ref m"
  "m_layer_count (onBeforeReady env m) = m_layer_count m"
  by (simp_all add: onBeforeReady_def Let_def split: option.splits)

lemma onBeforeReady_uniforms:
  "m_shader m = Some sh \<Longrightarrow>
   m_uniforms (onBeforeReady env m) =
     fold (reconcile_uniform sh) [0..<getUniformCount sh] (m_uniforms m)"
  by (simp add: onBeforeReady_def Let_def)

lemma onBeforeReady_render_states:
  "m_shader m = Some sh \<Longrightarrow>
   m_render_states (onBeforeReady env m) =
     BGFX_STATE_ALPHA_REF env (uint8_of_float (m_alpha_ref m * 255)) OR sh_render_states sh"
  by (simp add: onBeforeReady_def Let_def)

declare addDependency_def [simp] removeDependency_def [simp] unload_resource_def [simp]

lemma setAtlasSize_fields [simp]:
  "m_path (setAtlasSize t n m) = m_path m"
  "m_state (setAtlasSize t n m) = m_state m"
  "m_size (setAtlasSize t n m) = m_size m"
  "m_shader (setAtlasSize t n m) = m_shader m"
  "m_shader_instance (setAtlasSize t n m) = m_shader_instance m"
  "m_uniforms (setAtlasSize t n m) = m_uniforms m"
  "m_textures (setAtlasSize t n m) = m_textures m"
  "m_texture_count (setAtlasSize t n m) = m_texture_count m"
  "m_render_states (setAtlasSize t n m) = m_render_states m"
  "m_color (setAtlasSize t n m) = m_color m"
  "m_shininess (setAtlasSize t n m) = m_shininess m"
  "m_alpha_ref (setAtlasSize t n m) = m_alpha_ref m"
  "m_define_mask (setAtlasSize t n m) = m_define_mask m"
  "m_command_buffer (setAtlasSize t n m) = m_command_buffer m"
  "m_layer_count (setAtlasSize t n m) = m_layer_count m"
  by (simp_all add: setAtlasSize_def)

lemma setFlags_fields [simp]:
  "m_path (setFlags t f m) = m_path m"
  "m_state (setFlags t f m) = m_state m"
  "m_size (setFlags t f m) = m_size m"
  "m_shader (setFlags t f m) = m_shader m"
  "m_shader_instance (setFlags t f m) = m_shader_instance m"
  "m_uniforms (setFlags t f m) = m_uniforms m"
  "m_textures (setFlags t f m) = m_textures m"
  "m_texture_count (setFlags t f m) = m_texture_count m"
  "m_render_states (setFlags t f m) = m_render_states m"
  "m_color (setFlags t f m) = m_color m"
  "m_shininess (setFlags t f m) = m_shininess m"
  "m_alpha_ref (setFlags t f m) = m_alpha_ref m"
  "m_define_mask (setFlags t f m) = m_define_mask m"
  "m_command_buffer (setFlags t f m) = m_command_buffer m"
  "m_layer_count (setFlags t f m) = m_layer_count m"
  by (simp_all add: setFlags_def)

lemma addDataReference_fields [simp]:
  "m_path (addDataReference t m) = m_path m"
  "m_state (addDataReference t m) = m_state m"
  "m_size (addDataReference t m) = m_size m"
  "m_shader (addDataReference t m) = m_shader m"
  "m_shader_instance (addDataReference t m) = m_shader_instance m"
  "m_uniforms (addDataReference t m) = m_uniforms m"
  "m_textures (addDataReference t m) = m_textures m"
  "m_texture_count (addDataReference t m) = m_texture_count m"
  "m_render_states (addDataReference t m) = m_render_states m"
  "m_color (addDataReference t m) = m_color m"
  "m_shininess (addDataReference t m) = m_shininess m"
  "m_alpha_ref (addDataReference t m) = m_alpha_ref m"
  "m_define_mask (addDataReference t m) = m_define_mask m"
  "m_command_buffer (addDataReference t m) = m_command_buffer m"
  "m_layer_count (addDataReference t m) = m_layer_count m"
  by (simp_all add: addDataReference_def)

lemma texture_manager_load_fields [simp]:
  "trace (snd (texture_manager_load env p m)) = trace m"
  "m_path (snd (texture_manager_load env p m)) = m_path m"
  "m_state (snd (texture_manager_load env p m)) = m_state m"
  "m_size (snd (texture_manager_load env p m)) = m_size m"
  "m_shader (snd (texture_manager_load env p m)) = m_shader m"
  "m_shader_instance (snd (texture_manager_load env p m)) = m_shader_instance m"
  "m_uniforms (snd (texture_manager_load env p m)) = m_uniforms m"
  "m_textures (snd (texture_manager_load env p m)) = m_textures m"
  "m_texture_count (snd (texture_manager_load env p m)) = m_texture_count m"
  "m_render_states (snd (texture_manager_load env p m)) = m_render_states m"
  "m_color (snd (texture_manager_load env p m)) = m_color m"
  "m_shininess (snd (texture_manager_load env p m)) = m_shininess m"
  "m_alpha_ref (snd (texture_manager_load env p m)) = m_alpha_ref m"
  "m_define_mask (snd (texture_manager_load env p m)) = m_define_mask m"
  "m_command_buffer (snd (texture_manager_load env p m)) = m_command_buffer m"
  "m_layer_count (snd (texture_manager_load env p m)) = m_layer_count m"
  by (simp_all add: texture_manager_load_def split: option.splits)

lemma texture_filter_fields [simp]:
  "textures (snd (texture_filter a b v fl m)) = textures m"
  "m_path (snd (texture_filter a b v fl m)) = m_path m"
  "m_state (snd (texture_filter a b v fl m)) = m_state m"
  "m_size (snd (texture_filter a b v fl m)) = m_size m"
  "m_shader (snd (texture_filter a b v fl m)) = m_shader m"
  "m_shader_instance (snd (texture_filter a b v fl m)) = m_shader_instance m"
  "m_uniforms (snd (texture_filter a b v fl m)) = m_uniforms m"
  "m_textures (snd (texture_filter a b v fl m)) = m_textures m"
  "m_texture_count (snd (texture_filter a b v fl m)) = m_texture_count m"
  "m_render_states (snd (texture_filter a b v fl m)) = m_render_states m"
  "m_color (snd (texture_filter a b v fl m)) = m_color m"
  "m_shininess (snd (texture_filter a b v fl m)) = m_shininess m"
  "m_alpha_ref (snd (texture_filter a b v fl m)) = m_alpha_ref m"
  "m_define_mask (snd (texture_filter a b v fl m)) = m_define_mask m"
  "m_command_buffer (snd (texture_filter a b v fl m)) = m_command_buffer m"
  "m_layer_count (snd (texture_filter a b v fl m)) = m_layer_count m"
  by (simp_all add: texture_filter_def Let_def)

lemma setAlphaRef_fields [simp]:
  "textures (setAlphaRef env x m) = textures m"
  "trace (setAlphaRef env x m) = trace m"
  "m_path (setAlphaRef env x m) = m_path m"
  "m_state (setAlphaRef env x m) = m_state m"
  "m_size (setAlphaRef env x m) = m_size m"
  "m_shader (setAlphaRef env x m) = m_shader m"
  "m_shader_instance (setAlphaRef env x m) = m_shader_instance m"
  "m_uniforms (setAlphaRef env x m) = m_uniforms m"
  "m_textures (setAlphaRef env x m) = m_textures m"
  "m_texture_count (setAlphaRef env x m) = m_texture_count m"
  "m_color (setAlphaRef env x m) = m_color m"
  "m_shininess (setAlphaRef env x m) = m_shininess m"
  "m_define_mask (setAlphaRef env x m) = m_define_mask m"
  "m_command_buffer (setAlphaRef env x m) = m_command_buffer m"
  "m_layer_count (setAlphaRef env x m) = m_layer_count m"
  by (simp_all add: setAlphaRef_def Let_def)

lemma deserializeDefines_fields [simp]:
  "textures (deserializeDefines env v m) = textures m"
  "trace (deserializeDefines env v m) = trace m"
  "m_path (deserializeDefines env v m) = m_path m"
  "m_state (deserializeDefines env v m) = m_state m"
  "m_size (deserializeDefines env v m) = m_size m"
  "m_shader (deserializeDefines env v m) = m_shader m"
  "m_shader_instance (deserializeDefines env v m) = m_shader_instance m"
  "m_uniforms (deserializeDefines env v m) = m_uniforms m"
  "m_textures (deserializeDefines env v m) = m_textures m"
  "m_texture_count (deserializeDefines env v m) = m_texture_count m"
  "m_render_states (deserializeDefines env v m) = m_render_states m"
  "m_color (deserializeDefines env v m) = m_color m"
  "m_shininess (deserializeDefines env v m) = m_shininess m"
  "m_alpha_ref (deserializeDefines env v m) = m_alpha_ref m"
  "m_command_buffer (deserializeDefines env v m) = m_command_buffer m"
  "m_layer_count (deserializeDefines env v m) = m_layer_count m"
  by (simp_all add: deserializeDefines_def)

lemma uniform_label_fields [simp]:
  "textures (snd (uniform_label env lv um)) = textures (snd um)"
  "m_path (snd (uniform_label env lv um)) = m_path (snd um)"
  "m_state (snd (uniform_label env lv um)) = m_state (snd um)"
  "m_size (snd (uniform_label env lv um)) = m_size (snd um)"
  "m_shader (snd (uniform_label env lv um)) = m_shader (snd um)"
  "m_shader_instance (snd (uniform_label env lv um)) = m_shader_instance (snd um)"
  "m_uniforms (snd (uniform_label env lv um)) = m_uniforms (snd um)"
  "m_textures (snd (uniform_label env lv um)) = m_textures (snd um)"
  "m_texture_count (snd (uniform_label env lv um)) = m_texture_count (snd um)"
  "m_render_states (snd (uniform_label env lv um)) = m_render_states (snd um)"
  "m_color (snd (uniform_label env lv um)) = m_color (snd um)"
  "m_shininess (snd (uniform_label env lv um)) = m_shininess (snd um)"
  "m_alpha_ref (snd (uniform_label env lv um)) = m_alpha_ref (snd um)"
  "m_define_mask (snd (uniform_label env lv um)) = m_define_mask (snd um)"
  "m_command_buffer (snd (uniform_label env lv um)) = m_command_buffer (snd um)"
  "m_layer_count (snd (uniform_label env lv um)) = m_layer_count (snd um)"
  by (cases lv; cases um; simp add: uniform_label_def)+

lemma fold_uniform_label_fields [simp]:
  "textures (snd (fold (uniform_label env) es um)) = textures (snd um)"
  "m_path (snd (fold (uniform_label env) es um)) = m_path (snd um)"
  "m_state (snd (fold (uniform_label env) es um)) = m_state (snd um)"
  "m_size (snd (fold (uniform_label env) es um)) = m_size (snd um)"
  "m_shader (snd (fold (uniform_label env) es um)) = m_shader (snd um)"
  "m_shader_instance (snd (fold (uniform_label env) es um)) = m_shader_instance (snd um)"
  "m_uniforms (snd (fold (uniform_label env) es um)) = m_uniforms (snd um)"
  "m_textures (snd (fold (uniform_label env) es um)) = m_textures (snd um)"
  "m_texture_count (snd (fold (uniform_label env) es um)) = m_texture_count (snd um)"
  "m_render_states (snd (fold (uniform_label env) es um)) = m_render_states (snd um)"
  "m_color (snd (fold (uniform_label env) es um)) = m_color (snd um)"
  "m_shininess (snd (fold (uniform_label env) es um)) = m_shininess (snd um)"
  "m_alpha_ref (snd (fold (uniform_label env) es um)) = m_alpha_ref (snd um)"
  "m_define_mask (snd (fold (uniform_label env) es um)) = m_define_mask (snd um)"
  "m_command_buffer (snd (fold (uniform_label env) es um)) = m_command_buffer (snd um)"
  "m_layer_count (snd (fold (uniform_label env) es um)) = m_layer_count (snd um)"
  by (induction es arbitrary: um; simp)+

lemma deserializeUniform_fields [simp]:
  "textures (deserializeUniform env v m) = textures m"
  "m_path (deserializeUniform env v m) = m_path m"
  "m_state (deserializeUniform env v m) = m_state m"
  "m_size (deserializeUniform env v m) = m_size m"
  "m_shader (deserializeUniform env v m) = m_shader m"
  "m_shader_instance (deserializeUniform env v m) = m_shader_instance m"
  "m_textures (deserializeUniform env v m) = m_textures m"
  "m_texture_count (deserializeUniform env v m) = m_texture_count m"
  "m_render_states (deserializeUniform env v m) = m_render_states m"
  "m_color (deserializeUniform env v m) = m_color m"
  "m_shininess (deserializeUniform env v m) = m_shininess m"
  "m_alpha_ref (deserializeUniform env v m) = m_alpha_ref m"
  "m_define_mask (deserializeUniform env v m) = m_define_mask m"
  "m_command_buffer (deserializeUniform env v m) = m_command_buffer m"
  "m_layer_count (deserializeUniform env v m) = m_layer_count m"
  by (simp_all add: deserializeUniform_def case_prod_unfold Let_def)

lemma fold_deserializeUniform_fields [simp]:
  "textures (fold (deserializeUniform env) vs m) = textures m"
  "m_path (fold (deserializeUniform env) vs m) = m_path m"
  "m_state (fold (deserializeUniform env) vs m) = m_state m"
  "m_size (fold (deserializeUniform env) vs m) = m_size m"
  "m_shader (fold (deserializeUniform env) vs m) = m_shader m"
  "m_shader_instance (fold (deserializeUniform env) vs m) = m_shader_instance m"
  "m_textures (fold (deserializeUniform env) vs m) = m_textures m"
  "m_texture_count (fold (deserializeUniform env) vs m) = m_texture_count m"
  "m_render_states (fold (deserializeUniform env) vs m) = m_render_states m"
  "m_color (fold (deserializeUniform env) vs m) = m_color m"
  "m_shininess (fold (deserializeUniform env) vs m) = m_shininess m"
  "m_alpha_ref (fold (deserializeUniform env) vs m) = m_alpha_ref m"
  "m_define_mask (fold (deserializeUniform env) vs m) = m_define_mask m"
  "m_command_buffer (fold (deserializeUniform env) vs m) = m_command_buffer m"
  "m_layer_count (fold (deserializeUniform env) vs m) = m_layer_count m"
  by (induction vs arbitrary: m; simp)+

lemma deserializeUniforms_fields [simp]:
  "textures (deserializeUniforms env v m) = textures m"
  "m_path (deserializeUniforms env v m) = m_path m"
  "m_state (deserializeUniforms env v m) = m_state m"
  "m_size (deserializeUniforms env v m) = m_size m"
  "m_shader (deserializeUniforms env v m) = m_shader m"
  "m_shader_instance (deserializeUniforms env v m) = m_shader_instance m"
  "m_textures (deserializeUniforms env v m) = m_textures m"
  "m_texture_count (deserializeUniforms env v m) = m_texture_count m"
  "m_render_states (deserializeUniforms env v m) = m_render_states m"
  "m_color (deserializeUniforms env v m) = m_color m"
  "m_shininess (deserializeUniforms env v m) = m_shininess m"
  "m_alpha_ref (deserializeUniforms env v m) = m_alpha_ref m"
  "m_define_mask (deserializeUniforms env v m) = m_define_mask m"
  "m_command_buffer (deserializeUniforms env v m) = m_command_buffer m"
  "m_layer_count (deserializeUniforms env v m) = m_layer_count m"
  by (simp_all add: deserializeUniforms_def)

lemma setShader_fields [simp]:
  "textures (setShader env shader m) = textures m"
  "m_path (setShader env shader m) = m_path m"
  "m_state (setShader env shader m) = m_state m"
  "m_size (setShader env shader m) = m_size m"
  "m_textures (setShader env shader m) = m_textures m"
  "m_texture_count (setShader env shader m) = m_texture_count m"
  "m_color (setShader env shader m) = m_color m"
  "m_shininess (setShader env shader m) = m_shininess m"
  "m_alpha_ref (setShader env shader m) = m_alpha_ref m"
  "m_layer_count (setShader env shader m) = m_layer_count m"
  by (simp_all add: setShader_def Let_def split: option.splits)

lemma texture_labels_frame:
  assumes "\<And>l v acc m. f (outcome_material (texture_label env d l v acc m)) = f m"
  shows "f (outcome_material (texture_labels env d es acc m)) = f m"
proof (induction es arbitrary: acc m)
  case Nil
  show ?case by (simp add: outcome_material_def)
next
  case (Cons e es)
  obtain l v where e: "e = (l, v)" by (cases e)
  show ?case
  proof (cases "texture_label env d l v acc m")
    case (Inl m1)
    with assms [of l v acc m] show ?thesis
      by (simp add: e outcome_material_def)
  next
    case (Inr r)
    obtain acc1 m1 where r: "r = (acc1, m1)" by (cases r)
    from assms [of l v acc m] Inr r have "f m1 = f m"
      by (simp add: outcome_material_def)
    with Cons.IH [of acc1 m1] Inr r show ?thesis
      by (simp add: e)
  qed
qed

lemma texture_labels_Inl:
  "texture_labels env d es acc m = Inl m1 \<Longrightarrow>
   m1 = outcome_material (texture_labels env d es acc m)"
  by (simp add: outcome_material_def)

lemma texture_labels_Inr:
  "texture_labels env d es acc m = Inr (acc1, m1) \<Longrightarrow>
   m1 = outcome_material (texture_labels env d es acc m)"
  by (simp add: outcome_material_def)

lemma deserializeTexture_frame:
  assumes "\<And>es acc m. f (outcome_material (texture_labels env d es acc m)) = f m"
    and "\<And>t x m. f (setFlags t x m) = f m"
    and "\<And>t x m. f (setAtlasSize t x m) = f m"
    and "\<And>t m. f (addDataReference t m) = f m"
    and "\<And>n m. f (m\<lparr>m_texture_count := n\<rparr>) = f m"
  shows "f (snd (deserializeTexture env d v m)) = f m"
proof (cases "texture_labels env d (object_entries v) (False, 0, -1) m")
  case (Inl m1)
  from texture_labels_Inl [OF Inl] assms(1) have "f m1 = f m" by simp
  with Inl show ?thesis by (simp add: deserializeTexture_def)
next
  case (Inr r)
  obtain keep_data flags atlas_size m1 where r: "r = ((keep_data, flags, atlas_size), m1)"
    by (cases r) auto
  from Inr r texture_labels_Inr assms(1) have "f m1 = f m" by metis
  with Inr r assms(2-5) show ?thesis
    by (simp add: deserializeTexture_def Let_def split: option.splits)
qed

lemma load_labels_frame:
  assumes "\<And>l v m. f (snd (load_label env d l v m)) = f m"
  shows "f (snd (load_labels env d es m)) = f m"
proof (induction es arbitrary: m)
  case Nil
  show ?case by simp
next
  case (Cons e es)
  obtain l v where e: "e = (l, v)" by (cases e)
  obtain b m1 where r: "load_label env d l v m = (b, m1)" by (cases "load_label env d l v m")
  from assms [of l v m] r have "f m1 = f m" by simp
  with Cons.IH [of m1] r show ?case by (cases b) (simp_all add: e)
qed

lemma texture_label_fields [simp]:
  "m_path (outcome_material (texture_label env d l v acc m)) = m_path m"
  "m_state (outcome_material (texture_label env d l v acc m)) = m_state m"
  "m_size (outcome_material (texture_label env d l v acc m)) = m_size m"
  "m_shader (outcome_material (texture_label env d l v acc m)) = m_shader m"
  "m_shader_instance (outcome_material (texture_label env d l v acc m)) = m_shader_instance m"
  "m_uniforms (outcome_material (texture_label env d l v acc m)) = m_uniforms m"
  "m_texture_count (outcome_material (texture_label env d l v acc m)) = m_texture_count m"
  "m_render_states (outcome_material (texture_label env d l v acc m)) = m_render_states m"
  "m_color (outcome_material (texture_label env d l v acc m)) = m_color m"
  "m_shininess (outcome_material (texture_label env d l v acc m)) = m_shininess m"
  "m_alpha_ref (outcome_material (texture_label env d l v acc m)) = m_alpha_ref m"
  "m_define_mask (outcome_material (texture_label env d l v acc m)) = m_define_mask m"
  "m_command_buffer (outcome_material (texture_label env d l v acc m)) = m_command_buffer m"
  "m_layer_count (outcome_material (texture_label env d l v acc m)) = m_layer_count m"
  by (simp_all add: texture_label_def outcome_material_def Let_def case_prod_unfold)

lemma texture_labels_fields [simp]:
  "m_path (outcome_material (texture_labels env d es acc m)) = m_path m"
  "m_state (outcome_material (texture_labels env d es acc m)) = m_state m"
  "m_size (outcome_material (texture_labels env d es acc m)) = m_size m"
  "m_shader (outcome_material (texture_labels env d es acc m)) = m_shader m"
  "m_shader_instance (outcome_material (texture_labels env d es acc m)) = m_shader_instance m"
  "m_uniforms (outcome_material (texture_labels env d es acc m)) = m_uniforms m"
  "m_texture_count (outcome_material (texture_labels env d es acc m)) = m_texture_count m"
  "m_render_states (outcome_material (texture_labels env d es acc m)) = m_render_states m"
  "m_color (outcome_material (texture_labels env d es acc m)) = m_color m"
  "m_shininess (outcome_material (texture_labels env d es acc m)) = m_shininess m"
  "m_alpha_ref (outcome_material (texture_labels env d es acc m)) = m_alpha_ref m"
  "m_define_mask (outcome_material (texture_labels env d es acc m)) = m_define_mask m"
  "m_command_buffer (outcome_material (texture_labels env d es acc m)) = m_command_buffer m"
  "m_layer_count (outcome_material (texture_labels env d es acc m)) = m_layer_count m"
  by (rule texture_labels_frame, simp)+

lemma deserializeTexture_fields [simp]:
  "m_path (snd (deserializeTexture env d v m)) = m_path m"
  "m_state (snd (deserializeTexture env d v m)) = m_state m"
  "m_size (snd (deserializeTexture env d v m)) = m_size m"
  "m_shader (snd (deserializeTexture env d v m)) = m_shader m"
  "m_shader_instance (snd (deserializeTexture env d v m)) = m_shader_instance m"
  "m_uniforms (snd (deserializeTexture env d v m)) = m_uniforms m"
  "m_render_states (snd (deserializeTexture env d v m)) = m_render_states m"
  "m_color (snd (deserializeTexture env d v m)) = m_color m"
  "m_shininess (snd (deserializeTexture env d v m)) = m_shininess m"
  "m_alpha_ref (snd (deserializeTexture env d v m)) = m_alpha_ref m"
  "m_define_mask (snd (deserializeTexture env d v m)) = m_define_mask m"
  "m_command_buffer (snd (deserializeTexture env d v m)) = m_command_buffer m"
  "m_layer_count (snd (deserializeTexture env d v m)) = m_layer_count m"
  by (rule deserializeTexture_frame; simp)+

lemma load_label_fields [simp]:
  "m_path (snd (load_label env d l v m)) = m_path m"
  "m_state (snd (load_label env d l v m)) = m_state m"
  "m_size (snd (load_label env d l v m)) = m_size m"
  by (simp_all add: load_label_def)

lemma load_labels_fields [simp]:
  "m_path (snd (load_labels env d es m)) = m_path m"
  "m_state (snd (load_labels env d es m)) = m_state m"
  "m_size (snd (load_labels env d es m)) = m_size m"
  by (rule load_labels_frame, simp)+

subsection \<open>Define bits\<close>

lemma shl1_bit: "n < 32 \<Longrightarrow> bit (shl1 n) k = (k = n)"
  by (auto simp: shl1_def bit_push_bit_iff bit_1_iff bit_exp_iff)

lemma mask_and_shl1: "n < 32 \<Longrightarrow> (w AND shl1 n \<noteq> 0) = bit w n"
proof -
  assume n: "n < 32"
  have "(w AND shl1 n = 0) = (\<not> bit w n)"
    using n by (subst bit_eq_iff) (auto simp: bit_and_iff shl1_bit)
  then show ?thesis by simp
qed

lemma setDefine_mask:
  "m_define_mask (setDefine k e m) =
     (if e then m_define_mask m OR shl1 (unat k) else m_define_mask m AND NOT (shl1 (unat k)))"
  by (simp add: setDefine_def Let_def isReady_def split: option.splits)

lemma setDefine_again: "setDefine k e (setDefine k e m) = setDefine k e m"
  by (simp add: setDefine_def Let_def isReady_def resolveInstance_def emit_def
      split: option.splits)

text \<open>
  Claim C10. For every define index \<open>k\<close> (a bit of the 32-bit mask) and boolean \<open>e\<close>,
  after \<^verbatim>\<open>setDefine(k, e)\<close> the query \<^verbatim>\<open>isDefined(k)\<close> answers \<open>e\<close>, whether or not
  the material is ready; when the material is not ready or has no shader, the call
  changes the mask only: nothing is recorded in the trace and the shader instance
  stays.
\<close>

theorem setDefine_isDefined:
  assumes "unat k < 32"
  shows "isDefined k (setDefine k e m) = e \<and>
         ((\<not> isReady m \<or> m_shader m = None) \<longrightarrow>
            trace (setDefine k e m) = trace m \<and>
            m_shader_instance (setDefine k e m) = m_shader_instance m)"
proof -
  have "isDefined k (setDefine k e m) = e"
    using assms
    by (simp add: isDefined_def mask_and_shl1 setDefine_mask bit_or_iff bit_and_iff
        bit_not_iff shl1_bit)
  moreover have "(\<not> isReady m \<or> m_shader m = None) \<longrightarrow>
            trace (setDefine k e m) = trace m \<and>
            m_shader_instance (setDefine k e m) = m_shader_instance m"
    by (auto simp: setDefine_def Let_def isReady_def)
  ultimately show ?thesis by simp
qed

theorem setDefine_isDefined_witness:
  "unat (3 :: uint8) < 32 \<and> \<not> isReady demo_fresh \<and>
   isDefined 3 (setDefine 3 True demo_fresh) \<and>
   \<not> isDefined 3 (setDefine 3 False (setDefine 3 True demo_fresh)) \<and>
   trace (setDefine 3 True demo_fresh) = trace demo_fresh"
proof -
  have k: "unat (3 :: uint8) < 32" by simp
  have nr: "\<not> isReady demo_fresh" by code_simp
  from setDefine_isDefined [OF k, of True demo_fresh]
    setDefine_isDefined [OF k, of False "setDefine 3 True demo_fresh"] nr k
  show ?thesis by simp
qed

text \<open>
  Claim C6. On a ready material with a shader, \<^verbatim>\<open>setDefine(k, e)\<close> for a bit \<open>k\<close> of
  the mask, called twice in a row with the same arguments, resolves the shader
  instance once if the first call changed the mask and not at all otherwise; the
  second call changes nothing (neither the mask nor the trace, so it resolves no
  instance).
\<close>

theorem setDefine_twice:
  assumes "isReady m" and "m_shader m = Some sh" and "unat k < 32"
  shows "setDefine k e (setDefine k e m) = setDefine k e m \<and>
         resolutions (setDefine k e m) =
           resolutions m + (if m_define_mask (setDefine k e m) \<noteq> m_define_mask m then 1 else 0)"
proof -
  have "resolutions (setDefine k e m) =
           resolutions m + (if m_define_mask (setDefine k e m) \<noteq> m_define_mask m then 1 else 0)"
    using assms(1,2)
    by (simp add: setDefine_def Let_def isReady_def resolveInstance_def emit_def resolutions_def)
  then show ?thesis by (simp add: setDefine_again)
qed

theorem setDefine_twice_witness:
  "isReady demo_ready \<and> m_shader demo_ready = Some demo_shader \<and> unat (0 :: uint8) < 32 \<and>
   setDefine 0 True (setDefine 0 True demo_ready) = setDefine 0 True demo_ready \<and>
   resolutions (setDefine 0 True demo_ready) = resolutions demo_ready + 1 \<and>
   resolutions (setDefine 0 True (setDefine 0 True demo_ready)) = resolutions demo_ready + 1"
proof -
  have r: "isReady demo_ready" by code_simp
  have s: "m_shader demo_ready = Some demo_shader" by code_simp
  have c: "m_define_mask (setDefine 0 True demo_ready) \<noteq> m_define_mask demo_ready"
    by code_simp
  have k: "unat (0 :: uint8) < 32" by simp
  from setDefine_twice [OF r s k, of True] r s c show ?thesis by simp
qed

subsection \<open>Saving\<close>

text \<open>
  Claim C9. \<^verbatim>\<open>save\<close> on a material that is not ready, or that has no shader, returns
  false and leaves the serializer as it was.
\<close>

theorem save_refuses:
  assumes "\<not> isReady m \<or> m_shader m = None"
  shows "save env m serializer = (False, serializer)"
  using assms by (auto simp: save_def)

theorem save_refuses_witness:
  "\<not> isReady demo_fresh \<and> save demo_env demo_fresh [JNumber 1] = (False, [JNumber 1])"
proof -
  have nr: "\<not> isReady demo_fresh" by code_simp
  from save_refuses [of demo_fresh demo_env "[JNumber 1]"] nr show ?thesis by simp
qed

subsection \<open>Readiness reconciliation\<close>

lemma find_uniform_Some:
  "find_uniform h us j = Some k \<Longrightarrow> j \<le> k \<and> k < length us \<and> name_hash (us ! k) = h"
proof (induction h us j rule: find_uniform.induct)
  case (1 h us j)
  show ?case
  proof (cases "j < length us")
    case True
    note inr = this
    show ?thesis
    proof (cases "name_hash (us ! j) = h")
      case True
      with inr "1.prems" show ?thesis by (simp add: find_uniform.simps [of h us j])
    next
      case False
      with inr "1.prems" have "find_uniform h us (Suc j) = Some k"
        by (simp add: find_uniform.simps [of h us j])
      with "1.IH" [OF inr False] show ?thesis by simp
    qed
  next
    case False
    with "1.prems" show ?thesis by (simp add: find_uniform.simps [of h us j])
  qed
qed

lemma reconcile_uniform_step:
  assumes "i \<le> length us"
  shows "Suc i \<le> length (reconcile_uniform sh i us) \<and>
         name_hash (reconcile_uniform sh i us ! i) = su_name_hash (getUniform sh i) \<and>
         (\<forall>k<i. reconcile_uniform sh i us ! k = us ! k)"
proof (cases "find_uniform (su_name_hash (getUniform sh i)) us i")
  case None
  with assms show ?thesis
    by (auto simp: reconcile_uniform_def Let_def nth_append)
next
  case (Some j)
  from find_uniform_Some [OF Some]
  have j: "i \<le> j" "j < length us" "name_hash (us ! j) = su_name_hash (getUniform sh i)"
    by simp_all
  with Some show ?thesis
    by (auto simp: reconcile_uniform_def Let_def nth_list_update)
qed

lemma reconcile_fold:
  "length (fold (reconcile_uniform sh) [0..<n] us) \<ge> n \<and>
   (\<forall>k<n. name_hash (fold (reconcile_uniform sh) [0..<n] us ! k) = su_name_hash (getUniform sh k))"
proof (induction n)
  case 0
  show ?case by simp
next
  case (Suc n)
  let ?us = "fold (reconcile_uniform sh) [0..<n] us"
  from Suc have len: "n \<le> length ?us"
    and old: "\<forall>k<n. name_hash (?us ! k) = su_name_hash (getUniform sh k)" by simp_all
  note step = reconcile_uniform_step [OF len, of sh]
  have eq: "fold (reconcile_uniform sh) [0..<Suc n] us = reconcile_uniform sh n ?us"
    by simp
  show ?case
  proof (intro conjI allI impI)
    show "Suc n \<le> length (fold (reconcile_uniform sh) [0..<Suc n] us)"
      using step eq by simp
  next
    fix k assume "k < Suc n"
    then consider "k < n" | "k = n" by linarith
    then show "name_hash (fold (reconcile_uniform sh) [0..<Suc n] us ! k) =
               su_name_hash (getUniform sh k)"
    proof cases
      case 1
      with step old show ?thesis unfolding eq by simp
    next
      case 2
      with step show ?thesis unfolding eq by simp
    qed
  qed
qed

text \<open>
  Claim C1. For a material with a shader (the one whose readiness triggers the
  reconciliation), when \<^verbatim>\<open>onBeforeReady\<close> returns the material has at least as many
  uniform entries as the shader declares uniforms, and for every \<open>i\<close> below the
  shader's uniform count the entry \<open>i\<close> has the name hash of the shader's uniform
  \<open>i\<close>, whatever the list of parsed uniforms was.
\<close>

theorem onBeforeReady_slot_alignment:
  assumes "m_shader m = Some sh"
  shows "getUniformCount sh \<le> length (m_uniforms (onBeforeReady env m)) \<and>
         (\<forall>i<getUniformCount sh.
            name_hash (m_uniforms (onBeforeReady env m) ! i) = su_name_hash (getUniform sh i))"
  unfolding onBeforeReady_uniforms [OF assms] by (rule reconcile_fold)

theorem onBeforeReady_slot_alignment_witness:
  "m_shader demo_loaded = Some demo_shader \<and>
   map name_hash (m_uniforms demo_loaded) =
     [demo_hash ''u_extra'', demo_hash ''u_tint'', demo_hash ''u_rough''] \<and>
   getUniformCount demo_shader = 3 \<and>
   3 \<le> length (m_uniforms (onBeforeReady demo_env demo_loaded)) \<and>
   name_hash (m_uniforms (onBeforeReady demo_env demo_loaded) ! 0) = demo_hash ''u_rough'' \<and>
   name_hash (m_uniforms (onBeforeReady demo_env demo_loaded) ! 1) = demo_hash ''u_tint'' \<and>
   name_hash (m_uniforms (onBeforeReady demo_env demo_loaded) ! 2) = demo_hash ''u_time''"
proof -
  have sh: "m_shader demo_loaded = Some demo_shader" by code_simp
  have n: "getUniformCount demo_shader = 3" by code_simp
  have us: "map name_hash (m_uniforms demo_loaded) =
     [demo_hash ''u_extra'', demo_hash ''u_tint'', demo_hash ''u_rough'']" by code_simp
  have g: "su_name_hash (getUniform demo_shader 0) = demo_hash ''u_rough''"
    "su_name_hash (getUniform demo_shader 1) = demo_hash ''u_tint''"
    "su_name_hash (getUniform demo_shader 2) = demo_hash ''u_time''" by code_simp+
  from onBeforeReady_slot_alignment [OF sh, of demo_env] sh n us g
  show ?thesis by simp
qed

subsection \<open>Replacing a texture\<close>

text \<open>
  Claim C8. \<^verbatim>\<open>setTexture(i, texture)\<close> for a slot \<open>i\<close> of the array, when \<open>i\<close> is
  below the texture count, the slot holds a texture \<open>old\<close> and the new texture is not
  null: the new texture's atlas size becomes the old one's, and the call of
  \<^verbatim>\<open>setAtlasSize\<close> comes after the new texture's dependency is added and before the
  old texture's dependency is removed and the old texture is unloaded. When the slot
  holds no texture (or lies at or beyond the count) or the new texture is null, no
  texture of the table changes and \<^verbatim>\<open>setAtlasSize\<close> is not called.
\<close>

theorem setTexture_atlas_size:
  assumes "i < MAX_TEXTURE_COUNT env"
  shows "(i < m_texture_count m \<and> m_textures m i = Some old \<and> texture = Some new \<longrightarrow>
      textures (setTexture env i texture m) =
        (textures m)[new := (texture_at m new)\<lparr>tex_atlas_size := tex_atlas_size (texture_at m old)\<rparr>] \<and>
      (\<exists>rest. trace (setTexture env i texture m) =
         trace m @
         [AddDependency (TextureRes new), SetAtlasSize new (tex_atlas_size (texture_at m old)),
          RemoveDependency (TextureRes old), Unload (TextureRes old)] @ rest)) \<and>
   (\<not> i < m_texture_count m \<or> m_textures m i = None \<or> texture = None \<longrightarrow>
      textures (setTexture env i texture m) = textures m \<and>
      atlas_calls (setTexture env i texture m) = atlas_calls m)"
  by (auto simp: setTexture_def Let_def setAtlasSize_def texture_at_def atlas_calls_def
      split: option.splits)

theorem setTexture_atlas_size_witness:
  "1 < MAX_TEXTURE_COUNT demo_env \<and> m_texture_count demo_atlas = 2 \<and> m_textures demo_atlas 1 = Some 0 \<and>
   map tex_atlas_size (textures demo_atlas) = [64, -1] \<and>
   map tex_atlas_size (textures (setTexture demo_env 1 (Some 1) demo_atlas)) = [64, 64] \<and>
   m_textures demo_atlas 0 = None \<and>
   map tex_atlas_size (textures (setTexture demo_env 0 (Some 1) demo_atlas)) = [64, -1] \<and>
   atlas_calls (setTexture demo_env 0 (Some 1) demo_atlas) = atlas_calls demo_atlas \<and>
   textures (setTexture demo_env 1 None demo_atlas) = textures demo_atlas"
proof -
  have c: "m_texture_count demo_atlas = 2" by code_simp
  have s1: "m_textures demo_atlas 1 = Some 0" by code_simp
  have s0: "m_textures demo_atlas 0 = None" by code_simp
  have a: "map tex_atlas_size (textures demo_atlas) = [64, -1]" by code_simp
  have t: "textures demo_atlas =
     [\<lparr>tex_path = ''textures/n.dds'', tex_flags = 66, tex_atlas_size = 64, tex_data_refs = 0,
       tex_handle = 0\<rparr>,
      \<lparr>tex_path = ''textures/b.dds'', tex_flags = 0, tex_atlas_size = -1, tex_data_refs = 0,
       tex_handle = 1\<rparr>]" by code_simp
  have b: "1 < MAX_TEXTURE_COUNT demo_env" "0 < MAX_TEXTURE_COUNT demo_env"
    by (simp_all add: demo_env_def)
  from setTexture_atlas_size [OF b(1), of demo_atlas 0 "Some 1" 1]
    setTexture_atlas_size [OF b(2), of demo_atlas 0 "Some 1" 1]
    setTexture_atlas_size [OF b(1), of demo_atlas 0 None 1]
    b c s1 s0 a t
  show ?thesis by (simp add: texture_at_def)
qed

subsection \<open>The loop over the labels of a document\<close>

lemma load_labels_append:
  "load_labels env d (xs @ ys) m =
     (case load_labels env d xs m of
        (False, m1) \<Rightarrow> (False, m1)
      | (True, m1) \<Rightarrow> load_labels env d ys m1)"
proof (induction xs arbitrary: m)
  case Nil
  show ?case by simp
next
  case (Cons e xs)
  obtain l v where e: "e = (l, v)" by (cases e)
  obtain b m1 where r: "load_label env d l v m = (b, m1)" by (cases "load_label env d l v m")
  show ?case using Cons.IH [of m1] r by (cases b) (simp_all add: e)
qed

lemma load_labels_frame_on:
  assumes "\<And>l v m. l \<in> set (map fst es) \<Longrightarrow> f (snd (load_label env d l v m)) = f m"
  shows "f (snd (load_labels env d es m)) = f m"
  using assms
proof (induction es arbitrary: m)
  case Nil
  show ?case by simp
next
  case (Cons e es)
  obtain l v where e: "e = (l, v)" by (cases e)
  obtain b m1 where r: "load_label env d l v m = (b, m1)" by (cases "load_label env d l v m")
  from Cons.prems [of l v m] r e have "f m1 = f m" by simp
  moreover have "f (snd (load_labels env d es m1)) = f m1"
    by (rule Cons.IH) (simp add: Cons.prems)
  ultimately show ?case using r by (cases b) (simp_all add: e)
qed

lemma load_label_keeps_shader:
  "l \<noteq> ''shader'' \<Longrightarrow> m_shader (snd (load_label env d l v m)) = m_shader m"
  by (simp add: load_label_def)

lemma load_label_keeps_alpha_ref:
  "l \<noteq> ''alpha_ref'' \<Longrightarrow> m_alpha_ref (snd (load_label env d l v m)) = m_alpha_ref m"
  by (simp add: load_label_def)

lemma load_labels_keeps_shader:
  assumes "''shader'' \<notin> set (map fst es)"
  shows "m_shader (snd (load_labels env d es m)) = m_shader m"
proof (rule load_labels_frame_on)
  fix l v m'
  assume "l \<in> set (map fst es)"
  with assms have "l \<noteq> ''shader''" by force
  then show "m_shader (snd (load_label env d l v m')) = m_shader m'"
    by (rule load_label_keeps_shader)
qed

lemma load_labels_keeps_alpha_ref:
  assumes "''alpha_ref'' \<notin> set (map fst es)"
  shows "m_alpha_ref (snd (load_labels env d es m)) = m_alpha_ref m"
proof (rule load_labels_frame_on)
  fix l v m'
  assume "l \<in> set (map fst es)"
  with assms have "l \<noteq> ''alpha_ref''" by force
  then show "m_alpha_ref (snd (load_label env d l v m')) = m_alpha_ref m'"
    by (rule load_label_keeps_alpha_ref)
qed

lemma load_label_goes_on:
  "l \<noteq> ''texture'' \<Longrightarrow> fst (load_label env d l v m)"
  by (simp add: load_label_def)

lemma load_labels_goes_on:
  "''texture'' \<notin> set (map fst es) \<Longrightarrow> fst (load_labels env d es m)"
proof (induction es arbitrary: m)
  case Nil
  show ?case by simp
next
  case (Cons e es)
  obtain l v where e: "e = (l, v)" by (cases e)
  obtain b m1 where r: "load_label env d l v m = (b, m1)" by (cases "load_label env d l v m")
  from Cons.prems e have "l \<noteq> ''texture''" by auto
  from load_label_goes_on [OF this, of env d v m] r have b by simp
  with Cons.IH [of m1] Cons.prems r show ?case by (simp add: e)
qed

lemma load_unfold:
  "load env file m =
     (let r = load_labels env (getDir env (m_path m)) (object_entries (file_document file))
                ((setAlphaRef env DEFAULT_ALPHA_REF_VALUE (m\<lparr>m_render_states := 0\<rparr>))
                   \<lparr>m_uniforms := []\<rparr>)
      in if \<not> fst r then (False, snd r)
         else if m_shader (snd r) = None
         then (False, emit (LogError ''without a shader'') (snd r))
         else (True, (snd r)\<lparr>m_size := file_size file\<rparr>))"
  by (simp add: load_def Let_def split: prod.splits bool.splits)

lemma load_fst:
  "fst (load env file m) =
     (fst (load_labels env (getDir env (m_path m)) (object_entries (file_document file))
             ((setAlphaRef env DEFAULT_ALPHA_REF_VALUE (m\<lparr>m_render_states := 0\<rparr>))
                \<lparr>m_uniforms := []\<rparr>)) \<and>
      m_shader (snd (load_labels env (getDir env (m_path m))
             (object_entries (file_document file))
             ((setAlphaRef env DEFAULT_ALPHA_REF_VALUE (m\<lparr>m_render_states := 0\<rparr>))
                \<lparr>m_uniforms := []\<rparr>))) \<noteq> None)"
  by (simp add: load_def Let_def split: prod.splits bool.splits)

lemma Material_new_shader [simp]:
  "m_shader (Material_new env path ts tr) = getDefaultShader env"
  by (simp add: Material_new_def setShader_def Let_def setAlphaRef_def)

text \<open>
  Claim C3 (the code departs from it). A document without a \<^verbatim>\<open>shader\<close> label, and
  without texture blocks, loaded into a material as the constructor leaves it, in an
  engine that has a default shader: \<^verbatim>\<open>load\<close> returns true, with the default shader
  the constructor installed. The test \<^verbatim>\<open>if (!m_shader)\<close> at the end of \<^verbatim>\<open>load\<close>
  never holds there.
\<close>

theorem load_without_shader_key:
  assumes "''shader'' \<notin> set (map fst es)" and "''texture'' \<notin> set (map fst es)"
    and "getDefaultShader env = Some dflt"
  shows "fst (load env \<lparr>file_document = JObject es, file_size = n\<rparr>
                (Material_new env path ts tr)) \<and>
         m_shader (snd (load env \<lparr>file_document = JObject es, file_size = n\<rparr>
                (Material_new env path ts tr))) = Some dflt"
proof -
  let ?m0 = "(setAlphaRef env DEFAULT_ALPHA_REF_VALUE
               ((Material_new env path ts tr)\<lparr>m_render_states := 0\<rparr>))\<lparr>m_uniforms := []\<rparr>"
  let ?d = "getDir env (m_path (Material_new env path ts tr))"
  have sh: "m_shader (snd (load_labels env ?d es ?m0)) = m_shader ?m0"
    by (rule load_labels_keeps_shader [OF assms(1)])
  have m0: "m_shader ?m0 = Some dflt"
    using assms(3) by simp
  have ok: "fst (load_labels env ?d es ?m0)"
    by (rule load_labels_goes_on [OF assms(2)])
  have "fst (load env \<lparr>file_document = JObject es, file_size = n\<rparr>
                (Material_new env path ts tr))"
    using sh m0 ok by (simp add: load_fst object_entries_def)
  moreover have "m_shader (snd (load env \<lparr>file_document = JObject es, file_size = n\<rparr>
                (Material_new env path ts tr))) = Some dflt"
    using sh m0 ok by (simp add: load_unfold Let_def object_entries_def)
  ultimately show ?thesis by simp
qed

theorem load_without_shader_key_witness:
  "''shader'' \<notin> set (map fst [(''shininess'', JNumber 2)]) \<and>
   fst (load demo_env no_shader_file demo_fresh) \<and>
   m_shader (snd (load demo_env no_shader_file demo_fresh)) = Some demo_shader"
proof -
  have a: "''shader'' \<notin> set (map fst [(''shininess'', JNumber 2)])"
    "''texture'' \<notin> set (map fst [(''shininess'', JNumber 2)])" by simp_all
  have d: "getDefaultShader demo_env = Some demo_shader" by (simp add: demo_env_def)
  from load_without_shader_key [OF a d, of 24 "''models/demo.mat''" "[]" "[]"] a
  show ?thesis by (simp add: no_shader_file_def demo_fresh_def)
qed

subsection \<open>Unknown labels\<close>








subsection \<open>The alpha reference in the render state\<close>

lemma alpha_ref_field_read:
  assumes "BGFX_STATE_ALPHA_REF_MASK env = push_bit (BGFX_STATE_ALPHA_REF_SHIFT env) 255"
    and "BGFX_STATE_ALPHA_REF_SHIFT env \<le> 56"
    and "r AND BGFX_STATE_ALPHA_REF_MASK env = 0"
  shows "alpha_ref_field env (BGFX_STATE_ALPHA_REF env a OR r) = a"
proof -
  let ?s = "BGFX_STATE_ALPHA_REF_SHIFT env"
  let ?k = "BGFX_STATE_ALPHA_REF_MASK env"
  have "(BGFX_STATE_ALPHA_REF env a OR r) AND ?k = push_bit ?s (ucast a) AND ?k"
    using assms(3) by (simp add: BGFX_STATE_ALPHA_REF_def bit.conj_disj_distrib2)
  also have "\<dots> = push_bit ?s (ucast a AND 255)"
    by (simp add: assms(1) push_bit_and)
  finally have "alpha_ref_field env (BGFX_STATE_ALPHA_REF env a OR r) =
      ucast (drop_bit ?s (push_bit ?s ((ucast a :: uint64) AND 255)))"
    by (simp add: alpha_ref_field_def)
  also have "\<dots> = a"
  proof (rule bit_word_eqI)
    fix n assume "n < LENGTH(8)"
    then have n: "n < 8" by simp
    with assms(2) have "n + ?s < 64" by simp
    moreover have m: "(255 :: uint64) = mask 8" by (simp add: mask_eq_exp_minus_1)
    have "bit (mask 8 :: uint64) n" using n by (simp add: bit_mask_iff)
    then have "bit (255 :: uint64) n" by (simp only: m)
    ultimately show "bit (ucast (drop_bit ?s (push_bit ?s ((ucast a :: uint64) AND 255))) :: uint8) n
        = bit a n"
      using n by (simp add: bit_ucast_iff bit_drop_bit_eq bit_push_bit_iff bit_and_iff)
  qed
  finally show ?thesis .
qed

lemma load_alpha_ref:
  assumes "object_entries (file_document file) = es1 @ (''alpha_ref'', JNumber x) # es2"
    and "''alpha_ref'' \<notin> set (map fst es2)"
    and "load env file m = (True, m1)"
  shows "m_alpha_ref m1 = x"
proof -
  let ?d = "getDir env (m_path m)"
  let ?m0 = "(setAlphaRef env DEFAULT_ALPHA_REF_VALUE (m\<lparr>m_render_states := 0\<rparr>))
                \<lparr>m_uniforms := []\<rparr>"
  let ?r = "load_labels env ?d (es1 @ (''alpha_ref'', JNumber x) # es2) ?m0"
  from assms(3) have r: "fst ?r" and m1: "m1 = (snd ?r)\<lparr>m_size := file_size file\<rparr>"
    by (auto simp: load_unfold assms(1) Let_def split: if_splits)
  obtain b ma where a: "load_labels env ?d es1 ?m0 = (b, ma)"
    by (cases "load_labels env ?d es1 ?m0")
  with r have b by (cases b) (simp_all add: load_labels_append)
  with a have "?r = load_labels env ?d es2 (ma\<lparr>m_alpha_ref := x\<rparr>)"
    by (simp add: load_labels_append load_label_def deserialize_float_def)
  then have "m_alpha_ref (snd ?r) = x"
    by (simp add: load_labels_keeps_alpha_ref [OF assms(2)])
  with m1 show ?thesis by simp
qed

lemma uint8_of_half: "uint8_of_float (1 / 2 * 255) = 127"
  by code_simp

text \<open>
  Claim C5, as the code has it. After a document whose last \<^verbatim>\<open>alpha_ref\<close> is 0.5 has
  been loaded and the material has turned ready (\<^verbatim>\<open>onBeforeReady\<close> has run), the
  alpha-reference sub-field of the render state is 127: \<^verbatim>\<open>uint8(0.5 * 255.0f)\<close> drops
  the fraction of 127.5. The sub-field is the eight bits of the mask at the shift, and
  the shader's own render state leaves them clear.
\<close>

theorem alpha_ref_after_ready:
  assumes "BGFX_STATE_ALPHA_REF_MASK env = push_bit (BGFX_STATE_ALPHA_REF_SHIFT env) 255"
    and "BGFX_STATE_ALPHA_REF_SHIFT env \<le> 56"
    and "object_entries (file_document file) = es1 @ (''alpha_ref'', JNumber (1 / 2)) # es2"
    and "''alpha_ref'' \<notin> set (map fst es2)"
    and "load env file m = (True, m1)"
    and "m_shader m1 = Some sh"
    and "sh_render_states sh AND BGFX_STATE_ALPHA_REF_MASK env = 0"
    and "length (texture_blocks (object_entries (file_document file))) \<le> MAX_TEXTURE_COUNT env"
  shows "alpha_ref_field env (m_render_states (becomeReady env m1)) = 127"
proof -
  have a: "m_alpha_ref m1 = 1 / 2"
    by (rule load_alpha_ref [OF assms(3,4,5)])
  have u: "uint8_of_float (m_alpha_ref m1 * 255) = 127"
    unfolding a by (rule uint8_of_half)
  have rs: "m_render_states (becomeReady env m1) =
      BGFX_STATE_ALPHA_REF env (uint8_of_float (m_alpha_ref m1 * 255)) OR sh_render_states sh"
    by (simp add: becomeReady_def onBeforeReady_render_states [OF assms(6)])
  show ?thesis
    unfolding rs u by (rule alpha_ref_field_read [OF assms(1,2,7)])
qed

theorem alpha_ref_after_ready_witness:
  "load demo_env scenario_file demo_fresh = (True, snd (load demo_env scenario_file demo_fresh)) \<and>
   alpha_ref_field demo_env
     (m_render_states (becomeReady demo_env (snd (load demo_env scenario_file demo_fresh)))) = 127"
proof -
  have e1: "BGFX_STATE_ALPHA_REF_MASK demo_env = push_bit (BGFX_STATE_ALPHA_REF_SHIFT demo_env) 255"
    by (simp add: demo_env_def)
  have e2: "BGFX_STATE_ALPHA_REF_SHIFT demo_env \<le> 56" by (simp add: demo_env_def)
  have d: "object_entries (file_document scenario_file) =
     [(''shader'', JString ''/shaders/default.shd''),
      (''texture'', JObject [(''source'', JString ''t.dds''), (''srgb'', JBool True)])]
     @ (''alpha_ref'', JNumber (1 / 2)) # []"
    by (simp add: scenario_file_def object_entries_def)
  have l: "''alpha_ref'' \<notin> set (map fst ([] :: (string \<times> Json) list))" by simp
  have "fst (load demo_env scenario_file demo_fresh)" by code_simp
  then have ok: "load demo_env scenario_file demo_fresh =
      (True, snd (load demo_env scenario_file demo_fresh))"
    by (cases "load demo_env scenario_file demo_fresh") simp
  have sh: "m_shader (snd (load demo_env scenario_file demo_fresh)) = Some demo_shader"
    by code_simp
  have r: "sh_render_states demo_shader AND BGFX_STATE_ALPHA_REF_MASK demo_env = 0"
    by (simp add: demo_env_def demo_shader_def)
  have n: "length (texture_blocks (object_entries (file_document scenario_file)))
             \<le> MAX_TEXTURE_COUNT demo_env" by code_simp
  from alpha_ref_after_ready [OF e1 e2 d l ok sh r n] ok show ?thesis by simp
qed

text \<open>
  The scenario of section 8 run on the code: when \<^verbatim>\<open>load\<close> returns, the sub-field
  still holds 76, which the reconciliation triggered by the ready shader computed from
  the default 0.3 before \<^verbatim>\<open>alpha_ref\<close> was read; once the material is ready it holds
  127. It is 128 at neither point.
\<close>

theorem alpha_ref_scenario_counterexample:
  "alpha_ref_field demo_env (m_render_states (snd (load demo_env scenario_file demo_fresh))) = 76 \<and>
   alpha_ref_field demo_env
     (m_render_states (becomeReady demo_env (snd (load demo_env scenario_file demo_fresh)))) = 127 \<and>
   alpha_ref_field demo_env (m_render_states (snd (load demo_env scenario_file demo_fresh)))
     \<noteq> 128 \<and>
   alpha_ref_field demo_env
     (m_render_states (becomeReady demo_env (snd (load demo_env scenario_file demo_fresh))))
     \<noteq> 128"
  by code_simp

subsection \<open>Texture slots filled by load\<close>

lemma find_texture_Some:
  "find_texture p ts i = Some t \<Longrightarrow> t < length ts \<and> tex_path (ts ! t) = p"
proof (induction p ts i rule: find_texture.induct)
  case (1 p ts i)
  show ?case
  proof (cases "i < length ts")
    case True
    note inr = this
    show ?thesis
    proof (cases "tex_path (ts ! i) = p")
      case True
      with inr "1.prems" show ?thesis by (simp add: find_texture.simps [of p ts i])
    next
      case False
      with inr "1.prems" have "find_texture p ts (Suc i) = Some t"
        by (simp add: find_texture.simps [of p ts i])
      with "1.IH" [OF inr False] show ?thesis by simp
    qed
  next
    case False
    with "1.prems" show ?thesis by (simp add: find_texture.simps [of p ts i])
  qed
qed

lemma paths_kept_refl [simp]: "paths_kept m m"
  by (simp add: paths_kept_def)

lemma paths_kept_same: "textures m' = textures m \<Longrightarrow> paths_kept m m'"
  by (simp add: paths_kept_def)

lemma paths_kept_length: "paths_kept m m' \<Longrightarrow> length (textures m) \<le> length (textures m')"
proof -
  assume "paths_kept m m'"
  then have "length (take (length (textures m)) (map tex_path (textures m'))) =
             length (map tex_path (textures m))"
    by (simp only: paths_kept_def)
  then show ?thesis by simp
qed

lemma paths_kept_nth:
  assumes "paths_kept m m'" and "t < length (textures m)"
  shows "t < length (textures m') \<and> tex_path (texture_at m' t) = tex_path (texture_at m t)"
proof -
  from paths_kept_length [OF assms(1)] assms(2) have t: "t < length (textures m')" by simp
  from assms(1) have "take (length (textures m)) (map tex_path (textures m')) ! t =
      map tex_path (textures m) ! t"
    by (simp only: paths_kept_def)
  with assms(2) t show ?thesis by (simp add: texture_at_def)
qed

lemma paths_kept_trans:
  assumes "paths_kept a b" and "paths_kept b c"
  shows "paths_kept a c"
proof -
  from paths_kept_length [OF assms(1)]
  have "take (length (textures a)) (map tex_path (textures c)) =
        take (length (textures a)) (take (length (textures b)) (map tex_path (textures c)))"
    by (simp add: min_def)
  also have "\<dots> = take (length (textures a)) (map tex_path (textures b))"
    using assms(2) by (simp only: paths_kept_def)
  also have "\<dots> = map tex_path (textures a)"
    using assms(1) by (simp only: paths_kept_def)
  finally show ?thesis by (simp only: paths_kept_def)
qed

lemma map_tex_path_update:
  "tex_path x = tex_path (ts ! t) \<Longrightarrow> map tex_path (ts[t := x]) = map tex_path ts"
proof (cases "t < length ts")
  case True
  assume "tex_path x = tex_path (ts ! t)"
  with True show ?thesis by (simp add: map_update list_update_same_conv)
next
  case False
  then show ?thesis by (simp add: list_update_beyond)
qed

lemma setter_paths [simp]:
  "map tex_path (textures (setAtlasSize t n m)) = map tex_path (textures m)"
  "map tex_path (textures (setFlags t f m)) = map tex_path (textures m)"
  "map tex_path (textures (addDataReference t m)) = map tex_path (textures m)"
  by (simp_all add: setAtlasSize_def setFlags_def addDataReference_def texture_at_def
      map_tex_path_update)

lemma setter_length [simp]:
  "length (textures (setAtlasSize t n m)) = length (textures m)"
  "length (textures (setFlags t f m)) = length (textures m)"
  "length (textures (addDataReference t m)) = length (textures m)"
  by (simp_all add: setAtlasSize_def setFlags_def addDataReference_def)

lemma paths_kept_cong:
  "map tex_path (textures m') = map tex_path (textures m'') \<Longrightarrow>
   paths_kept m m' = paths_kept m m''"
  by (simp add: paths_kept_def)

lemma texture_manager_load_result:
  assumes "texture_manager_load env p m = (t, m1)"
  shows "t < length (textures m1) \<and> tex_path (texture_at m1 t) = normalize env p \<and>
         paths_kept m m1 \<and> m1 = m\<lparr>textures := textures m1\<rparr>"
proof (cases "find_texture (normalize env p) (textures m) 0")
  case None
  with assms show ?thesis
    by (auto simp: texture_manager_load_def texture_at_def paths_kept_def)
next
  case (Some u)
  from find_texture_Some [OF Some] Some assms show ?thesis
    by (auto simp: texture_manager_load_def texture_at_def)
qed

lemma slot_holds_moved:
  assumes "slot_holds env m i r" and "paths_kept m m'" and "m_textures m' i = m_textures m i"
  shows "slot_holds env m' i r"
proof (cases r)
  case None
  with assms show ?thesis by (simp add: slot_holds_def)
next
  case (Some p)
  with assms(1) obtain t where t: "m_textures m i = Some t" "t < length (textures m)"
    "tex_path (texture_at m t) = normalize env p"
    by (auto simp: slot_holds_def split: option.splits)
  from paths_kept_nth [OF assms(2) t(2)] t assms(3) Some show ?thesis
    by (simp add: slot_holds_def)
qed

lemma texture_label_other:
  assumes "l \<noteq> ''source''"
  shows "textures (outcome_material (texture_label env d l v acc m)) = textures m"
    and "m_textures (outcome_material (texture_label env d l v acc m)) = m_textures m"
  using assms
  by (simp_all add: texture_label_def outcome_material_def Let_def case_prod_unfold)

lemma texture_label_known:
  "l \<in> set texture_block_labels \<Longrightarrow> \<not> isl (texture_label env d l v acc m)"
  by (cases acc) (auto simp: texture_label_def texture_block_labels_def Let_def case_prod_unfold)

lemma texture_label_source:
  "texture_label env d ''source'' v acc m =
     (let path = deserialize_string (MAX_PATH_LENGTH env) [] v
      in if path \<noteq> []
         then (let r = texture_manager_load env (resolve_texture_path env d path) m
               in Inr (acc, addDependency (TextureRes (fst r))
                        ((snd r)\<lparr>m_textures :=
                                  (m_textures (snd r))(m_texture_count (snd r) := Some (fst r))\<rparr>)))
         else Inr (acc, m))"
  by (cases acc) (simp add: texture_label_def Let_def case_prod_unfold)

lemma slot_after_moved:
  assumes "slot_after env m i r old" and "paths_kept m m'" and "m_textures m' i = m_textures m i"
  shows "slot_after env m' i r old"
proof (cases r)
  case None
  with assms show ?thesis by (simp add: slot_after_def)
next
  case (Some p)
  with assms(1) have "slot_holds env m i (Some p)" by (simp add: slot_after_def)
  from slot_holds_moved [OF this assms(2,3)] Some show ?thesis by (simp add: slot_after_def)
qed

text \<open>One label of a block whose labels are all known: the slot being filled follows
  \<open>block_source\<close>, the other slots and the count stay.\<close>

lemma texture_label_step:
  assumes "l \<in> set texture_block_labels"
    and "slot_after env m (m_texture_count m) r old"
  shows "\<exists>acc1 m1. texture_label env d l v acc m = Inr (acc1, m1) \<and>
           m_texture_count m1 = m_texture_count m \<and>
           (\<forall>i. i \<noteq> m_texture_count m \<longrightarrow> m_textures m1 i = m_textures m i) \<and>
           paths_kept m m1 \<and>
           slot_after env m1 (m_texture_count m) (block_source env d (l, v) r) old"
proof -
  from texture_label_known [OF assms(1), of env d v acc m]
  obtain acc1 m1 where res: "texture_label env d l v acc m = Inr (acc1, m1)"
    by (cases "texture_label env d l v acc m") auto
  then have m1: "m1 = outcome_material (texture_label env d l v acc m)"
    by (simp add: outcome_material_def)
  have count: "m_texture_count m1 = m_texture_count m"
    unfolding m1 by simp
  show ?thesis
  proof (cases "l = ''source'' \<and> deserialize_string (MAX_PATH_LENGTH env) [] v \<noteq> []")
    case False
    have same: "textures m1 = textures m \<and> m_textures m1 = m_textures m"
    proof (cases "l = ''source''")
      case True
      with False res show ?thesis by (simp add: texture_label_source Let_def)
    next
      case False
      then show ?thesis unfolding m1 by (simp add: texture_label_other)
    qed
    from False have "block_source env d (l, v) r = r"
      by (auto simp: block_source_def)
    moreover from same have pk: "paths_kept m m1" by (simp add: paths_kept_same)
    moreover from slot_after_moved [OF assms(2) pk] same
    have "slot_after env m1 (m_texture_count m) r old" by simp
    ultimately show ?thesis
      using res count same by (intro exI [of _ acc1] exI [of _ m1]) simp
  next
    case True
    let ?p = "resolve_texture_path env d (deserialize_string (MAX_PATH_LENGTH env) [] v)"
    obtain t ma where ld: "texture_manager_load env ?p m = (t, ma)"
      by (cases "texture_manager_load env ?p m")
    note r = texture_manager_load_result [OF ld]
    from r have ma: "m_textures ma = m_textures m" "m_texture_count ma = m_texture_count m"
      by (metis (no_types) Material.select_convs Material.surjective Material.update_convs)+
    from True res ld have m1': "m1 = addDependency (TextureRes t)
        (ma\<lparr>m_textures := (m_textures ma)(m_texture_count ma := Some t)\<rparr>)"
      by (simp add: texture_label_source Let_def)
    have src: "block_source env d (l, v) r = Some ?p"
      using True by (simp add: block_source_def)
    have "slot_after env m1 (m_texture_count m) (Some ?p) old"
      using r ma by (simp add: m1' slot_after_def slot_holds_def texture_at_def)
    moreover have "paths_kept m m1"
      using r by (simp add: m1' paths_kept_def)
    moreover have "\<forall>i. i \<noteq> m_texture_count m \<longrightarrow> m_textures m1 i = m_textures m i"
      using ma by (simp add: m1')
    ultimately show ?thesis
      using res count src by (intro exI [of _ acc1] exI [of _ m1]) simp
  qed
qed

lemma texture_labels_steps:
  assumes "list_all (\<lambda>lw. fst lw \<in> set texture_block_labels) es"
    and "slot_after env m (m_texture_count m) r old"
  shows "\<exists>acc1 m1. texture_labels env d es acc m = Inr (acc1, m1) \<and>
           m_texture_count m1 = m_texture_count m \<and>
           (\<forall>i. i \<noteq> m_texture_count m \<longrightarrow> m_textures m1 i = m_textures m i) \<and>
           paths_kept m m1 \<and>
           slot_after env m1 (m_texture_count m) (fold (block_source env d) es r) old"
  using assms
proof (induction es arbitrary: acc m r)
  case Nil
  then show ?case by (intro exI [of _ acc] exI [of _ m]) simp
next
  case (Cons e es)
  obtain l v where e: "e = (l, v)" by (cases e)
  from Cons.prems(1) e have l: "l \<in> set texture_block_labels"
    and es: "list_all (\<lambda>lw. fst lw \<in> set texture_block_labels) es" by simp_all
  from texture_label_step [OF l Cons.prems(2), of d v acc]
  obtain acc1 m1 where s: "texture_label env d l v acc m = Inr (acc1, m1)"
    "m_texture_count m1 = m_texture_count m"
    "\<forall>i. i \<noteq> m_texture_count m \<longrightarrow> m_textures m1 i = m_textures m i"
    "paths_kept m m1"
    "slot_after env m1 (m_texture_count m) (block_source env d (l, v) r) old"
    by blast
  from s(2,5) have "slot_after env m1 (m_texture_count m1) (block_source env d (l, v) r) old"
    by simp
  from Cons.IH [OF es this, of acc1]
  obtain acc2 m2 where t: "texture_labels env d es acc1 m1 = Inr (acc2, m2)"
    "m_texture_count m2 = m_texture_count m1"
    "\<forall>i. i \<noteq> m_texture_count m1 \<longrightarrow> m_textures m2 i = m_textures m1 i"
    "paths_kept m1 m2"
    "slot_after env m2 (m_texture_count m1)
       (fold (block_source env d) es (block_source env d (l, v) r)) old"
    by blast
  from s t paths_kept_trans [OF s(4) t(4)] show ?case
    by (intro exI [of _ acc2] exI [of _ m2]) (simp add: e)
qed

text \<open>A whole block with known labels: the slot at the count holds the block's texture
  if it names one, and is left as it was if it names none.\<close>

lemma deserializeTexture_slot:
  assumes "known_block v"
  shows "\<exists>m1. deserializeTexture env d v m = (True, m1) \<and>
           m_texture_count m1 = Suc (m_texture_count m) \<and>
           (\<forall>i. i \<noteq> m_texture_count m \<longrightarrow> m_textures m1 i = m_textures m i) \<and>
           paths_kept m m1 \<and>
           slot_after env m1 (m_texture_count m) (block_path env d v)
             (m_textures m (m_texture_count m))"
proof -
  let ?old = "m_textures m (m_texture_count m)"
  have "slot_after env m (m_texture_count m) None ?old"
    by (simp add: slot_after_def)
  from texture_labels_steps [OF assms [unfolded known_block_def] this, of d "(False, 0, -1)"]
  obtain acc1 ma where s: "texture_labels env d (object_entries v) (False, 0, -1) m = Inr (acc1, ma)"
    "m_texture_count ma = m_texture_count m"
    "\<forall>i. i \<noteq> m_texture_count m \<longrightarrow> m_textures ma i = m_textures m i"
    "paths_kept m ma"
    "slot_after env ma (m_texture_count m) (block_path env d v) ?old"
    unfolding block_path_def by blast
  obtain keep_data flags atlas_size where acc1: "acc1 = (keep_data, flags, atlas_size)"
    by (cases acc1)
  define mb where "mb = (case m_textures ma (m_texture_count ma) of
                       None \<Rightarrow> ma
                     | Some t \<Rightarrow>
                         (let m' = setFlags t flags (setAtlasSize t atlas_size ma)
                          in if keep_data then addDataReference t m' else m'))"
  have res: "deserializeTexture env d v m = (True, mb\<lparr>m_texture_count := m_texture_count mb + 1\<rparr>)"
    by (simp add: deserializeTexture_def s(1) acc1 mb_def Let_def)
  have mb: "m_textures mb = m_textures ma" "m_texture_count mb = m_texture_count ma"
    "map tex_path (textures mb) = map tex_path (textures ma)"
    "length (textures mb) = length (textures ma)"
    by (simp_all add: mb_def Let_def split: option.splits)
  let ?m1 = "mb\<lparr>m_texture_count := m_texture_count mb + 1\<rparr>"
  have pk: "paths_kept ma ?m1"
    using mb by (simp add: paths_kept_def)
  have "slot_after env ?m1 (m_texture_count m) (block_path env d v) ?old"
    by (rule slot_after_moved [OF s(5) pk]) (simp add: mb)
  moreover have "paths_kept m ?m1"
    by (rule paths_kept_trans [OF s(4) pk])
  ultimately show ?thesis
    using res s(2,3) mb by (intro exI [of _ ?m1]) simp
qed

lemma load_label_keeps_slots:
  assumes "l \<noteq> ''texture''"
  shows "textures (snd (load_label env d l v m)) = textures m"
    and "m_textures (snd (load_label env d l v m)) = m_textures m"
    and "m_texture_count (snd (load_label env d l v m)) = m_texture_count m"
  using assms by (simp_all add: load_label_def)

lemma slot_holds_cong:
  "textures m' = textures m \<Longrightarrow> m_textures m' = m_textures m \<Longrightarrow>
   slot_holds env m' i r = slot_holds env m i r"
  by (simp add: slot_holds_def texture_at_def cong: option.case_cong)

lemma slot_after_cong:
  "textures m' = textures m \<Longrightarrow> m_textures m' = m_textures m \<Longrightarrow>
   slot_after env m' i r old = slot_after env m i r old"
  by (simp add: slot_after_def slot_holds_cong [of m' m] cong: option.case_cong)

lemma texture_blocks_Cons:
  "texture_blocks ((l, v) # es) =
     (if l = ''texture'' then v # texture_blocks es else texture_blocks es)"
  by (simp add: texture_blocks_def)

text \<open>The labels of a document: each texture block takes the slot at the count. Slots
  below the count at the start, and slots from the count at the end on, are left as
  they were.\<close>

lemma load_labels_slots:
  assumes "list_all known_block (texture_blocks es)"
  shows "\<exists>m1. load_labels env d es m = (True, m1) \<and>
           m_texture_count m1 = m_texture_count m + length (texture_blocks es) \<and>
           (\<forall>i<m_texture_count m. m_textures m1 i = m_textures m i) \<and>
           (\<forall>i\<ge>m_texture_count m1. m_textures m1 i = m_textures m i) \<and>
           paths_kept m m1 \<and>
           (\<forall>k<length (texture_blocks es).
              slot_after env m1 (m_texture_count m + k) (block_path env d (texture_blocks es ! k))
                (m_textures m (m_texture_count m + k)))"
  using assms
proof (induction es arbitrary: m)
  case Nil
  then show ?case by (intro exI [of _ m]) (simp add: texture_blocks_def)
next
  case (Cons e es)
  obtain l v where e: "e = (l, v)" by (cases e)
  let ?c = "m_texture_count m"
  show ?case
  proof (cases "l = ''texture''")
    case True
    with Cons.prems(1) e have kv: "known_block v" and kes: "list_all known_block (texture_blocks es)"
      by (simp_all add: texture_blocks_Cons)
    from deserializeTexture_slot [OF kv, of env d m]
    obtain m1 where s: "deserializeTexture env d v m = (True, m1)"
      "m_texture_count m1 = Suc ?c"
      "\<forall>i. i \<noteq> ?c \<longrightarrow> m_textures m1 i = m_textures m i"
      "paths_kept m m1"
      "slot_after env m1 ?c (block_path env d v) (m_textures m ?c)"
      by blast
    from Cons.IH [OF kes, of m1]
    obtain m2 where t: "load_labels env d es m1 = (True, m2)"
      "m_texture_count m2 = m_texture_count m1 + length (texture_blocks es)"
      "\<forall>i<m_texture_count m1. m_textures m2 i = m_textures m1 i"
      "\<forall>i\<ge>m_texture_count m2. m_textures m2 i = m_textures m1 i"
      "paths_kept m1 m2"
      "\<forall>k<length (texture_blocks es).
          slot_after env m2 (m_texture_count m1 + k) (block_path env d (texture_blocks es ! k))
            (m_textures m1 (m_texture_count m1 + k))"
      by blast
    have res: "load_labels env d (e # es) m = (True, m2)"
      using s(1) t(1) True by (simp add: e load_label_def)
    have slots: "\<forall>k<length (texture_blocks (e # es)).
        slot_after env m2 (?c + k) (block_path env d (texture_blocks (e # es) ! k))
          (m_textures m (?c + k))"
    proof (intro allI impI)
      fix k assume k: "k < length (texture_blocks (e # es))"
      show "slot_after env m2 (?c + k) (block_path env d (texture_blocks (e # es) ! k))
              (m_textures m (?c + k))"
      proof (cases k)
        case 0
        have "slot_after env m2 ?c (block_path env d v) (m_textures m ?c)"
          by (rule slot_after_moved [OF s(5) t(5)]) (use t(3) s(2) in simp)
        with 0 True show ?thesis by (simp add: e texture_blocks_Cons)
      next
        case (Suc j)
        with k True have j: "j < length (texture_blocks es)" by (simp add: e texture_blocks_Cons)
        from t(6) j
        have "slot_after env m2 (m_texture_count m1 + j) (block_path env d (texture_blocks es ! j))
                (m_textures m1 (m_texture_count m1 + j))"
          by blast
        moreover from s(2,3)
        have "m_textures m1 (m_texture_count m1 + j) = m_textures m (m_texture_count m1 + j)"
          by simp
        ultimately
        have "slot_after env m2 (m_texture_count m1 + j) (block_path env d (texture_blocks es ! j))
                (m_textures m (m_texture_count m1 + j))"
          by simp
        with s(2) Suc True show ?thesis by (simp add: e texture_blocks_Cons)
      qed
    qed
    have "\<forall>i<?c. m_textures m2 i = m_textures m i"
      using t(3) s(2,3) by simp
    moreover have "m_texture_count m2 = ?c + length (texture_blocks (e # es))"
      using t(2) s(2) True by (simp add: e texture_blocks_Cons)
    moreover have "\<forall>i\<ge>m_texture_count m2. m_textures m2 i = m_textures m i"
      using t(2,4) s(2,3) by simp
    moreover note paths_kept_trans [OF s(4) t(5)]
    ultimately show ?thesis
      using res slots by (intro exI [of _ m2]) simp
  next
    case False
    obtain b m1 where r: "load_label env d l v m = (b, m1)" by (cases "load_label env d l v m")
    from load_label_goes_on [OF False, of env d v m] r have b: b by simp
    from load_label_keeps_slots [OF False, of env d v m] r
    have same: "textures m1 = textures m" "m_textures m1 = m_textures m"
      "m_texture_count m1 = m_texture_count m" by simp_all
    from Cons.prems(1) False e have kes: "list_all known_block (texture_blocks es)"
      by (simp add: texture_blocks_Cons)
    from Cons.IH [OF kes, of m1]
    obtain m2 where t: "load_labels env d es m1 = (True, m2)"
      "m_texture_count m2 = m_texture_count m1 + length (texture_blocks es)"
      "\<forall>i<m_texture_count m1. m_textures m2 i = m_textures m1 i"
      "\<forall>i\<ge>m_texture_count m2. m_textures m2 i = m_textures m1 i"
      "paths_kept m1 m2"
      "\<forall>k<length (texture_blocks es).
          slot_after env m2 (m_texture_count m1 + k) (block_path env d (texture_blocks es ! k))
            (m_textures m1 (m_texture_count m1 + k))"
      by blast
    have "paths_kept m m2"
      by (rule paths_kept_trans [OF paths_kept_same [OF same(1)] t(5)])
    with t same r b False show ?thesis
      by (intro exI [of _ m2]) (simp add: e texture_blocks_Cons)
  qed
qed

lemma load_snd_slots:
  "textures (snd (load env file m)) =
     textures (snd (load_labels env (getDir env (m_path m)) (object_entries (file_document file))
                ((setAlphaRef env DEFAULT_ALPHA_REF_VALUE (m\<lparr>m_render_states := 0\<rparr>))
                   \<lparr>m_uniforms := []\<rparr>)))"
  "m_textures (snd (load env file m)) =
     m_textures (snd (load_labels env (getDir env (m_path m)) (object_entries (file_document file))
                ((setAlphaRef env DEFAULT_ALPHA_REF_VALUE (m\<lparr>m_render_states := 0\<rparr>))
                   \<lparr>m_uniforms := []\<rparr>)))"
  "m_texture_count (snd (load env file m)) =
     m_texture_count (snd (load_labels env (getDir env (m_path m)) (object_entries (file_document file))
                ((setAlphaRef env DEFAULT_ALPHA_REF_VALUE (m\<lparr>m_render_states := 0\<rparr>))
                   \<lparr>m_uniforms := []\<rparr>)))"
  by (simp_all add: load_unfold Let_def)

lemma Material_new_slots [simp]:
  "m_textures (Material_new env path ts tr) = (\<lambda>i. None)"
  "m_texture_count (Material_new env path ts tr) = 0"
  "textures (Material_new env path ts tr) = ts"
  by (simp_all add: Material_new_def)

text \<open>
  Claim C7 (the code departs from it). \<^verbatim>\<open>load\<close> of a document with no more texture
  blocks than the material has slots left, all of them with labels that
  \<^verbatim>\<open>deserializeTexture\<close> knows: the texture count grows by the number of texture
  blocks, and the \<open>k\<close>-th block, in the order of the document and counted from 0, takes
  slot \<open>k\<close> counted from the texture count at the start, which is 0 after the
  constructor and after \<^verbatim>\<open>unload\<close>. When the block has a source that is not empty,
  the slot holds a texture of the table whose path is that source, resolved and
  normalised. When the block has no source or an empty one, the slot is left as it
  was before \<^verbatim>\<open>load\<close>: empty in a material as the constructor leaves it, which clears
  every slot, but still bound to the texture of the previous load in a material that
  \<^verbatim>\<open>unload\<close> has reset, since \<^verbatim>\<open>unload\<close> sets the count to 0 and leaves the pointers.
  So a block with an empty source takes a slot, and the block after it lands in the
  next one, but the slot it takes is not always recorded as holding no texture.
\<close>

theorem load_texture_slots:
  assumes "list_all known_block (texture_blocks (object_entries (file_document file)))"
    and "k < length (texture_blocks (object_entries (file_document file)))"
    and "m_texture_count m + length (texture_blocks (object_entries (file_document file)))
           \<le> MAX_TEXTURE_COUNT env"
  shows "m_texture_count (snd (load env file m)) =
           m_texture_count m + length (texture_blocks (object_entries (file_document file))) \<and>
         (case block_path env (getDir env (m_path m))
                 (texture_blocks (object_entries (file_document file)) ! k) of
            Some p \<Rightarrow> slot_holds env (snd (load env file m)) (m_texture_count m + k) (Some p)
          | None \<Rightarrow>
              m_textures (snd (load env file m)) (m_texture_count m + k) =
                m_textures m (m_texture_count m + k))"
proof -
  let ?m0 = "(setAlphaRef env DEFAULT_ALPHA_REF_VALUE (m\<lparr>m_render_states := 0\<rparr>))
                \<lparr>m_uniforms := []\<rparr>"
  let ?d = "getDir env (m_path m)"
  let ?es = "object_entries (file_document file)"
  from load_labels_slots [OF assms(1), of env ?d ?m0]
  obtain m1 where s: "load_labels env ?d ?es ?m0 = (True, m1)"
    "m_texture_count m1 = m_texture_count ?m0 + length (texture_blocks ?es)"
    "\<forall>k<length (texture_blocks ?es).
        slot_after env m1 (m_texture_count ?m0 + k) (block_path env ?d (texture_blocks ?es ! k))
          (m_textures ?m0 (m_texture_count ?m0 + k))"
    by blast
  from s(3) assms(2)
  have "slot_after env m1 (m_texture_count m + k) (block_path env ?d (texture_blocks ?es ! k))
          (m_textures m (m_texture_count m + k))"
    by simp
  then have "slot_after env (snd (load env file m)) (m_texture_count m + k)
      (block_path env ?d (texture_blocks ?es ! k)) (m_textures m (m_texture_count m + k))"
    by (simp add: slot_after_cong [of "snd (load env file m)" m1] load_snd_slots s(1))
  then have "case block_path env ?d (texture_blocks ?es ! k) of
            Some p \<Rightarrow> slot_holds env (snd (load env file m)) (m_texture_count m + k) (Some p)
          | None \<Rightarrow>
              m_textures (snd (load env file m)) (m_texture_count m + k) =
                m_textures m (m_texture_count m + k)"
    by (simp add: slot_after_def split: option.splits)
  moreover have "m_texture_count (snd (load env file m)) =
      m_texture_count m + length (texture_blocks ?es)"
    using s(2) by (simp add: load_snd_slots s(1))
  ultimately show ?thesis by simp
qed

theorem load_texture_slots_witness:
  "m_texture_count demo_unloaded = 0 \<and> m_textures demo_unloaded 0 = Some 0 \<and>
   texture_blocks (object_entries (file_document demo_file)) =
     [JObject [(''source'', JString [])],
      JObject [(''source'', JString ''/textures/n.dds''), (''u_clamp'', JBool True),
               (''min_filter'', JString ''point'')]] \<and>
   m_texture_count (snd (load demo_env demo_file demo_unloaded)) = 2 \<and>
   m_textures (snd (load demo_env demo_file demo_unloaded)) 0 = Some 0 \<and>
   slot_holds demo_env (snd (load demo_env demo_file demo_unloaded)) 1 (Some ''/textures/n.dds'') \<and>
   m_textures demo_fresh 0 = None \<and>
   m_textures (snd (load demo_env demo_file demo_fresh)) 0 = None"
proof -
  have c: "m_texture_count demo_unloaded = 0" "m_texture_count demo_fresh = 0" by code_simp+
  have f: "m_textures demo_unloaded 0 = Some 0" "m_textures demo_fresh 0 = None" by code_simp+
  have d: "m_path demo_unloaded = m_path demo_fresh" by code_simp
  have b: "texture_blocks (object_entries (file_document demo_file)) =
     [JObject [(''source'', JString [])],
      JObject [(''source'', JString ''/textures/n.dds''), (''u_clamp'', JBool True),
               (''min_filter'', JString ''point'')]]" by code_simp
  have kb: "list_all known_block (texture_blocks (object_entries (file_document demo_file)))"
    by code_simp
  have k0: "0 < length (texture_blocks (object_entries (file_document demo_file)))"
    and k1: "1 < length (texture_blocks (object_entries (file_document demo_file)))"
    by (simp_all add: b)
  have p0: "block_path demo_env (getDir demo_env (m_path demo_fresh))
      (JObject [(''source'', JString [])]) = None" by code_simp
  have p1: "block_path demo_env (getDir demo_env (m_path demo_fresh))
      (JObject [(''source'', JString ''/textures/n.dds''), (''u_clamp'', JBool True),
               (''min_filter'', JString ''point'')]) = Some ''/textures/n.dds''" by code_simp
  have mx: "m_texture_count demo_unloaded +
              length (texture_blocks (object_entries (file_document demo_file)))
              \<le> MAX_TEXTURE_COUNT demo_env"
    "m_texture_count demo_fresh +
              length (texture_blocks (object_entries (file_document demo_file)))
              \<le> MAX_TEXTURE_COUNT demo_env" by code_simp+
  from load_texture_slots [OF kb k0 mx(1)] load_texture_slots [OF kb k1 mx(1)]
    load_texture_slots [OF kb k0 mx(2)] c f d b p0 p1
  show ?thesis by simp
qed

subsection \<open>A material written and read back\<close>

lemma take_bit_Suc_set:
  fixes w :: uint32
  assumes "n < 32"
  shows "take_bit (Suc n) w = (if bit w n then take_bit n w OR shl1 n else take_bit n w)"
proof (rule bit_word_eqI)
  fix k assume "k < LENGTH(32)"
  show "bit (take_bit (Suc n) w) k =
        bit (if bit w n then take_bit n w OR shl1 n else take_bit n w) k"
    using assms by (auto simp: bit_take_bit_iff bit_or_iff shl1_bit less_Suc_eq)
qed

lemma save_defines_fold:
  assumes "savable_defines env m" and "n \<le> 32"
  shows "fold (\<lambda>item mask. mask OR shl1 (getShaderDefineIdx env (deserialize_string 32 [] item)))
           (concat (map (\<lambda>i. if m_define_mask m AND shl1 i \<noteq> 0
                              then [JString (getShaderDefine env i)] else []) [0..<n])) 0
         = take_bit n (m_define_mask m)"
  using assms(2)
proof (induction n)
  case 0
  show ?case by simp
next
  case (Suc n)
  then have n: "n < 32" by simp
  from assms(1) n
  have idx: "m_define_mask m AND shl1 n = 0 \<or>
             getShaderDefineIdx env (take 31 (getShaderDefine env n)) = n"
    by (simp add: savable_defines_def list_all_iff)
  from Suc have IH: "fold (\<lambda>item mask. mask OR shl1 (getShaderDefineIdx env (deserialize_string 32 [] item)))
           (concat (map (\<lambda>i. if m_define_mask m AND shl1 i \<noteq> 0
                              then [JString (getShaderDefine env i)] else []) [0..<n])) 0
         = take_bit n (m_define_mask m)" by simp
  show ?case
  proof (cases "bit (m_define_mask m) n")
    case True
    with n idx have "getShaderDefineIdx env (take 31 (getShaderDefine env n)) = n"
      by (simp add: mask_and_shl1 [symmetric])
    with True n IH show ?thesis
      by (simp add: take_bit_Suc_set mask_and_shl1 deserialize_string_def del: take_bit_Suc)
  next
    case False
    with n IH show ?thesis
      by (simp add: take_bit_Suc_set mask_and_shl1 del: take_bit_Suc)
  qed
qed

lemma deserializeDefines_saved:
  assumes "savable_defines env m"
  shows "m_define_mask (deserializeDefines env (JArray (save_defines env m)) m') = m_define_mask m"
proof -
  have "take_bit 32 (m_define_mask m) = m_define_mask m"
    by (rule take_bit_word_eq_self) simp
  with save_defines_fold [OF assms, of 32] show ?thesis
    by (simp add: deserializeDefines_def save_defines_def array_items_def)
qed

lemma deserialize_int_of_int [simp]: "deserialize_int d (JNumber (of_int n)) = n"
  by (simp add: deserialize_int_def)

lemma deserialize_vec3_saved [simp]: "deserialize_vec3 d (save_vec3 v) = v"
  by (simp add: deserialize_vec3_def save_vec3_def array_items_def float_item_def
      deserialize_float_def Let_def)

lemma Uniform_emplace_cells [simp]: "length (cells Uniform_emplace) = 16"
  by (simp add: Uniform_emplace_def)

lemma set_int_value_read [simp]:
  "0 < length (cells u) \<Longrightarrow> int_value env (set_int_value n u) = n"
  by (simp add: int_value_def set_int_value_def cell_int_def)

lemma set_float_value_read [simp]:
  "0 < length (cells u) \<Longrightarrow> float_value env (set_float_value x u) = x"
  by (simp add: float_value_def set_float_value_def cell_float_def)

lemma set_vec3_read [simp]:
  assumes "2 < length (cells u)"
  shows "vec3 env (set_vec3 v u) = v"
proof -
  from assms have "0 < length (cells u)" "1 < length (cells u)" by linarith+
  with assms show ?thesis
    by (cases v) (simp add: vec3_def matrix_def set_vec3_def cell_float_def del: length_greater_0_conv)
qed

lemma set_matrix_read [simp]:
  "j < 16 \<Longrightarrow> matrix env (set_matrix f u) j = f j"
  by (simp add: matrix_def set_matrix_def cell_float_def del: upt_Suc)

lemma member_after_name [simp]:
  "cells (u\<lparr>name_hash := h\<rparr>) = cells u"
  "set_int_value n (u\<lparr>name_hash := h\<rparr>) = (set_int_value n u)\<lparr>name_hash := h\<rparr>"
  "set_float_value x (u\<lparr>name_hash := h\<rparr>) = (set_float_value x u)\<lparr>name_hash := h\<rparr>"
  "set_vec3 v (u\<lparr>name_hash := h\<rparr>) = (set_vec3 v u)\<lparr>name_hash := h\<rparr>"
  "set_matrix f (u\<lparr>name_hash := h\<rparr>) = (set_matrix f u)\<lparr>name_hash := h\<rparr>"
  by (simp_all add: set_int_value_def set_float_value_def set_vec3_def set_matrix_def)

lemma member_of_named [simp]:
  "int_value env (u\<lparr>name_hash := h\<rparr>) = int_value env u"
  "float_value env (u\<lparr>name_hash := h\<rparr>) = float_value env u"
  "vec3 env (u\<lparr>name_hash := h\<rparr>) = vec3 env u"
  "matrix env (u\<lparr>name_hash := h\<rparr>) j = matrix env u j"
  by (simp_all add: int_value_def float_value_def vec3_def matrix_def)

lemma deserializeUniform_saved:
  "\<exists>u. deserializeUniform env (save_uniform env sh m i) m' =
         m'\<lparr>m_uniforms := m_uniforms m' @ [u]\<rparr> \<and>
       uniform_value env (su_type (getUniform sh i)) u =
         uniform_value env (su_type (getUniform sh i)) (m_uniforms m ! i)"
proof -
  let ?named = "Uniform_emplace\<lparr>name_hash := crc32 env (take 31 (su_name (getUniform sh i)))\<rparr>"
  show ?thesis
  proof (cases "su_type (getUniform sh i)")
    case INT_TYPE
    then show ?thesis
      by (intro exI [of _ "set_int_value (int_value env (m_uniforms m ! i)) ?named"])
        (simp add: deserializeUniform_def save_uniform_def uniform_label_def object_entries_def
          uniform_value_def Let_def deserialize_string_def)
  next
    case FLOAT
    then show ?thesis
      by (intro exI [of _ "set_float_value (float_value env (m_uniforms m ! i)) ?named"])
        (simp add: deserializeUniform_def save_uniform_def uniform_label_def object_entries_def
          uniform_value_def Let_def deserialize_string_def deserialize_float_def)
  next
    case MATRIX4
    let ?items = "JArray (map (\<lambda>j. JNumber (matrix env (m_uniforms m ! i) j)) [0..<16])"
    let ?u = "set_matrix (\<lambda>k. float_item (array_items ?items) k 0) ?named"
    have "deserializeUniform env (save_uniform env sh m i) m' =
            m'\<lparr>m_uniforms := m_uniforms m' @ [?u]\<rparr>"
      using MATRIX4
      by (simp add: deserializeUniform_def save_uniform_def uniform_label_def object_entries_def
          Let_def deserialize_string_def del: upt_Suc)
    moreover have "uniform_value env MATRIX4 ?u = uniform_value env MATRIX4 (m_uniforms m ! i)"
      by (simp add: uniform_value_def array_items_def float_item_def deserialize_float_def
          del: upt_Suc)
    ultimately show ?thesis
      using MATRIX4 by (intro exI [of _ ?u]) simp
  next
    case TIME
    then show ?thesis
      by (intro exI [of _ "set_float_value 0 ?named"])
        (simp add: deserializeUniform_def save_uniform_def uniform_label_def object_entries_def
          uniform_value_def Let_def deserialize_string_def deserialize_float_def)
  next
    case COLOR
    then show ?thesis
      by (intro exI [of _ "set_vec3 (vec3 env (m_uniforms m ! i)) ?named"])
        (simp add: deserializeUniform_def save_uniform_def uniform_label_def object_entries_def
          uniform_value_def Let_def deserialize_string_def)
  next
    case VEC3
    then show ?thesis
      by (intro exI [of _ "set_vec3 (vec3 env (m_uniforms m ! i)) ?named"])
        (simp add: deserializeUniform_def save_uniform_def uniform_label_def object_entries_def
          uniform_value_def Let_def deserialize_string_def)
  qed
qed

lemma fold_deserializeUniform_saved:
  "\<exists>us. fold (deserializeUniform env) (map (save_uniform env sh m) [0..<n]) m' =
           m'\<lparr>m_uniforms := m_uniforms m' @ us\<rparr> \<and>
        length us = n \<and>
        (\<forall>i<n. uniform_value env (su_type (getUniform sh i)) (us ! i) =
                uniform_value env (su_type (getUniform sh i)) (m_uniforms m ! i))"
proof (induction n)
  case 0
  show ?case by (intro exI [of _ "[]"]) simp
next
  case (Suc n)
  then obtain us where us: "fold (deserializeUniform env) (map (save_uniform env sh m) [0..<n]) m' =
           m'\<lparr>m_uniforms := m_uniforms m' @ us\<rparr>" "length us = n"
        "\<forall>i<n. uniform_value env (su_type (getUniform sh i)) (us ! i) =
                uniform_value env (su_type (getUniform sh i)) (m_uniforms m ! i)" by blast
  from deserializeUniform_saved [of env sh m n "m'\<lparr>m_uniforms := m_uniforms m' @ us\<rparr>"]
  obtain u where u: "deserializeUniform env (save_uniform env sh m n) (m'\<lparr>m_uniforms := m_uniforms m' @ us\<rparr>)
      = m'\<lparr>m_uniforms := m_uniforms m' @ us @ [u]\<rparr>"
    "uniform_value env (su_type (getUniform sh n)) u =
         uniform_value env (su_type (getUniform sh n)) (m_uniforms m ! n)" by auto
  have "\<forall>i<Suc n. uniform_value env (su_type (getUniform sh i)) ((us @ [u]) ! i) =
                uniform_value env (su_type (getUniform sh i)) (m_uniforms m ! i)"
    using us(2,3) u(2) by (auto simp: nth_append less_Suc_eq)
  with us u(1) show ?case
    by (intro exI [of _ "us @ [u]"]) simp
qed

lemma deserializeUniforms_saved:
  "\<exists>us. deserializeUniforms env (JArray (map (save_uniform env sh m) [0..<n])) m' =
           m'\<lparr>m_uniforms := us\<rparr> \<and>
        length us = n \<and>
        (\<forall>i<n. uniform_value env (su_type (getUniform sh i)) (us ! i) =
                uniform_value env (su_type (getUniform sh i)) (m_uniforms m ! i))"
proof -
  from fold_deserializeUniform_saved [of env sh m n "m'\<lparr>m_uniforms := []\<rparr>"]
  show ?thesis by (simp add: deserializeUniforms_def array_items_def)
qed

lemma find_texture_from:
  assumes "t < length ts"
    and "\<forall>j<t. tex_path (ts ! j) \<noteq> tex_path (ts ! t)"
  shows "i \<le> t \<Longrightarrow> find_texture (tex_path (ts ! t)) ts i = Some t"
proof (induction "t - i" arbitrary: i)
  case 0
  then have "i = t" by simp
  with assms(1) show ?case by (simp add: find_texture.simps [of _ ts t])
next
  case (Suc k)
  then have i: "i < t" by simp
  with assms have "tex_path (ts ! i) \<noteq> tex_path (ts ! t)" "i < length ts" by simp_all
  moreover from Suc(1) [of "Suc i"] Suc(2) i
  have "find_texture (tex_path (ts ! t)) ts (Suc i) = Some t" by simp
  ultimately show ?case by (simp add: find_texture.simps [of _ ts i])
qed

lemma find_texture_distinct:
  assumes "distinct (map tex_path ts)" and "t < length ts"
  shows "find_texture (tex_path (ts ! t)) ts 0 = Some t"
proof (rule find_texture_from [OF assms(2)])
  show "\<forall>j<t. tex_path (ts ! j) \<noteq> tex_path (ts ! t)"
  proof (intro allI impI)
    fix j assume j: "j < t"
    with assms(2) have l: "j < length (map tex_path ts)" "t < length (map tex_path ts)"
      and ne: "j \<noteq> t" by simp_all
    from nth_eq_iff_index_eq [OF assms(1) l] ne
    have "map tex_path ts ! j \<noteq> map tex_path ts ! t" by blast
    with j assms(2) show "tex_path (ts ! j) \<noteq> tex_path (ts ! t)" by simp
  qed
qed simp

lemma texture_labels_append:
  "texture_labels env d (xs @ ys) acc m =
     (case texture_labels env d xs acc m of
        Inl m1 \<Rightarrow> Inl m1
      | Inr (acc1, m1) \<Rightarrow> texture_labels env d ys acc1 m1)"
proof (induction xs arbitrary: acc m)
  case Nil
  show ?case by simp
next
  case (Cons e xs)
  obtain l v where e: "e = (l, v)" by (cases e)
  show ?case
    by (cases "texture_label env d l v acc m") (auto simp: e Cons.IH)
qed

text \<open>The entries that \<^verbatim>\<open>save\<close> writes after the source, read one group at a time.\<close>

lemma saved_atlas_size:
  "texture_labels env d
     ((if 0 < a then [(''atlas_size'', JNumber (of_int a))] else []) @ rest) (kd, fl, az) m =
   texture_labels env d rest (kd, fl, if 0 < a then a else az) m"
  by (simp add: texture_label_def)

lemma saved_srgb:
  "texture_labels env d (save_flag f (BGFX_TEXTURE_SRGB env) (''srgb'', JBool True) @ rest)
     (kd, fl, az) m =
   texture_labels env d rest
     (kd, flag_step f (BGFX_TEXTURE_SRGB env) fl, az) m"
  by (simp add: save_flag_def texture_label_def deserialize_bool_def flag_step_def)

lemma saved_u_clamp:
  "texture_labels env d (save_flag f (BGFX_TEXTURE_U_CLAMP env) (''u_clamp'', JBool True) @ rest)
     (kd, fl, az) m =
   texture_labels env d rest
     (kd, flag_step f (BGFX_TEXTURE_U_CLAMP env) fl, az) m"
  by (simp add: save_flag_def texture_label_def deserialize_bool_def flag_step_def)

lemma saved_v_clamp:
  "texture_labels env d (save_flag f (BGFX_TEXTURE_V_CLAMP env) (''v_clamp'', JBool True) @ rest)
     (kd, fl, az) m =
   texture_labels env d rest
     (kd, flag_step f (BGFX_TEXTURE_V_CLAMP env) fl, az) m"
  by (simp add: save_flag_def texture_label_def deserialize_bool_def flag_step_def)

lemma saved_w_clamp:
  "texture_labels env d (save_flag f (BGFX_TEXTURE_W_CLAMP env) (''w_clamp'', JBool True) @ rest)
     (kd, fl, az) m =
   texture_labels env d rest
     (kd, flag_step f (BGFX_TEXTURE_W_CLAMP env) fl, az) m"
  by (simp add: save_flag_def texture_label_def deserialize_bool_def flag_step_def)

lemma saved_min_point:
  "texture_labels env d
     (save_flag f (BGFX_TEXTURE_MIN_POINT env) (''min_filter'', JString ''point'') @ rest)
     (kd, fl, az) m =
   texture_labels env d rest
     (kd, flag_step f (BGFX_TEXTURE_MIN_POINT env) fl, az) m"
  by (simp add: save_flag_def texture_label_def texture_filter_def deserialize_string_def
      flag_step_def)

lemma saved_min_anisotropic:
  "texture_labels env d
     (save_flag f (BGFX_TEXTURE_MIN_ANISOTROPIC env) (''min_filter'', JString ''anisotropic'')
        @ rest)
     (kd, fl, az) m =
   texture_labels env d rest
     (kd, flag_step f (BGFX_TEXTURE_MIN_ANISOTROPIC env) fl, az) m"
  by (simp add: save_flag_def texture_label_def texture_filter_def deserialize_string_def
      flag_step_def)

lemma saved_mag_point:
  "texture_labels env d
     (save_flag f (BGFX_TEXTURE_MAG_POINT env) (''mag_filter'', JString ''point'') @ rest)
     (kd, fl, az) m =
   texture_labels env d rest
     (kd, flag_step f (BGFX_TEXTURE_MAG_POINT env) fl, az) m"
  by (simp add: save_flag_def texture_label_def texture_filter_def deserialize_string_def
      flag_step_def)

lemma saved_mag_anisotropic:
  "texture_labels env d
     (save_flag f (BGFX_TEXTURE_MAG_ANISOTROPIC env) (''mag_filter'', JString ''anisotropic'')
        @ rest)
     (kd, fl, az) m =
   texture_labels env d rest
     (kd, flag_step f (BGFX_TEXTURE_MAG_ANISOTROPIC env) fl, az) m"
  by (simp add: save_flag_def texture_label_def texture_filter_def deserialize_string_def
      flag_step_def)

lemma saved_keep_data:
  "texture_labels env d (if k then [(''keep_data'', JBool True)] else []) (kd, fl, az) m =
   Inr ((if k then True else kd, fl, az), m)"
  by (simp add: texture_label_def deserialize_bool_def)

lemmas saved_entries =
  saved_atlas_size saved_srgb saved_u_clamp saved_v_clamp saved_w_clamp saved_min_point
  saved_min_anisotropic saved_mag_point saved_mag_anisotropic saved_keep_data

lemma setter_flags [simp]:
  "map tex_flags (textures (setAtlasSize t n m)) = map tex_flags (textures m)"
  "map tex_flags (textures (setFlags t f m)) = (map tex_flags (textures m))[t := f]"
  "map tex_flags (textures (addDataReference t m)) = map tex_flags (textures m)"
proof -
  show "map tex_flags (textures (setAtlasSize t n m)) = map tex_flags (textures m)"
    by (cases "t < length (textures m)")
      (simp_all add: setAtlasSize_def texture_at_def map_update list_update_same_conv
        list_update_beyond)
  show "map tex_flags (textures (setFlags t f m)) = (map tex_flags (textures m))[t := f]"
    by (simp add: setFlags_def map_update)
  show "map tex_flags (textures (addDataReference t m)) = map tex_flags (textures m)"
    by (cases "t < length (textures m)")
      (simp_all add: addDataReference_def texture_at_def map_update list_update_same_conv
        list_update_beyond)
qed

lemma deserializeTexture_saved_None:
  assumes "m_textures m n = None" and "m_textures mb (m_texture_count mb) = None"
  shows "deserializeTexture env d (snd (save_texture env m n)) mb =
           (True, mb\<lparr>m_texture_count := m_texture_count mb + 1\<rparr>)"
  using assms
  by (simp add: save_texture_def save_flag_def deserializeTexture_def object_entries_def
      texture_label_source deserialize_string_def Let_def)

lemma deserializeTexture_saved_Some:
  assumes slot: "m_textures m n = Some t" and sv: "savable_texture env m t"
    and mx: "2 \<le> MAX_PATH_LENGTH env"
    and dist: "distinct (map tex_path (textures m))"
    and paths: "map tex_path (textures mb) = map tex_path (textures m)"
    and flags: "map tex_flags (textures mb) = map tex_flags (textures m)"
  shows "\<exists>m1. deserializeTexture env d (snd (save_texture env m n)) mb = (True, m1) \<and>
           m_textures m1 = (m_textures mb)(m_texture_count mb := Some t) \<and>
           m_texture_count m1 = Suc (m_texture_count mb) \<and>
           map tex_path (textures m1) = map tex_path (textures m) \<and>
           map tex_flags (textures m1) = map tex_flags (textures m)"
proof -
  let ?p = "tex_path (texture_at m t)"
  let ?f = "tex_flags (texture_at m t)"
  let ?a = "tex_atlas_size (texture_at m t)"
  let ?k = "0 < tex_data_refs (texture_at m t)"
  let ?path = "CHR ''/'' # take (MAX_PATH_LENGTH env - 2) ?p"
  from sv have t: "t < length (textures m)" and norm: "normalize env ?path = ?p"
    and fl: "document_flags env ?f = ?f"
    by (simp_all add: savable_texture_def)
  from paths have len: "length (textures mb) = length (textures m)"
    by (metis length_map)
  from paths t len have pb: "tex_path (textures mb ! t) = ?p"
    by (metis nth_map texture_at_def)
  from flags t len have fb: "map tex_flags (textures mb) ! t = ?f"
    by (simp add: texture_at_def)
  from dist paths have "distinct (map tex_path (textures mb))" by simp
  from find_texture_distinct [OF this, of t] t len pb
  have find: "find_texture ?p (textures mb) 0 = Some t" by simp
  have ld: "texture_manager_load env ?path mb = (t, mb)"
    by (simp add: texture_manager_load_def norm find)
  from mx have "MAX_PATH_LENGTH env - 1 = Suc (MAX_PATH_LENGTH env - 2)" by simp
  then have ds: "deserialize_string (MAX_PATH_LENGTH env) [] (JString ?path) = ?path"
    by (simp add: deserialize_string_def)
  let ?m2 = "addDependency (TextureRes t)
               (mb\<lparr>m_textures := (m_textures mb)(m_texture_count mb := Some t)\<rparr>)"
  have src: "texture_label env d ''source'' (JString ?path) acc mb = Inr (acc, ?m2)" for acc
    by (simp add: texture_label_source ds resolve_texture_path_def ld Let_def)
  let ?rest = "(if 0 < ?a then [(''atlas_size'', JNumber (of_int ?a))] else [])
             @ save_flag ?f (BGFX_TEXTURE_SRGB env) (''srgb'', JBool True)
             @ save_flag ?f (BGFX_TEXTURE_U_CLAMP env) (''u_clamp'', JBool True)
             @ save_flag ?f (BGFX_TEXTURE_V_CLAMP env) (''v_clamp'', JBool True)
             @ save_flag ?f (BGFX_TEXTURE_W_CLAMP env) (''w_clamp'', JBool True)
             @ save_flag ?f (BGFX_TEXTURE_MIN_POINT env) (''min_filter'', JString ''point'')
             @ save_flag ?f (BGFX_TEXTURE_MIN_ANISOTROPIC env)
                 (''min_filter'', JString ''anisotropic'')
             @ save_flag ?f (BGFX_TEXTURE_MAG_POINT env) (''mag_filter'', JString ''point'')
             @ save_flag ?f (BGFX_TEXTURE_MAG_ANISOTROPIC env)
                 (''mag_filter'', JString ''anisotropic'')
             @ (if ?k then [(''keep_data'', JBool True)] else [])"
  have block: "object_entries (snd (save_texture env m n)) = (''source'', JString ?path) # ?rest"
    using slot by (simp add: save_texture_def object_entries_def)
  have rest: "texture_labels env d ?rest (False, 0, -1) ?m2 =
      Inr ((if ?k then True else False, document_flags env ?f, if 0 < ?a then ?a else -1), ?m2)"
    by (simp only: saved_entries document_flags_def fold_simps id_apply o_apply)
  define kd where "kd = (if ?k then True else False)"
  define az where "az = (if 0 < ?a then ?a else -1)"
  have labels: "texture_labels env d (object_entries (snd (save_texture env m n))) (False, 0, -1) mb =
      Inr ((kd, ?f, az), ?m2)"
    unfolding block kd_def az_def using src rest fl by simp
  define m1 where "m1 = (let m' = setFlags t ?f (setAtlasSize t az ?m2)
                         in if kd then addDataReference t m' else m')"
  have res: "deserializeTexture env d (snd (save_texture env m n)) mb =
      (True, m1\<lparr>m_texture_count := m_texture_count m1 + 1\<rparr>)"
    by (simp add: deserializeTexture_def labels m1_def Let_def)
  have "map tex_flags (textures m1) = (map tex_flags (textures mb))[t := ?f]"
    by (simp add: m1_def Let_def)
  also have "\<dots> = map tex_flags (textures mb)"
    using fb by (simp add: list_update_same_conv len t)
  finally have f1: "map tex_flags (textures m1) = map tex_flags (textures m)"
    using flags by simp
  have p1: "map tex_path (textures m1) = map tex_path (textures m)"
    using paths by (simp add: m1_def Let_def)
  have s1: "m_textures m1 = (m_textures mb)(m_texture_count mb := Some t)"
    "m_texture_count m1 = m_texture_count mb"
    by (simp_all add: m1_def Let_def)
  from res f1 p1 s1 show ?thesis
    by (intro exI [of _ "m1\<lparr>m_texture_count := m_texture_count m1 + 1\<rparr>"]) simp
qed

lemma load_saved_textures:
  assumes sv: "savable_slots env m" and mx: "2 \<le> MAX_PATH_LENGTH env"
    and dist: "distinct (map tex_path (textures m))"
    and start: "m_texture_count m0 = 0" "\<forall>i. m_textures m0 i = None" "textures m0 = textures m"
  shows "n \<le> m_texture_count m \<Longrightarrow>
         \<exists>m1. load_labels env d (map (save_texture env m) [0..<n]) m0 = (True, m1) \<and>
           m_texture_count m1 = n \<and>
           (\<forall>i<n. m_textures m1 i = m_textures m i) \<and>
           (\<forall>i\<ge>n. m_textures m1 i = None) \<and>
           map tex_path (textures m1) = map tex_path (textures m) \<and>
           map tex_flags (textures m1) = map tex_flags (textures m) \<and>
           m_shader m1 = m_shader m0"
proof (induction n)
  case 0
  with start show ?case by (intro exI [of _ m0]) simp
next
  case (Suc n)
  then obtain mb where b: "load_labels env d (map (save_texture env m) [0..<n]) m0 = (True, mb)"
    "m_texture_count mb = n" "\<forall>i<n. m_textures mb i = m_textures m i"
    "\<forall>i\<ge>n. m_textures mb i = None"
    "map tex_path (textures mb) = map tex_path (textures m)"
    "map tex_flags (textures mb) = map tex_flags (textures m)"
    "m_shader mb = m_shader m0" by auto
  have lab: "fst (save_texture env m n) = ''texture''"
    by (simp add: save_texture_def case_prod_unfold Let_def)
  have step: "load_labels env d (map (save_texture env m) [0..<Suc n]) m0 =
      (case deserializeTexture env d (snd (save_texture env m n)) mb of
         (False, m1) \<Rightarrow> (False, m1) | (True, m1) \<Rightarrow> (True, m1))"
    using b(1) lab
    by (cases "save_texture env m n")
      (simp add: load_labels_append load_label_def split: prod.splits bool.splits)
  show ?case
  proof (cases "m_textures m n")
    case None
    from b(4) b(2) have "m_textures mb (m_texture_count mb) = None" by simp
    from deserializeTexture_saved_None [OF None this, of env d]
    have r: "deserializeTexture env d (snd (save_texture env m n)) mb =
           (True, mb\<lparr>m_texture_count := m_texture_count mb + 1\<rparr>)" .
    have res: "load_labels env d (map (save_texture env m) [0..<Suc n]) m0 =
        (True, mb\<lparr>m_texture_count := m_texture_count mb + 1\<rparr>)"
      unfolding step r by simp
    have "\<forall>i<Suc n. m_textures mb i = m_textures m i"
      using b(3,4) None by (auto simp: less_Suc_eq)
    moreover have "\<forall>i\<ge>Suc n. m_textures mb i = None"
      using b(4) by simp
    ultimately show ?thesis
      using b(2,5,6,7) res
      by (intro exI [of _ "mb\<lparr>m_texture_count := m_texture_count mb + 1\<rparr>"])
        (simp del: upt_Suc)
  next
    case (Some t)
    from sv Suc.prems Some have "savable_texture env m t"
      by (auto simp: savable_slots_def list_all_iff split: option.splits)
    from deserializeTexture_saved_Some [OF Some this mx dist b(5,6), of d]
    obtain m1 where r: "deserializeTexture env d (snd (save_texture env m n)) mb = (True, m1)"
      "m_textures m1 = (m_textures mb)(m_texture_count mb := Some t)"
      "m_texture_count m1 = Suc (m_texture_count mb)"
      "map tex_path (textures m1) = map tex_path (textures m)"
      "map tex_flags (textures m1) = map tex_flags (textures m)" by blast
    have "m1 = snd (deserializeTexture env d (snd (save_texture env m n)) mb)"
      by (simp add: r(1))
    then have "m_shader m1 = m_shader mb" by simp
    note sh1 = this
    have res: "load_labels env d (map (save_texture env m) [0..<Suc n]) m0 = (True, m1)"
      unfolding step r(1) by simp
    have "\<forall>i<Suc n. m_textures m1 i = m_textures m i"
      using b(2,3) r(2) Some by (auto simp: less_Suc_eq)
    moreover have "\<forall>i\<ge>Suc n. m_textures m1 i = None"
      using b(2,4) r(2) by simp
    ultimately show ?thesis
      using b(2,7) r(3,4,5) sh1 res
      by (intro exI [of _ m1]) (simp del: upt_Suc)
  qed
qed

lemma load_saved_tail:
  assumes "savable_defines env m"
  shows "\<exists>m2. load_labels env d
           [(''defines'', JArray (save_defines env m)),
            (''uniforms'', JArray (map (save_uniform env sh m) [0..<n])),
            (''shininess'', JNumber (m_shininess m)),
            (''alpha_ref'', JNumber (m_alpha_ref m)),
            (''color'', save_vec3 (m_color m))] m1 = (True, m2) \<and>
          m_define_mask m2 = m_define_mask m \<and>
          length (m_uniforms m2) = n \<and>
          (\<forall>i<n. uniform_value env (su_type (getUniform sh i)) (m_uniforms m2 ! i) =
                  uniform_value env (su_type (getUniform sh i)) (m_uniforms m ! i)) \<and>
          m_shininess m2 = m_shininess m \<and> m_alpha_ref m2 = m_alpha_ref m \<and>
          m_color m2 = m_color m \<and>
          m_shader m2 = m_shader m1 \<and> textures m2 = textures m1 \<and>
          m_textures m2 = m_textures m1 \<and> m_texture_count m2 = m_texture_count m1"
proof -
  let ?ma = "deserializeDefines env (JArray (save_defines env m)) m1"
  from deserializeUniforms_saved [of env sh m n ?ma]
  obtain us where us: "deserializeUniforms env (JArray (map (save_uniform env sh m) [0..<n])) ?ma =
           ?ma\<lparr>m_uniforms := us\<rparr>" "length us = n"
        "\<forall>i<n. uniform_value env (su_type (getUniform sh i)) (us ! i) =
                uniform_value env (su_type (getUniform sh i)) (m_uniforms m ! i)" by blast
  let ?m2 = "?ma\<lparr>m_uniforms := us, m_shininess := m_shininess m, m_alpha_ref := m_alpha_ref m,
                 m_color := m_color m\<rparr>"
  have "load_labels env d
           [(''defines'', JArray (save_defines env m)),
            (''uniforms'', JArray (map (save_uniform env sh m) [0..<n])),
            (''shininess'', JNumber (m_shininess m)),
            (''alpha_ref'', JNumber (m_alpha_ref m)),
            (''color'', save_vec3 (m_color m))] m1 = (True, ?m2)"
    by (simp add: load_label_def us(1) deserialize_float_def)
  moreover have "m_define_mask ?m2 = m_define_mask m"
    using deserializeDefines_saved [OF assms, of m1] by simp
  ultimately show ?thesis
    using us(2,3) by (intro exI [of _ ?m2]) simp
qed

lemma setShader_Some [simp]: "m_shader (setShader env (Some sh) m) = Some sh"
  by (simp add: setShader_def Let_def split: option.splits)

text \<open>
  The round trip for texture paths that fit the buffer of \<^verbatim>\<open>save\<close>. Let \<open>m\<close> be a
  ready material with a shader, in an engine where the shader manager returns that
  shader for its path, the names of the defines that are set resolve to their
  indices, the texture manager keeps one texture per path, and the bound textures
  have flags a document can carry and paths of at most \<^verbatim>\<open>MAX_PATH_LENGTH - 2\<close>
  characters that come back from normalisation. Then \<^verbatim>\<open>save\<close> succeeds and writes
  one document, and \<^verbatim>\<open>load\<close> of that document into a material constructed in the
  same engine succeeds with the same shader, the same number of texture slots holding
  textures of the same path and the same flags, the same define mask, for every
  uniform the shader declares the same value at the declared type, and the same
  shininess, alpha reference and colour.
\<close>

lemma save_load_round_trip:
  assumes "isReady m" and "m_shader m = Some sh"
    and "getUniformCount sh \<le> length (m_uniforms m)"
    and "shader_manager_load env (take (MAX_PATH_LENGTH env - 1) (sh_path sh)) = Some sh"
    and "savable_slots env m" and "savable_defines env m"
    and "distinct (map tex_path (textures m))"
    and "2 \<le> MAX_PATH_LENGTH env"
    and "m_texture_count m \<le> MAX_TEXTURE_COUNT env"
  shows "\<exists>doc m'.
           save env m [] = (True, [doc]) \<and>
           load env \<lparr>file_document = doc, file_size = n\<rparr>
             (Material_new env path (textures m) (trace m)) = (True, m') \<and>
           m_shader m' = Some sh \<and>
           m_texture_count m' = m_texture_count m \<and>
           (\<forall>i<m_texture_count m. slot_texture m' i = slot_texture m i) \<and>
           m_define_mask m' = m_define_mask m \<and>
           length (m_uniforms m') = getUniformCount sh \<and>
           (\<forall>i<getUniformCount sh.
              uniform_value env (su_type (getUniform sh i)) (m_uniforms m' ! i) =
              uniform_value env (su_type (getUniform sh i)) (m_uniforms m ! i)) \<and>
           m_shininess m' = m_shininess m \<and> m_alpha_ref m' = m_alpha_ref m \<and>
           m_color m' = m_color m"
proof -
  let ?doc = "save_document env sh m"
  let ?fresh = "Material_new env path (textures m) (trace m)"
  let ?m0 = "(setAlphaRef env DEFAULT_ALPHA_REF_VALUE (?fresh\<lparr>m_render_states := 0\<rparr>))
               \<lparr>m_uniforms := []\<rparr>"
  let ?d = "getDir env (m_path ?fresh)"
  let ?L = "if m_layer_count m \<noteq> 1
            then [(''layer_count'', JNumber (of_int (m_layer_count m)))] else []"
  let ?T = "map (save_texture env m) [0..<m_texture_count m]"
  let ?tail = "[(''defines'', JArray (save_defines env m)),
            (''uniforms'', JArray (map (save_uniform env sh m) [0..<getUniformCount sh])),
            (''shininess'', JNumber (m_shininess m)),
            (''alpha_ref'', JNumber (m_alpha_ref m)),
            (''color'', save_vec3 (m_color m))]"
  have saved: "save env m [] = (True, [?doc])"
    using assms(1,2) by (simp add: save_def)
  have entries: "object_entries ?doc = ((''shader'', JString (sh_path sh)) # ?L) @ ?T @ ?tail"
    by (simp add: save_document_def object_entries_def)
  define mA where "mA = (if m_layer_count m \<noteq> 1
      then (setShader env (Some sh) ?m0)\<lparr>m_layer_count := m_layer_count m\<rparr>
      else setShader env (Some sh) ?m0)"
  have A: "load_labels env ?d (((''shader'', JString (sh_path sh)) # ?L) @ rest) ?m0 =
           load_labels env ?d rest mA" for rest
    using assms(4) by (simp add: load_label_def deserialize_string_def mA_def)
  have mA: "m_shader mA = Some sh" "m_texture_count mA = 0" "\<forall>i. m_textures mA i = None"
    "textures mA = textures m"
    by (simp_all add: mA_def)
  from load_saved_textures [OF assms(5,8,7) mA(2,3,4), of "m_texture_count m" ?d]
  obtain mB where B: "load_labels env ?d ?T mA = (True, mB)"
    "m_texture_count mB = m_texture_count m"
    "\<forall>i<m_texture_count m. m_textures mB i = m_textures m i"
    "map tex_path (textures mB) = map tex_path (textures m)"
    "map tex_flags (textures mB) = map tex_flags (textures m)"
    "m_shader mB = m_shader mA" by auto
  from load_saved_tail [OF assms(6), of ?d sh "getUniformCount sh" mB]
  obtain mC where C: "load_labels env ?d ?tail mB = (True, mC)"
    "m_define_mask mC = m_define_mask m"
    "length (m_uniforms mC) = getUniformCount sh"
    "\<forall>i<getUniformCount sh. uniform_value env (su_type (getUniform sh i)) (m_uniforms mC ! i) =
                  uniform_value env (su_type (getUniform sh i)) (m_uniforms m ! i)"
    "m_shininess mC = m_shininess m" "m_alpha_ref mC = m_alpha_ref m" "m_color mC = m_color m"
    "m_shader mC = m_shader mB" "textures mC = textures mB" "m_textures mC = m_textures mB"
    "m_texture_count mC = m_texture_count mB" by blast
  have all: "load_labels env ?d (object_entries ?doc) ?m0 = (True, mC)"
    unfolding entries A by (simp add: load_labels_append B(1) C(1) del: load_labels.simps)
  have shC: "m_shader mC = Some sh" using C(8) B(6) mA(1) by simp
  let ?m' = "mC\<lparr>m_size := n\<rparr>"
  have loaded: "load env \<lparr>file_document = ?doc, file_size = n\<rparr> ?fresh = (True, ?m')"
    using all shC by (simp add: load_unfold Let_def)
  have slots: "\<forall>i<m_texture_count m. slot_texture ?m' i = slot_texture m i"
  proof (intro allI impI)
    fix i assume i: "i < m_texture_count m"
    show "slot_texture ?m' i = slot_texture m i"
    proof (cases "m_textures m i")
      case None
      with i B(3) C(10) show ?thesis by (simp add: slot_texture_def)
    next
      case (Some t)
      with assms(5) i have t: "t < length (textures m)"
        by (auto simp: savable_slots_def savable_texture_def list_all_iff split: option.splits)
      from B(4) have "map tex_path (textures mB) ! t = map tex_path (textures m) ! t" by simp
      moreover from B(5) have "map tex_flags (textures mB) ! t = map tex_flags (textures m) ! t"
        by simp
      moreover from B(4) have "length (textures mB) = length (textures m)" by (metis length_map)
      ultimately have "tex_path (textures mB ! t) = tex_path (textures m ! t)"
        "tex_flags (textures mB ! t) = tex_flags (textures m ! t)"
        using t by simp_all
      with Some i B(3) C(9,10) show ?thesis
        by (simp add: slot_texture_def texture_at_def)
    qed
  qed
  show ?thesis
    using saved loaded shC C(2-7,11) B(2) slots
    by (intro exI [of _ ?doc] exI [of _ ?m']) simp
qed

lemma save_load_round_trip_demo:
  "isReady demo_ready \<and> m_shader demo_ready = Some demo_shader \<and>
   fst (save demo_env demo_ready []) \<and>
   fst (load demo_env \<lparr>file_document = hd (snd (save demo_env demo_ready [])), file_size = 0\<rparr>
          (Material_new demo_env ''models/copy.mat'' (textures demo_ready) (trace demo_ready))) \<and>
   m_define_mask
     (snd (load demo_env \<lparr>file_document = hd (snd (save demo_env demo_ready [])), file_size = 0\<rparr>
          (Material_new demo_env ''models/copy.mat'' (textures demo_ready) (trace demo_ready))))
     = m_define_mask demo_ready \<and>
   slot_texture
     (snd (load demo_env \<lparr>file_document = hd (snd (save demo_env demo_ready [])), file_size = 0\<rparr>
          (Material_new demo_env ''models/copy.mat'' (textures demo_ready) (trace demo_ready)))) 1
     = slot_texture demo_ready 1 \<and>
   slot_texture demo_ready 1 = Some (''textures/n.dds'', 66) \<and>
   uniform_value demo_env FLOAT
     (m_uniforms
       (snd (load demo_env \<lparr>file_document = hd (snd (save demo_env demo_ready [])), file_size = 0\<rparr>
          (Material_new demo_env ''models/copy.mat'' (textures demo_ready) (trace demo_ready)))) ! 0)
     = uniform_value demo_env FLOAT (m_uniforms demo_ready ! 0) \<and>
   m_color
     (snd (load demo_env \<lparr>file_document = hd (snd (save demo_env demo_ready [])), file_size = 0\<rparr>
          (Material_new demo_env ''models/copy.mat'' (textures demo_ready) (trace demo_ready))))
     = m_color demo_ready"
proof -
  have r: "isReady demo_ready" by code_simp
  have s: "m_shader demo_ready = Some demo_shader" by code_simp
  have u: "getUniformCount demo_shader \<le> length (m_uniforms demo_ready)" by code_simp
  have l: "shader_manager_load demo_env (take (MAX_PATH_LENGTH demo_env - 1) (sh_path demo_shader))
             = Some demo_shader" by code_simp
  have t: "savable_slots demo_env demo_ready" by code_simp
  have d: "savable_defines demo_env demo_ready" by code_simp
  have p: "distinct (map tex_path (textures demo_ready))" by code_simp
  have x: "2 \<le> MAX_PATH_LENGTH demo_env" by (simp add: demo_env_def)
  have c: "m_texture_count demo_ready = 2" by code_simp
  have n: "getUniformCount demo_shader = 3" by code_simp
  have ty: "su_type (getUniform demo_shader 0) = FLOAT" by code_simp
  have v: "slot_texture demo_ready 1 = Some (''textures/n.dds'', 66)" by code_simp
  have mx: "m_texture_count demo_ready \<le> MAX_TEXTURE_COUNT demo_env" by code_simp
  from save_load_round_trip [OF r s u l t d p x mx, of 0 "''models/copy.mat''"]
  obtain doc m' where rt: "save demo_env demo_ready [] = (True, [doc])"
    "load demo_env \<lparr>file_document = doc, file_size = 0\<rparr>
       (Material_new demo_env ''models/copy.mat'' (textures demo_ready) (trace demo_ready)) = (True, m')"
    "m_define_mask m' = m_define_mask demo_ready"
    "\<forall>i<m_texture_count demo_ready. slot_texture m' i = slot_texture demo_ready i"
    "\<forall>i<getUniformCount demo_shader.
        uniform_value demo_env (su_type (getUniform demo_shader i)) (m_uniforms m' ! i) =
        uniform_value demo_env (su_type (getUniform demo_shader i)) (m_uniforms demo_ready ! i)"
    "m_color m' = m_color demo_ready"
    by blast
  from rt(4) c have s1: "slot_texture m' 1 = slot_texture demo_ready 1" by simp
  from rt(5) n ty have u0: "uniform_value demo_env FLOAT (m_uniforms m' ! 0) =
      uniform_value demo_env FLOAT (m_uniforms demo_ready ! 0)" by force
  from rt(1,2,3,6) s1 u0 r s v show ?thesis by simp
qed

text \<open>
  Claim C2 (the code departs from it). A material is loaded from a document whose
  texture path has 259 characters, the longest that \<^verbatim>\<open>deserializeTexture\<close> binds, and
  is ready, with a shader. \<^verbatim>\<open>save\<close> succeeds, and \<^verbatim>\<open>load\<close> of what it wrote succeeds,
  but the texture of slot 0 comes back with a path that has lost its last character:
  \<^verbatim>\<open>save\<close> puts a separator and the path into a buffer of \<^verbatim>\<open>MAX_PATH_LENGTH\<close>
  characters, which holds the separator, 258 characters of the path and the
  terminator.
\<close>

theorem save_load_long_texture_path:
  "isReady long_ready \<and> m_shader long_ready = Some demo_shader \<and>
   map_option fst (slot_texture long_ready 0) = Some (''models/'' @ long_source) \<and>
   length (''models/'' @ long_source) = 259 \<and>
   fst (save demo_env long_ready []) \<and>
   fst long_copy \<and>
   map_option fst (slot_texture (snd long_copy) 0) = Some (butlast (''models/'' @ long_source)) \<and>
   slot_texture (snd long_copy) 0 \<noteq> slot_texture long_ready 0"
proof -
  have A: "let m = long_ready
           in isReady m \<and> m_shader m = Some demo_shader \<and>
              map_option fst (slot_texture m 0) = Some (''models/'' @ long_source)"
    by code_simp
  have B: "let c = long_copy
           in fst c \<and>
              map_option fst (slot_texture (snd c) 0) = Some (butlast (''models/'' @ long_source))"
    by code_simp
  from A have r: "isReady long_ready" and s: "m_shader long_ready = Some demo_shader"
    and p: "map_option fst (slot_texture long_ready 0) = Some (''models/'' @ long_source)"
    by (simp_all only: Let_def)
  from B have c: "fst long_copy"
    and q: "map_option fst (slot_texture (snd long_copy) 0) =
             Some (butlast (''models/'' @ long_source))"
    by (simp_all only: Let_def)
  have n: "length (''models/'' @ long_source) = 259" by (simp add: long_source_def)
  have w: "fst (save demo_env long_ready [])" using r s by (simp add: save_def)
  have "slot_texture (snd long_copy) 0 \<noteq> slot_texture long_ready 0"
  proof
    assume "slot_texture (snd long_copy) 0 = slot_texture long_ready 0"
    then have "map_option fst (slot_texture (snd long_copy) 0) =
               map_option fst (slot_texture long_ready 0)"
      by (rule arg_cong)
    then have "Some (butlast (''models/'' @ long_source)) = Some (''models/'' @ long_source)"
      unfolding p q .
    then have "butlast (''models/'' @ long_source) = ''models/'' @ long_source"
      by (simp only: option.inject)
    then have "length (butlast (''models/'' @ long_source)) = length (''models/'' @ long_source)"
      by (rule arg_cong)
    then show False by (simp add: long_source_def)
  qed
  with r s p n w c q show ?thesis by (simp only: simp_thms)
qed

end
